theory Spec2Isabelle
  imports Main
begin

unbundle bit_operations_syntax

section \<open>Data model\<close>

text \<open>
  Byte slices and Go strings are both sequences of 8-bit characters. An instant
  (\<open>time.Time\<close>) and a duration (\<open>time.Duration\<close>, a count of nanoseconds) are
  integers; the code never does arithmetic on them itself, it only hands them to the
  \<open>time\<close> package.
\<close>

type_synonym bytes = string
type_synonym time = int
type_synonym duration = int
type_synonym ip = bytes
type_synonym handle = nat

subsection \<open>options.go\<close>

definition CurveP224 :: string where "CurveP224 = ''P224''"
definition CurveP256 :: string where "CurveP256 = ''P256''"
definition CurveP384 :: string where "CurveP384 = ''P384''"
definition CurveP521 :: string where "CurveP521 = ''P521''"

record options =
  parentCert :: string
  parentKey :: string
  certFileName :: string
  keyFileName :: string
  validFrom :: string
  validFor :: duration
  rsaBits :: int
  ecdsaCurve :: string
  ed25519Key :: bool
  isCA :: bool

text \<open>
  \<open>type Option func(*options)\<close>: a closure that updates the options in place. The
  model passes the record and returns the updated one. The closures considered are the
  non-nil ones.
\<close>

type_synonym Option = "options \<Rightarrow> options"

text \<open>\<open>time.Hour\<close> in nanoseconds.\<close>

definition time_Hour :: duration where
  "time_Hour = 3600 * 1000000000"

text \<open>Fields that \<open>initOptions\<close> does not name hold Go's zero value.\<close>

definition initOptions :: options where
  "initOptions =
     \<lparr> parentCert = '''', parentKey = '''',
       certFileName = ''cert.pem'',
       keyFileName = ''key.pem'',
       validFrom = '''',
       validFor = 365 * 24 * time_Hour,
       rsaBits = 2048,
       ecdsaCurve = '''', ed25519Key = False, isCA = False \<rparr>"

definition WithKeyFileName :: "string \<Rightarrow> Option" where
  "WithKeyFileName name = (\<lambda>cfg. cfg\<lparr>keyFileName := name\<rparr>)"

definition WithCertFileName :: "string \<Rightarrow> Option" where
  "WithCertFileName name = (\<lambda>cfg. cfg\<lparr>certFileName := name\<rparr>)"

definition WithSignByParent :: "string \<Rightarrow> string \<Rightarrow> Option" where
  "WithSignByParent parentCertPath parentKeyPath =
     (\<lambda>cfg. cfg\<lparr>parentCert := parentCertPath, parentKey := parentKeyPath\<rparr>)"

definition WithStartDate :: "string \<Rightarrow> Option" where
  "WithStartDate startDate = (\<lambda>cfg. cfg\<lparr>validFrom := startDate\<rparr>)"

definition WithDuration :: "duration \<Rightarrow> Option" where
  "WithDuration d = (\<lambda>cfg. cfg\<lparr>validFor := d\<rparr>)"

definition WithCA :: Option where
  "WithCA = (\<lambda>cfg. cfg\<lparr>isCA := True\<rparr>)"

definition WithRSABits :: "int \<Rightarrow> Option" where
  "WithRSABits bits = (\<lambda>cfg. cfg\<lparr>rsaBits := bits\<rparr>)"

definition WithP224 :: Option where
  "WithP224 = (\<lambda>cfg. cfg\<lparr>ecdsaCurve := CurveP224\<rparr>)"

definition WithP256 :: Option where
  "WithP256 = (\<lambda>cfg. cfg\<lparr>ecdsaCurve := CurveP256\<rparr>)"

definition WithP384 :: Option where
  "WithP384 = (\<lambda>cfg. cfg\<lparr>ecdsaCurve := CurveP384\<rparr>)"

definition WithP521 :: Option where
  "WithP521 = (\<lambda>cfg. cfg\<lparr>ecdsaCurve := CurveP521\<rparr>)"

definition WithED25519 :: Option where
  "WithED25519 = (\<lambda>cfg. cfg\<lparr>ed25519Key := True\<rparr>)"

text \<open>
  The first statements of \<open>Generate\<close> after the host check:
  \<^verbatim>\<open>o := initOptions(); for _, opt := range opts { opt(&o) }\<close>
\<close>

definition applyOptions :: "Option list \<Rightarrow> options" where
  "applyOptions opts = foldl (\<lambda>cfg opt. opt cfg) initOptions opts"

subsection \<open>Keys, certificates and PEM blocks\<close>

text \<open>The named curves of \<open>crypto/elliptic\<close>.\<close>

datatype curve = P224 | P256 | P384 | P521

text \<open>
  The dynamic type of a Go value of type \<open>any\<close> that holds a private key:
  \<open>*rsa.PrivateKey\<close> and \<open>*ecdsa.PrivateKey\<close> (each with its embedded
  \<open>PublicKey\<close> first), \<open>ed25519.PrivateKey\<close>, or anything else
  \<open>x509.ParsePKCS8PrivateKey\<close> may return.
\<close>

datatype private_key =
    RSAPrivateKey bytes bytes
  | ECDSAPrivateKey curve bytes bytes
  | Ed25519PrivateKey bytes
  | OtherPrivateKey bytes

datatype public_key =
    RSAPublicKey bytes
  | ECDSAPublicKey curve bytes
  | Ed25519PublicKey bytes
  | NilPublicKey

text \<open>
  \<open>x509.KeyUsage\<close> is a bit mask; the three constants used have the values of
  \<open>crypto/x509\<close> (\<open>1 << iota\<close>: bits 0, 2 and 5).
\<close>

definition KeyUsageDigitalSignature :: int where "KeyUsageDigitalSignature = 1"
definition KeyUsageKeyEncipherment :: int where "KeyUsageKeyEncipherment = 4"
definition KeyUsageCertSign :: int where "KeyUsageCertSign = 32"

datatype ext_key_usage =
    ExtKeyUsageAny
  | ExtKeyUsageServerAuth
  | ExtKeyUsageClientAuth
  | ExtKeyUsageCodeSigning
  | ExtKeyUsageEmailProtection

record pkix_Name =
  Organization :: "string list"

text \<open>
  The fields of \<open>x509.Certificate\<close> that the code names, and \<open>Raw\<close> standing for
  the rest of a parsed certificate. A field the template literal leaves out is zero.
\<close>

record certificate =
  Raw :: bytes
  SerialNumber :: int
  Subject :: pkix_Name
  NotBefore :: time
  NotAfter :: time
  KeyUsage :: int
  ExtKeyUsage :: "ext_key_usage list"
  BasicConstraintsValid :: bool
  IsCA :: bool
  DNSNames :: "string list"
  IPAddresses :: "ip list"

record pem_Block =
  Type :: string
  Bytes :: bytes

text \<open>
  \<open>x509.VerifyOptions\<close>: a certificate pool is the list of certificates added to it;
  \<open>CurrentTime\<close> is \<open>None\<close> for the zero time, for which the library takes the
  current time.
\<close>

record VerifyOptions =
  DNSName :: string
  Roots :: "certificate list"
  CurrentTime :: "time option"

datatype open_flag = O_RDONLY | O_WRONLY | O_RDWR | O_APPEND | O_CREATE | O_EXCL | O_SYNC | O_TRUNC

text \<open>The file mode \<open>0600\<close> (octal): read and write for the owner, nothing else.\<close>

definition FileMode_0600 :: nat where "FileMode_0600 = 6 * 8 * 8"

subsection \<open>Errors\<close>

text \<open>
  One constructor for each format string given to \<open>fmt.Errorf\<close>; the argument is the
  text of the wrapped error (or of the quoted curve name).
\<close>

datatype error =
    MissingHost
  | UnrecognizedEllipticCurve string
  | FailedToGeneratePrivateKey string
  | FailedToParseCreationDate string
  | FailedToGenerateSerialNumber string
  | FailedToCreateCertificate string
  | FailedToOpenCert string
  | FailedToWriteCert string
  | ErrorClosingCert string
  | FailedToOpenKey string
  | UnableToMarshalPrivateKey string
  | FailedToWriteKey string
  | ErrorClosingKey string
  | FailedToReadFile string
  | FailedToParseCertificatePEM
  | FailedToParseKeyPEM
  | FailedToParseDERData string
  | FailedToVerifyCertificate string

section \<open>The libraries and the world\<close>

text \<open>
  The standard library is a parameter. A function that reads or changes the outside
  world (the random source, the clock, the file system) takes the environment \<open>'e\<close> and
  returns the new one; a failing call returns the text of its error.
\<close>

record 'e lib =
  ed25519_GenerateKey :: "'e \<Rightarrow> (string + bytes \<times> bytes) \<times> 'e"
  ed25519_Public :: "bytes \<Rightarrow> bytes"
  rsa_GenerateKey :: "int \<Rightarrow> 'e \<Rightarrow> (string + bytes \<times> bytes) \<times> 'e"
  ecdsa_GenerateKey :: "curve \<Rightarrow> 'e \<Rightarrow> (string + bytes \<times> bytes) \<times> 'e"
  time_Now :: "'e \<Rightarrow> time \<times> 'e"
  time_Parse :: "string \<Rightarrow> string \<Rightarrow> string + time"
  time_Add :: "time \<Rightarrow> duration \<Rightarrow> time"
  rand_Int :: "int \<Rightarrow> 'e \<Rightarrow> (string + int) \<times> 'e"
  net_ParseIP :: "string \<Rightarrow> ip option"
  x509_CreateCertificate ::
    "certificate \<Rightarrow> certificate \<Rightarrow> public_key \<Rightarrow> private_key \<Rightarrow> 'e \<Rightarrow> (string + bytes) \<times> 'e"
  x509_MarshalPKCS8PrivateKey :: "private_key \<Rightarrow> string + bytes"
  x509_ParseCertificate :: "bytes \<Rightarrow> string + certificate"
  x509_ParsePKCS8PrivateKey :: "bytes \<Rightarrow> string + private_key"
  x509_Verify :: "certificate \<Rightarrow> VerifyOptions \<Rightarrow> 'e \<Rightarrow> string option \<times> 'e"
  pem_Encode :: "handle \<Rightarrow> pem_Block \<Rightarrow> 'e \<Rightarrow> string option \<times> 'e"
  pem_Decode :: "bytes \<Rightarrow> pem_Block option"
  os_Create :: "string \<Rightarrow> 'e \<Rightarrow> (string + handle) \<times> 'e"
  os_OpenFile :: "string \<Rightarrow> open_flag set \<Rightarrow> nat \<Rightarrow> 'e \<Rightarrow> (string + handle) \<times> 'e"
  os_ReadFile :: "string \<Rightarrow> 'e \<Rightarrow> (string + bytes) \<times> 'e"
  file_Close :: "handle \<Rightarrow> 'e \<Rightarrow> string option \<times> 'e"

text \<open>Every call that touches the environment is recorded, with what it returned.\<close>

datatype event =
    Call_ed25519_GenerateKey "string + bytes \<times> bytes"
  | Call_rsa_GenerateKey int "string + bytes \<times> bytes"
  | Call_ecdsa_GenerateKey curve "string + bytes \<times> bytes"
  | Call_time_Now time
  | Call_rand_Int int "string + int"
  | Call_x509_CreateCertificate certificate certificate public_key private_key "string + bytes"
  | Call_x509_Verify certificate VerifyOptions "string option"
  | Call_pem_Encode handle pem_Block "string option"
  | Call_os_Create string "string + handle"
  | Call_os_OpenFile string "open_flag set" nat "string + handle"
  | Call_os_ReadFile string "string + bytes"
  | Call_file_Close handle "string option"

record 'e world =
  env :: 'e
  trace :: "event list"

definition invoke :: "('a \<Rightarrow> event) \<Rightarrow> ('e \<Rightarrow> 'a \<times> 'e) \<Rightarrow> 'e world \<Rightarrow> 'a \<times> 'e world" where
  "invoke ev f w =
     (case f (env w) of (r, e) \<Rightarrow> (r, \<lparr>env = e, trace = trace w @ [ev r]\<rparr>))"

section \<open>Loading PEM files\<close>

definition ParsePemCertFile ::
  "'e lib \<Rightarrow> string \<Rightarrow> 'e world \<Rightarrow> (error + certificate) \<times> 'e world" where
  "ParsePemCertFile L path w =
     (case invoke (Call_os_ReadFile path) (os_ReadFile L path) w of
        (Inl err, w1) \<Rightarrow> (Inl (FailedToReadFile err), w1)
      | (Inr der, w1) \<Rightarrow>
          (case pem_Decode L der of
             None \<Rightarrow> (Inl FailedToParseCertificatePEM, w1)
           | Some block \<Rightarrow>
               if Type block \<noteq> ''CERTIFICATE'' then (Inl FailedToParseCertificatePEM, w1)
               else
                 (case x509_ParseCertificate L (Bytes block) of
                    Inl err \<Rightarrow> (Inl (FailedToParseDERData err), w1)
                  | Inr parsed \<Rightarrow> (Inr parsed, w1))))"

definition ParsePemKeyFile ::
  "'e lib \<Rightarrow> string \<Rightarrow> 'e world \<Rightarrow> (error + private_key) \<times> 'e world" where
  "ParsePemKeyFile L path w =
     (case invoke (Call_os_ReadFile path) (os_ReadFile L path) w of
        (Inl err, w1) \<Rightarrow> (Inl (FailedToReadFile err), w1)
      | (Inr der, w1) \<Rightarrow>
          (case pem_Decode L der of
             None \<Rightarrow> (Inl FailedToParseKeyPEM, w1)
           | Some block \<Rightarrow>
               if Type block \<noteq> ''PRIVATE KEY'' then (Inl FailedToParseKeyPEM, w1)
               else
                 (case x509_ParsePKCS8PrivateKey L (Bytes block) of
                    Inl err \<Rightarrow> (Inl (FailedToParseDERData err), w1)
                  | Inr pkey \<Rightarrow> (Inr pkey, w1))))"

definition publicKey :: "'e lib \<Rightarrow> private_key \<Rightarrow> public_key" where
  "publicKey L priv =
     (case priv of
        RSAPrivateKey pub d \<Rightarrow> RSAPublicKey pub
      | ECDSAPrivateKey c pub d \<Rightarrow> ECDSAPublicKey c pub
      | Ed25519PrivateKey k \<Rightarrow> Ed25519PublicKey (ed25519_Public L k)
      | OtherPrivateKey k \<Rightarrow> NilPublicKey)"

section \<open>Verify\<close>


section \<open>Generate\<close>

subsection \<open>The key pair: the switch on the curve name and the check of its error\<close>

definition ecdsaKey :: "'e lib \<Rightarrow> curve \<Rightarrow> 'e world \<Rightarrow> (error + private_key) \<times> 'e world" where
  "ecdsaKey L c w =
     (case invoke (Call_ecdsa_GenerateKey c) (ecdsa_GenerateKey L c) w of
        (Inl err, w1) \<Rightarrow> (Inl (FailedToGeneratePrivateKey err), w1)
      | (Inr (pub, d), w1) \<Rightarrow> (Inr (ECDSAPrivateKey c pub d), w1))"

definition generateKey :: "'e lib \<Rightarrow> options \<Rightarrow> 'e world \<Rightarrow> (error + private_key) \<times> 'e world" where
  "generateKey L cfg w =
     (if ecdsaCurve cfg = '''' then
        (if ed25519Key cfg then
           (case invoke Call_ed25519_GenerateKey (ed25519_GenerateKey L) w of
              (Inl err, w1) \<Rightarrow> (Inl (FailedToGeneratePrivateKey err), w1)
            | (Inr (pub, priv), w1) \<Rightarrow> (Inr (Ed25519PrivateKey priv), w1))
         else
           (case invoke (Call_rsa_GenerateKey (rsaBits cfg)) (rsa_GenerateKey L (rsaBits cfg)) w of
              (Inl err, w1) \<Rightarrow> (Inl (FailedToGeneratePrivateKey err), w1)
            | (Inr (pub, d), w1) \<Rightarrow> (Inr (RSAPrivateKey pub d), w1)))
      else if ecdsaCurve cfg = CurveP224 then ecdsaKey L P224 w
      else if ecdsaCurve cfg = CurveP256 then ecdsaKey L P256 w
      else if ecdsaCurve cfg = CurveP384 then ecdsaKey L P384 w
      else if ecdsaCurve cfg = CurveP521 then ecdsaKey L P521 w
      else (Inl (UnrecognizedEllipticCurve (ecdsaCurve cfg)), w))"

subsection \<open>The template\<close>

definition keyUsageFor :: "private_key \<Rightarrow> int" where
  "keyUsageFor priv =
     (let keyUsage = KeyUsageDigitalSignature in
      case priv of
        RSAPrivateKey pub d \<Rightarrow> keyUsage OR KeyUsageKeyEncipherment
      | _ \<Rightarrow> keyUsage)"

definition startTime :: "'e lib \<Rightarrow> options \<Rightarrow> 'e world \<Rightarrow> (error + time) \<times> 'e world" where
  "startTime L cfg w =
     (if length (validFrom cfg) = 0 then
        (case invoke Call_time_Now (time_Now L) w of (now, w1) \<Rightarrow> (Inr now, w1))
      else
        (case time_Parse L ''Jan 2 15:04:05 2006'' (validFrom cfg) of
           Inl err \<Rightarrow> (Inl (FailedToParseCreationDate err), w)
         | Inr t \<Rightarrow> (Inr t, w)))"

text \<open>
  \<open>strings.Split(host, ",")\<close>: the separator of the one call is a single character.
  The empty string splits into one empty token.
\<close>

fun strings_Split :: "string \<Rightarrow> char \<Rightarrow> string list" where
  "strings_Split [] sep = [[]]"
| "strings_Split (c # cs) sep =
     (if c = sep then [] # strings_Split cs sep
      else (case strings_Split cs sep of
              [] \<Rightarrow> [[c]]
            | t # ts \<Rightarrow> (c # t) # ts))"

definition addHost :: "'e lib \<Rightarrow> certificate \<Rightarrow> string \<Rightarrow> certificate" where
  "addHost L template h =
     (case net_ParseIP L h of
        Some ip \<Rightarrow> template\<lparr>IPAddresses := IPAddresses template @ [ip]\<rparr>
      | None \<Rightarrow> template\<lparr>DNSNames := DNSNames template @ [h]\<rparr>)"

definition buildTemplate ::
  "'e lib \<Rightarrow> string \<Rightarrow> options \<Rightarrow> int \<Rightarrow> time \<Rightarrow> time \<Rightarrow> int \<Rightarrow> certificate" where
  "buildTemplate L host cfg serialNumber notBefore notAfter keyUsage =
     (let template =
            \<lparr> Raw = [],
              SerialNumber = serialNumber,
              Subject = \<lparr>Organization = [''Acme Co'']\<rparr>,
              NotBefore = notBefore,
              NotAfter = notAfter,
              KeyUsage = keyUsage,
              ExtKeyUsage = [ExtKeyUsageServerAuth],
              BasicConstraintsValid = True,
              IsCA = False,
              DNSNames = [],
              IPAddresses = [] \<rparr>;
          hosts = strings_Split host (CHR '','');
          template = foldl (addHost L) template hosts
      in if isCA cfg
         then template\<lparr>IsCA := True, KeyUsage := KeyUsage template OR KeyUsageCertSign\<rparr>
         else template)"

subsection \<open>The issuer and the signing key\<close>

definition signer ::
  "'e lib \<Rightarrow> options \<Rightarrow> certificate \<Rightarrow> private_key \<Rightarrow> 'e world
     \<Rightarrow> (error + certificate \<times> private_key) \<times> 'e world" where
  "signer L cfg template priv w =
     (if length (parentCert cfg) > 0 then
        (case ParsePemCertFile L (parentCert cfg) w of
           (Inl err, w1) \<Rightarrow> (Inl err, w1)
         | (Inr issuer, w1) \<Rightarrow>
             (case ParsePemKeyFile L (parentKey cfg) w1 of
                (Inl err, w2) \<Rightarrow> (Inl err, w2)
              | (Inr issuerKey, w2) \<Rightarrow> (Inr (issuer, issuerKey), w2)))
      else (Inr (template, priv), w))"

subsection \<open>Writing the two files\<close>

definition writeFiles ::
  "'e lib \<Rightarrow> string \<Rightarrow> options \<Rightarrow> bytes \<Rightarrow> private_key \<Rightarrow> 'e world \<Rightarrow> error option \<times> 'e world" where
  "writeFiles L dest cfg derBytes priv w =
     (let certPath = dest @ ''/'' @ certFileName cfg in
      case invoke (Call_os_Create certPath) (os_Create L certPath) w of
        (Inl err, w1) \<Rightarrow> (Some (FailedToOpenCert err), w1)
      | (Inr certOut, w1) \<Rightarrow>
      (let certBlock = \<lparr>Type = ''CERTIFICATE'', Bytes = derBytes\<rparr> in
       case invoke (Call_pem_Encode certOut certBlock) (pem_Encode L certOut certBlock) w1 of
         (Some err, w2) \<Rightarrow> (Some (FailedToWriteCert err), w2)
       | (None, w2) \<Rightarrow>
       (case invoke (Call_file_Close certOut) (file_Close L certOut) w2 of
          (Some err, w3) \<Rightarrow> (Some (ErrorClosingCert err), w3)
        | (None, w3) \<Rightarrow>
        (let keyPath = dest @ ''/'' @ keyFileName cfg;
             flags = {O_WRONLY, O_CREATE, O_TRUNC} in
         case invoke (Call_os_OpenFile keyPath flags FileMode_0600)
                (os_OpenFile L keyPath flags FileMode_0600) w3 of
           (Inl err, w4) \<Rightarrow> (Some (FailedToOpenKey err), w4)
         | (Inr keyOut, w4) \<Rightarrow>
         (case x509_MarshalPKCS8PrivateKey L priv of
            Inl err \<Rightarrow> (Some (UnableToMarshalPrivateKey err), w4)
          | Inr privBytes \<Rightarrow>
          (let keyBlock = \<lparr>Type = ''PRIVATE KEY'', Bytes = privBytes\<rparr> in
           case invoke (Call_pem_Encode keyOut keyBlock) (pem_Encode L keyOut keyBlock) w4 of
             (Some err, w5) \<Rightarrow> (Some (FailedToWriteKey err), w5)
           | (None, w5) \<Rightarrow>
           (case invoke (Call_file_Close keyOut) (file_Close L keyOut) w5 of
              (Some err, w6) \<Rightarrow> (Some (ErrorClosingKey err), w6)
            | (None, w6) \<Rightarrow> (None, w6))))))))"

subsection \<open>The whole function\<close>

definition serialNumberLimit :: int where
  "serialNumberLimit = push_bit 128 1"

definition Generate ::
  "'e lib \<Rightarrow> string \<Rightarrow> string \<Rightarrow> Option list \<Rightarrow> 'e world \<Rightarrow> error option \<times> 'e world" where
  "Generate L host dest opts w =
     (if length host = 0 then (Some MissingHost, w)
      else
        (let cfg = applyOptions opts in
         case generateKey L cfg w of
           (Inl err, w1) \<Rightarrow> (Some err, w1)
         | (Inr priv, w1) \<Rightarrow>
         (let keyUsage = keyUsageFor priv in
          case startTime L cfg w1 of
            (Inl err, w2) \<Rightarrow> (Some err, w2)
          | (Inr notBefore, w2) \<Rightarrow>
          (let notAfter = time_Add L notBefore (validFor cfg) in
           case invoke (Call_rand_Int serialNumberLimit) (rand_Int L serialNumberLimit) w2 of
             (Inl err, w3) \<Rightarrow> (Some (FailedToGenerateSerialNumber err), w3)
           | (Inr serialNumber, w3) \<Rightarrow>
           (let template = buildTemplate L host cfg serialNumber notBefore notAfter keyUsage in
            case signer L cfg template priv w3 of
              (Inl err, w4) \<Rightarrow> (Some err, w4)
            | (Inr (issuer, issuerKey), w4) \<Rightarrow>
            (case invoke (Call_x509_CreateCertificate template issuer (publicKey L priv) issuerKey)
                    (x509_CreateCertificate L template issuer (publicKey L priv) issuerKey) w4 of
               (Inl err, w5) \<Rightarrow> (Some (FailedToCreateCertificate err), w5)
             | (Inr derBytes, w5) \<Rightarrow> writeFiles L dest cfg derBytes priv w5))))))"

section \<open>Observing a run\<close>

text \<open>
  The library calls made from the world \<open>w\<close> to the later world \<open>w'\<close>, and a
  classification of the calls.
\<close>

definition calls :: "'e world \<Rightarrow> 'e world \<Rightarrow> event list" where
  "calls w w' = drop (length (trace w)) (trace w')"

datatype call_kind = KeyGeneration | Clock | Random | Signing | Verification | FileRead | FileWrite

fun kind :: "event \<Rightarrow> call_kind" where
  "kind (Call_ed25519_GenerateKey r) = KeyGeneration"
| "kind (Call_rsa_GenerateKey bits r) = KeyGeneration"
| "kind (Call_ecdsa_GenerateKey c r) = KeyGeneration"
| "kind (Call_time_Now t) = Clock"
| "kind (Call_rand_Int n r) = Random"
| "kind (Call_x509_CreateCertificate t p pub k r) = Signing"
| "kind (Call_x509_Verify c vo r) = Verification"
| "kind (Call_pem_Encode h b r) = FileWrite"
| "kind (Call_os_Create p r) = FileWrite"
| "kind (Call_os_OpenFile p f m r) = FileWrite"
| "kind (Call_os_ReadFile p r) = FileRead"
| "kind (Call_file_Close h r) = FileWrite"

definition of_kind :: "call_kind \<Rightarrow> event list \<Rightarrow> event list" where
  "of_kind k evs = filter (\<lambda>e. kind e = k) evs"

text \<open>
  Reading a log against the library: \<open>perform\<close> makes the recorded call at an
  environment and gives the environment it leaves, provided that the library's answer is
  the recorded one; \<open>replay\<close> does so for a list of calls, each at the environment
  that the one before it left.
\<close>

fun perform :: "'e lib \<Rightarrow> event \<Rightarrow> 'e \<Rightarrow> 'e option" where
  "perform L (Call_ed25519_GenerateKey r) e =
     (case ed25519_GenerateKey L e of (r', e') \<Rightarrow> if r' = r then Some e' else None)"
| "perform L (Call_rsa_GenerateKey bits r) e =
     (case rsa_GenerateKey L bits e of (r', e') \<Rightarrow> if r' = r then Some e' else None)"
| "perform L (Call_ecdsa_GenerateKey c r) e =
     (case ecdsa_GenerateKey L c e of (r', e') \<Rightarrow> if r' = r then Some e' else None)"
| "perform L (Call_time_Now t) e =
     (case time_Now L e of (t', e') \<Rightarrow> if t' = t then Some e' else None)"
| "perform L (Call_rand_Int n r) e =
     (case rand_Int L n e of (r', e') \<Rightarrow> if r' = r then Some e' else None)"
| "perform L (Call_x509_CreateCertificate t issuer pub k r) e =
     (case x509_CreateCertificate L t issuer pub k e of
        (r', e') \<Rightarrow> if r' = r then Some e' else None)"
| "perform L (Call_x509_Verify c vo r) e =
     (case x509_Verify L c vo e of (r', e') \<Rightarrow> if r' = r then Some e' else None)"
| "perform L (Call_pem_Encode h b r) e =
     (case pem_Encode L h b e of (r', e') \<Rightarrow> if r' = r then Some e' else None)"
| "perform L (Call_os_Create p r) e =
     (case os_Create L p e of (r', e') \<Rightarrow> if r' = r then Some e' else None)"
| "perform L (Call_os_OpenFile p flags mode r) e =
     (case os_OpenFile L p flags mode e of (r', e') \<Rightarrow> if r' = r then Some e' else None)"
| "perform L (Call_os_ReadFile p r) e =
     (case os_ReadFile L p e of (r', e') \<Rightarrow> if r' = r then Some e' else None)"
| "perform L (Call_file_Close h r) e =
     (case file_Close L h e of (r', e') \<Rightarrow> if r' = r then Some e' else None)"

fun replay :: "'e lib \<Rightarrow> event list \<Rightarrow> 'e \<Rightarrow> 'e option" where
  "replay L [] e = Some e"
| "replay L (ev # evs) e =
     (case perform L ev e of None \<Rightarrow> None | Some e' \<Rightarrow> replay L evs e')"

section \<open>The fields an option writes\<close>

datatype field =
    ParentCert | ParentKey | CertFileName | KeyFileName | ValidFrom
  | ValidFor | RsaBits | EcdsaCurve | Ed25519Key | IsCAFlag

text \<open>The fields in which two configurations differ, in the order of the struct.\<close>

definition changed :: "options \<Rightarrow> options \<Rightarrow> field list" where
  "changed a b =
     (if parentCert a \<noteq> parentCert b then [ParentCert] else []) @
     (if parentKey a \<noteq> parentKey b then [ParentKey] else []) @
     (if certFileName a \<noteq> certFileName b then [CertFileName] else []) @
     (if keyFileName a \<noteq> keyFileName b then [KeyFileName] else []) @
     (if validFrom a \<noteq> validFrom b then [ValidFrom] else []) @
     (if validFor a \<noteq> validFor b then [ValidFor] else []) @
     (if rsaBits a \<noteq> rsaBits b then [RsaBits] else []) @
     (if ecdsaCurve a \<noteq> ecdsaCurve b then [EcdsaCurve] else []) @
     (if ed25519Key a \<noteq> ed25519Key b then [Ed25519Key] else []) @
     (if isCA a \<noteq> isCA b then [IsCAFlag] else [])"

text \<open>The fields that an option changes in some configuration.\<close>

definition fields_of :: "Option \<Rightarrow> field set" where
  "fields_of opt = (\<Union>cfg. set (changed cfg (opt cfg)))"

text \<open>The options that the exported functions of options.go return.\<close>

inductive_set exported :: "Option set" where
  ex_KeyFileName: "WithKeyFileName name \<in> exported"
| ex_CertFileName: "WithCertFileName name \<in> exported"
| ex_SignByParent: "WithSignByParent parentCertPath parentKeyPath \<in> exported"
| ex_StartDate: "WithStartDate startDate \<in> exported"
| ex_Duration: "WithDuration d \<in> exported"
| ex_CA: "WithCA \<in> exported"
| ex_RSABits: "WithRSABits bits \<in> exported"
| ex_P224: "WithP224 \<in> exported"
| ex_P256: "WithP256 \<in> exported"
| ex_P384: "WithP384 \<in> exported"
| ex_P521: "WithP521 \<in> exported"
| ex_ED25519: "WithED25519 \<in> exported"

section \<open>A simulated environment\<close>

text \<open>
  A small instance of the libraries, to run the functions on concrete inputs: a file
  system as two association lists, for the contents and for the permission bits of the
  files (the newest binding of a path first), the paths behind the file handles, the
  paths that cannot be opened for writing, and a clock. A PEM block is stored as its
  type, a colon and its bytes.
\<close>

record sim =
  files :: "(string \<times> bytes) list"
  modes :: "(string \<times> nat) list"
  handles :: "string list"
  denied :: "string list"
  clock :: time

text \<open>
  Opening a file as \<open>os.OpenFile\<close> documents it: an existing file keeps its
  permission bits and loses its contents under \<open>O_TRUNC\<close>; a missing file is created
  under \<open>O_CREATE\<close>, with the permission bits of the call. \<open>os.Create\<close> is
  \<open>os.OpenFile\<close> with \<open>O_RDWR|O_CREATE|O_TRUNC\<close> and the mode 0666.
\<close>

definition sim_open :: "string \<Rightarrow> open_flag set \<Rightarrow> nat \<Rightarrow> sim \<Rightarrow> (string + handle) \<times> sim" where
  "sim_open p flags mode e =
     (if p \<in> set (denied e) then (Inl ''permission denied'', e)
      else
        (case map_of (files e) p of
           Some c \<Rightarrow>
             (Inr (length (handles e)),
              e\<lparr>files := (p, if O_TRUNC \<in> flags then [] else c) # files e,
                handles := handles e @ [p]\<rparr>)
         | None \<Rightarrow>
             if O_CREATE \<in> flags
             then (Inr (length (handles e)),
                   e\<lparr>files := (p, []) # files e, modes := (p, mode) # modes e,
                     handles := handles e @ [p]\<rparr>)
             else (Inl ''no such file'', e)))"

definition sim_write :: "handle \<Rightarrow> bytes \<Rightarrow> sim \<Rightarrow> string option \<times> sim" where
  "sim_write h bs e =
     (if h < length (handles e) then
        (let p = handles e ! h;
             old = (case map_of (files e) p of None \<Rightarrow> [] | Some c \<Rightarrow> c)
         in (None, e\<lparr>files := (p, old @ bs) # files e\<rparr>))
      else (Some ''bad file descriptor'', e))"

definition sim_decode :: "bytes \<Rightarrow> pem_Block option" where
  "sim_decode bs =
     (if CHR '':'' \<in> set bs
      then Some \<lparr>Type = takeWhile (\<lambda>c. c \<noteq> CHR '':'') bs,
                 Bytes = tl (dropWhile (\<lambda>c. c \<noteq> CHR '':'') bs)\<rparr>
      else None)"

definition sim_cert :: certificate where
  "sim_cert =
     \<lparr> Raw = ''der'', SerialNumber = 42, Subject = \<lparr>Organization = [''Acme Co'']\<rparr>,
       NotBefore = 0, NotAfter = 1, KeyUsage = 37, ExtKeyUsage = [ExtKeyUsageServerAuth],
       BasicConstraintsValid = True, IsCA = True, DNSNames = [''cadomain.cert''],
       IPAddresses = [] \<rparr>"

definition simLib :: "sim lib" where
  "simLib =
     \<lparr> ed25519_GenerateKey = (\<lambda>e. (Inr (''edpub'', ''edpriv''), e)),
       ed25519_Public = (\<lambda>k. ''edpub''),
       rsa_GenerateKey =
         (\<lambda>bits e. (if bits < 1024 then Inl ''key too small'' else Inr (''rsapub'', ''rsapriv''), e)),
       ecdsa_GenerateKey = (\<lambda>c e. (Inr (''ecpub'', ''ecpriv''), e)),
       time_Now = (\<lambda>e. (clock e, e)),
       time_Parse =
         (\<lambda>layout v. if v = ''Jan 1 00:00:00 2030'' then Inr 1893456000 else Inl ''cannot parse''),
       time_Add = (\<lambda>t d. t + d),
       rand_Int = (\<lambda>n e. (Inr 42, e)),
       net_ParseIP =
         (\<lambda>h. if h = ''127.0.0.1'' then Some ''v4:127.0.0.1''
              else if h = ''::1'' then Some ''v6:::1'' else None),
       x509_CreateCertificate = (\<lambda>t issuer pub k e. (Inr ''der'', e)),
       x509_MarshalPKCS8PrivateKey = (\<lambda>k. Inr ''pkcs8''),
       x509_ParseCertificate = (\<lambda>b. if b = ''der'' then Inr sim_cert else Inl ''malformed certificate''),
       x509_ParsePKCS8PrivateKey =
         (\<lambda>b. if b = ''pkcs8'' then Inr (RSAPrivateKey ''capub'' ''capriv'') else Inl ''malformed key''),
       x509_Verify =
         (\<lambda>c vo e. (if DNSName vo \<in> set (DNSNames c) then None else Some ''name mismatch'', e)),
       pem_Encode = (\<lambda>h b e. sim_write h (Type b @ '':'' @ Bytes b) e),
       pem_Decode = sim_decode,
       os_Create = (\<lambda>p e. sim_open p {O_RDWR, O_CREATE, O_TRUNC} (6 * 64 + 6 * 8 + 6) e),
       os_OpenFile = sim_open,
       os_ReadFile =
         (\<lambda>p e. (case map_of (files e) p of None \<Rightarrow> Inl ''no such file'' | Some c \<Rightarrow> Inr c, e)),
       file_Close = (\<lambda>h e. (None, e)) \<rparr>"

definition sim0 :: "sim world" where
  "sim0 =
     \<lparr>env = \<lparr>files = [], modes = [], handles = [], denied = [], clock = 1000\<rparr>, trace = []\<rparr>"

text \<open>A world in which a CA certificate and its key have been written before.\<close>

definition simCA :: "sim world" where
  "simCA =
     \<lparr>env = \<lparr>files = [(''out/ca_cert.pem'', ''CERTIFICATE:der''),
                      (''out/ca_key.pem'', ''PRIVATE KEY:pkcs8'')],
             modes = [(''out/ca_cert.pem'', 6 * 64 + 6 * 8 + 6), (''out/ca_key.pem'', 6 * 64)],
             handles = [], denied = [], clock = 1000\<rparr>,
      trace = []\<rparr>"



section \<open>Traces of the parts of Generate\<close>

lemma invoke_trace: "invoke ev f w = (r, w') \<Longrightarrow> trace w' = trace w @ [ev r]"
  by (auto simp: invoke_def split: prod.splits)

lemma calls_append: "trace w' = trace w @ evs \<Longrightarrow> calls w w' = evs"
  by (simp add: calls_def)

lemma calls_self: "calls w w = []"
  by (simp add: calls_def)

lemma ecdsaKey_trace:
  "ecdsaKey L c w = (r, w') \<Longrightarrow> \<exists>x. trace w' = trace w @ [Call_ecdsa_GenerateKey c x]"
  unfolding ecdsaKey_def
  by (auto split: prod.splits sum.splits dest: invoke_trace)

lemma generateKey_kind:
  "generateKey L cfg w = (r, w') \<Longrightarrow>
     \<exists>evs. trace w' = trace w @ evs \<and> (\<forall>e \<in> set evs. kind e = KeyGeneration)"
  unfolding generateKey_def
  by (auto split: if_splits prod.splits sum.splits dest!: invoke_trace ecdsaKey_trace)

lemma startTime_kind:
  "startTime L cfg w = (r, w') \<Longrightarrow>
     \<exists>evs. trace w' = trace w @ evs \<and> (\<forall>e \<in> set evs. kind e = Clock)"
  unfolding startTime_def
  by (auto split: if_splits prod.splits sum.splits dest!: invoke_trace)

lemma ParsePemCertFile_trace:
  "ParsePemCertFile L path w = (r, w') \<Longrightarrow> \<exists>x. trace w' = trace w @ [Call_os_ReadFile path x]"
  unfolding ParsePemCertFile_def
  by (auto split: if_splits prod.splits sum.splits option.splits dest!: invoke_trace)

lemma ParsePemKeyFile_trace:
  "ParsePemKeyFile L path w = (r, w') \<Longrightarrow> \<exists>x. trace w' = trace w @ [Call_os_ReadFile path x]"
  unfolding ParsePemKeyFile_def
  by (auto split: if_splits prod.splits sum.splits option.splits dest!: invoke_trace)

lemma signer_kind:
  "signer L cfg t priv w = (r, w') \<Longrightarrow>
     \<exists>evs. trace w' = trace w @ evs \<and> (\<forall>e \<in> set evs. kind e = FileRead)"
  unfolding signer_def
  by (auto split: if_splits prod.splits sum.splits dest!: ParsePemCertFile_trace ParsePemKeyFile_trace)

lemma writeFiles_kind:
  "writeFiles L dest cfg der priv w = (r, w') \<Longrightarrow>
     \<exists>evs. trace w' = trace w @ evs \<and> (\<forall>e \<in> set evs. kind e = FileWrite)"
  unfolding writeFiles_def Let_def
  by (auto split: if_splits prod.splits sum.splits option.splits dest!: invoke_trace)

text \<open>The ways in which a call of Generate can end, one for each return statement.\<close>

lemma Generate_cases [consumes 1, case_names missing keyfail datefail serialfail signerfail signfail written]:
  assumes "Generate L host dest opts w = (res, w')"
  obtains
    "host = []" "res = Some MissingHost" "w' = w"
  | err where "host \<noteq> []" "generateKey L (applyOptions opts) w = (Inl err, w')" "res = Some err"
  | priv w1 err where "host \<noteq> []" "generateKey L (applyOptions opts) w = (Inr priv, w1)"
      "startTime L (applyOptions opts) w1 = (Inl err, w')" "res = Some err"
  | priv w1 notBefore w2 err where "host \<noteq> []"
      "generateKey L (applyOptions opts) w = (Inr priv, w1)"
      "startTime L (applyOptions opts) w1 = (Inr notBefore, w2)"
      "invoke (Call_rand_Int serialNumberLimit) (rand_Int L serialNumberLimit) w2 = (Inl err, w')"
      "res = Some (FailedToGenerateSerialNumber err)"
  | priv w1 notBefore w2 sn w3 t err where "host \<noteq> []"
      "generateKey L (applyOptions opts) w = (Inr priv, w1)"
      "startTime L (applyOptions opts) w1 = (Inr notBefore, w2)"
      "invoke (Call_rand_Int serialNumberLimit) (rand_Int L serialNumberLimit) w2 = (Inr sn, w3)"
      "t = buildTemplate L host (applyOptions opts) sn notBefore
             (time_Add L notBefore (validFor (applyOptions opts))) (keyUsageFor priv)"
      "signer L (applyOptions opts) t priv w3 = (Inl err, w')"
      "res = Some err"
  | priv w1 notBefore w2 sn w3 t issuer issuerKey w4 err where "host \<noteq> []"
      "generateKey L (applyOptions opts) w = (Inr priv, w1)"
      "startTime L (applyOptions opts) w1 = (Inr notBefore, w2)"
      "invoke (Call_rand_Int serialNumberLimit) (rand_Int L serialNumberLimit) w2 = (Inr sn, w3)"
      "t = buildTemplate L host (applyOptions opts) sn notBefore
             (time_Add L notBefore (validFor (applyOptions opts))) (keyUsageFor priv)"
      "signer L (applyOptions opts) t priv w3 = (Inr (issuer, issuerKey), w4)"
      "invoke (Call_x509_CreateCertificate t issuer (publicKey L priv) issuerKey)
          (x509_CreateCertificate L t issuer (publicKey L priv) issuerKey) w4 = (Inl err, w')"
      "res = Some (FailedToCreateCertificate err)"
  | priv w1 notBefore w2 sn w3 t issuer issuerKey w4 der w5 where "host \<noteq> []"
      "generateKey L (applyOptions opts) w = (Inr priv, w1)"
      "startTime L (applyOptions opts) w1 = (Inr notBefore, w2)"
      "invoke (Call_rand_Int serialNumberLimit) (rand_Int L serialNumberLimit) w2 = (Inr sn, w3)"
      "t = buildTemplate L host (applyOptions opts) sn notBefore
             (time_Add L notBefore (validFor (applyOptions opts))) (keyUsageFor priv)"
      "signer L (applyOptions opts) t priv w3 = (Inr (issuer, issuerKey), w4)"
      "invoke (Call_x509_CreateCertificate t issuer (publicKey L priv) issuerKey)
          (x509_CreateCertificate L t issuer (publicKey L priv) issuerKey) w4 = (Inr der, w5)"
      "writeFiles L dest (applyOptions opts) der priv w5 = (res, w')"
  using assms unfolding Generate_def Let_def
  by (auto split: if_splits prod.splits sum.splits)

section \<open>The options\<close>

lemma fields_ofI: "f \<in> set (changed cfg (opt cfg)) \<Longrightarrow> f \<in> fields_of opt"
  by (auto simp: fields_of_def)

lemma fields_of_subset: "(\<And>cfg. set (changed cfg (opt cfg)) \<subseteq> S) \<Longrightarrow> fields_of opt \<subseteq> S"
  by (auto simp: fields_of_def)

lemma fields_of_WithKeyFileName: "fields_of (WithKeyFileName n) = {KeyFileName}"
proof
  show "fields_of (WithKeyFileName n) \<subseteq> {KeyFileName}"
    by (rule fields_of_subset) (auto simp: changed_def WithKeyFileName_def)
  have "KeyFileName \<in> set (changed (initOptions\<lparr>keyFileName := CHR ''x'' # n\<rparr>)
          (WithKeyFileName n (initOptions\<lparr>keyFileName := CHR ''x'' # n\<rparr>)))"
    by (simp add: changed_def WithKeyFileName_def)
  then show "{KeyFileName} \<subseteq> fields_of (WithKeyFileName n)"
    using fields_ofI by blast
qed

lemma fields_of_WithCertFileName: "fields_of (WithCertFileName n) = {CertFileName}"
proof
  show "fields_of (WithCertFileName n) \<subseteq> {CertFileName}"
    by (rule fields_of_subset) (auto simp: changed_def WithCertFileName_def)
  have "CertFileName \<in> set (changed (initOptions\<lparr>certFileName := CHR ''x'' # n\<rparr>)
          (WithCertFileName n (initOptions\<lparr>certFileName := CHR ''x'' # n\<rparr>)))"
    by (simp add: changed_def WithCertFileName_def)
  then show "{CertFileName} \<subseteq> fields_of (WithCertFileName n)"
    using fields_ofI by blast
qed

lemma fields_of_WithSignByParent: "fields_of (WithSignByParent c k) = {ParentCert, ParentKey}"
proof
  show "fields_of (WithSignByParent c k) \<subseteq> {ParentCert, ParentKey}"
    by (rule fields_of_subset) (auto simp: changed_def WithSignByParent_def)
  let ?cfg = "initOptions\<lparr>parentCert := CHR ''x'' # c, parentKey := CHR ''x'' # k\<rparr>"
  have "ParentCert \<in> set (changed ?cfg (WithSignByParent c k ?cfg))"
    and "ParentKey \<in> set (changed ?cfg (WithSignByParent c k ?cfg))"
    by (simp_all add: changed_def WithSignByParent_def)
  then show "{ParentCert, ParentKey} \<subseteq> fields_of (WithSignByParent c k)"
    using fields_ofI by blast
qed

lemma fields_of_WithStartDate: "fields_of (WithStartDate s) = {ValidFrom}"
proof
  show "fields_of (WithStartDate s) \<subseteq> {ValidFrom}"
    by (rule fields_of_subset) (auto simp: changed_def WithStartDate_def)
  have "ValidFrom \<in> set (changed (initOptions\<lparr>validFrom := CHR ''x'' # s\<rparr>)
          (WithStartDate s (initOptions\<lparr>validFrom := CHR ''x'' # s\<rparr>)))"
    by (simp add: changed_def WithStartDate_def)
  then show "{ValidFrom} \<subseteq> fields_of (WithStartDate s)"
    using fields_ofI by blast
qed

lemma fields_of_WithDuration: "fields_of (WithDuration d) = {ValidFor}"
proof
  show "fields_of (WithDuration d) \<subseteq> {ValidFor}"
    by (rule fields_of_subset) (auto simp: changed_def WithDuration_def)
  have "ValidFor \<in> set (changed (initOptions\<lparr>validFor := d + 1\<rparr>)
          (WithDuration d (initOptions\<lparr>validFor := d + 1\<rparr>)))"
    by (simp add: changed_def WithDuration_def)
  then show "{ValidFor} \<subseteq> fields_of (WithDuration d)"
    using fields_ofI by blast
qed

lemma fields_of_WithRSABits: "fields_of (WithRSABits b) = {RsaBits}"
proof
  show "fields_of (WithRSABits b) \<subseteq> {RsaBits}"
    by (rule fields_of_subset) (auto simp: changed_def WithRSABits_def)
  have "RsaBits \<in> set (changed (initOptions\<lparr>rsaBits := b + 1\<rparr>)
          (WithRSABits b (initOptions\<lparr>rsaBits := b + 1\<rparr>)))"
    by (simp add: changed_def WithRSABits_def)
  then show "{RsaBits} \<subseteq> fields_of (WithRSABits b)"
    using fields_ofI by blast
qed

lemma fields_of_WithCA: "fields_of WithCA = {IsCAFlag}"
proof
  show "fields_of WithCA \<subseteq> {IsCAFlag}"
    by (rule fields_of_subset) (auto simp: changed_def WithCA_def)
  have "IsCAFlag \<in> set (changed initOptions (WithCA initOptions))"
    by (simp add: changed_def WithCA_def initOptions_def)
  then show "{IsCAFlag} \<subseteq> fields_of WithCA"
    using fields_ofI by blast
qed

lemma fields_of_WithED25519: "fields_of WithED25519 = {Ed25519Key}"
proof
  show "fields_of WithED25519 \<subseteq> {Ed25519Key}"
    by (rule fields_of_subset) (auto simp: changed_def WithED25519_def)
  have "Ed25519Key \<in> set (changed initOptions (WithED25519 initOptions))"
    by (simp add: changed_def WithED25519_def initOptions_def)
  then show "{Ed25519Key} \<subseteq> fields_of WithED25519"
    using fields_ofI by blast
qed

lemma fields_of_curves:
  "fields_of WithP224 = {EcdsaCurve}" "fields_of WithP256 = {EcdsaCurve}"
  "fields_of WithP384 = {EcdsaCurve}" "fields_of WithP521 = {EcdsaCurve}"
proof -
  have sub: "fields_of WithP224 \<subseteq> {EcdsaCurve}" "fields_of WithP256 \<subseteq> {EcdsaCurve}"
    "fields_of WithP384 \<subseteq> {EcdsaCurve}" "fields_of WithP521 \<subseteq> {EcdsaCurve}"
    by (rule fields_of_subset; auto simp: changed_def WithP224_def WithP256_def WithP384_def WithP521_def)+
  have "EcdsaCurve \<in> set (changed initOptions (WithP224 initOptions))"
    "EcdsaCurve \<in> set (changed initOptions (WithP256 initOptions))"
    "EcdsaCurve \<in> set (changed initOptions (WithP384 initOptions))"
    "EcdsaCurve \<in> set (changed initOptions (WithP521 initOptions))"
    by (simp_all add: changed_def WithP224_def WithP256_def WithP384_def WithP521_def initOptions_def
          CurveP224_def CurveP256_def CurveP384_def CurveP521_def)
  then have sup: "EcdsaCurve \<in> fields_of WithP224" "EcdsaCurve \<in> fields_of WithP256"
    "EcdsaCurve \<in> fields_of WithP384" "EcdsaCurve \<in> fields_of WithP521"
    by (blast intro: fields_ofI)+
  show "fields_of WithP224 = {EcdsaCurve}" "fields_of WithP256 = {EcdsaCurve}"
    "fields_of WithP384 = {EcdsaCurve}" "fields_of WithP521 = {EcdsaCurve}"
    using sub sup by blast+
qed

lemmas fields_of_exported =
  fields_of_WithKeyFileName fields_of_WithCertFileName fields_of_WithSignByParent
  fields_of_WithStartDate fields_of_WithDuration fields_of_WithRSABits fields_of_WithCA
  fields_of_WithED25519 fields_of_curves

lemmas With_defs =
  WithKeyFileName_def WithCertFileName_def WithSignByParent_def WithStartDate_def
  WithDuration_def WithCA_def WithRSABits_def WithP224_def WithP256_def WithP384_def
  WithP521_def WithED25519_def

lemma exported_override:
  assumes "opt1 \<in> exported" "opt2 \<in> exported" "fields_of opt1 = fields_of opt2"
  shows "opt2 (opt1 cfg) = opt2 cfg"
  using assms(1)
proof cases
  case (ex_KeyFileName n) with assms(2,3) show ?thesis
    by cases (simp_all add: fields_of_exported, simp_all add: With_defs)
next
  case (ex_CertFileName n) with assms(2,3) show ?thesis
    by cases (simp_all add: fields_of_exported, simp_all add: With_defs)
next
  case (ex_SignByParent c k) with assms(2,3) show ?thesis
    by cases (simp_all add: fields_of_exported, simp_all add: With_defs)
next
  case (ex_StartDate n) with assms(2,3) show ?thesis
    by cases (simp_all add: fields_of_exported, simp_all add: With_defs)
next
  case (ex_Duration n) with assms(2,3) show ?thesis
    by cases (simp_all add: fields_of_exported, simp_all add: With_defs)
next
  case ex_CA with assms(2,3) show ?thesis
    by cases (simp_all add: fields_of_exported, simp_all add: With_defs)
next
  case (ex_RSABits n) with assms(2,3) show ?thesis
    by cases (simp_all add: fields_of_exported, simp_all add: With_defs)
next
  case ex_P224 with assms(2,3) show ?thesis
    by cases (simp_all add: fields_of_exported, simp_all add: With_defs)
next
  case ex_P256 with assms(2,3) show ?thesis
    by cases (simp_all add: fields_of_exported, simp_all add: With_defs)
next
  case ex_P384 with assms(2,3) show ?thesis
    by cases (simp_all add: fields_of_exported, simp_all add: With_defs)
next
  case ex_P521 with assms(2,3) show ?thesis
    by cases (simp_all add: fields_of_exported, simp_all add: With_defs)
next
  case ex_ED25519 with assms(2,3) show ?thesis
    by cases (simp_all add: fields_of_exported, simp_all add: With_defs)
qed

lemma exported_fields:
  assumes "opt \<in> exported"
  shows "(\<exists>c k. opt = WithSignByParent c k \<and> fields_of opt = {ParentCert, ParentKey})
         \<or> (\<exists>f. fields_of opt = {f})"
  using assms by cases (auto simp: fields_of_exported)

lemma applyOptions_snoc: "applyOptions (opts @ [opt]) = opt (applyOptions opts)"
  by (simp add: applyOptions_def)

section \<open>The claims\<close>

text \<open>
  C6. For the empty host string Generate returns the missing-host error, whatever the
  options are, and it has done nothing by then: the world it returns is the one it was
  given, so no option was applied, no key generated and no library called.
\<close>

theorem C6_empty_host_is_rejected_first:
  "Generate L [] dest opts w = (Some MissingHost, w)"
  by (simp add: Generate_def)

text \<open>
  C8, as the code has it. Resolution starts from the defaults of \<open>initOptions\<close>
  (\<open>cert.pem\<close>, \<open>key.pem\<close>, 365 days, 2048 bits, every other field zero) and applies
  the options from left to right. Every exported option writes exactly one field, except
  \<open>WithSignByParent\<close>, which writes the two parent paths together. Of two exported
  options that write the same fields the later one wins. Nothing is validated: a
  negative key size, any duration, any start-date string and any pair of parent paths
  are stored as given.
\<close>

theorem C8_options_resolved_in_order:
  "applyOptions [] =
     \<lparr> parentCert = [], parentKey = [], certFileName = ''cert.pem'', keyFileName = ''key.pem'',
       validFrom = [], validFor = 365 * 24 * time_Hour, rsaBits = 2048, ecdsaCurve = [],
       ed25519Key = False, isCA = False \<rparr>
   \<and> applyOptions (opts @ [opt]) = opt (applyOptions opts)
   \<and> (opt \<in> exported \<longrightarrow>
        (\<exists>c k. opt = WithSignByParent c k \<and> fields_of opt = {ParentCert, ParentKey})
        \<or> (\<exists>f. fields_of opt = {f}))
   \<and> (opt1 \<in> exported \<and> opt2 \<in> exported \<and> fields_of opt1 = fields_of opt2 \<longrightarrow>
        applyOptions (opts @ [opt1, opt2]) = applyOptions (opts @ [opt2]))
   \<and> rsaBits (applyOptions (opts @ [WithRSABits bits])) = bits
   \<and> validFor (applyOptions (opts @ [WithDuration d])) = d
   \<and> validFrom (applyOptions (opts @ [WithStartDate s])) = s
   \<and> parentCert (applyOptions (opts @ [WithSignByParent pc pk])) = pc
   \<and> parentKey (applyOptions (opts @ [WithSignByParent pc pk])) = pk"
proof -
  have "applyOptions (opts @ [opt1, opt2]) = applyOptions (opts @ [opt2])"
    if "opt1 \<in> exported" "opt2 \<in> exported" "fields_of opt1 = fields_of opt2"
    using exported_override [OF that] by (simp add: applyOptions_def)
  then show ?thesis
    using exported_fields [of opt]
    by (simp add: applyOptions_snoc With_defs) (simp add: applyOptions_def initOptions_def)
qed

text \<open>The theorem at concrete options: two curves in a row, and a negative key size.\<close>

theorem C8_witness:
  "WithSignByParent ''ca_cert.pem'' ''ca_key.pem'' \<in> exported
   \<and> fields_of (WithSignByParent ''ca_cert.pem'' ''ca_key.pem'') = {ParentCert, ParentKey}
   \<and> WithP224 \<in> exported \<and> WithP256 \<in> exported \<and> fields_of WithP224 = fields_of WithP256
   \<and> applyOptions ([WithCA] @ [WithP224, WithP256]) = applyOptions ([WithCA] @ [WithP256])
   \<and> ecdsaCurve (applyOptions ([WithCA] @ [WithP224, WithP256])) = ''P256''
   \<and> rsaBits (applyOptions ([WithCA] @ [WithRSABits (- 1)])) = - 1"
proof -
  have a: "WithP224 \<in> exported" "WithP256 \<in> exported"
    "WithSignByParent ''ca_cert.pem'' ''ca_key.pem'' \<in> exported"
    by (rule exported.intros)+
  have b: "fields_of WithP224 = fields_of WithP256"
    by (simp add: fields_of_curves)
  have c: "ecdsaCurve (applyOptions ([WithCA] @ [WithP256])) = ''P256''"
    by (simp add: applyOptions_def WithCA_def WithP256_def CurveP256_def)
  note t = C8_options_resolved_in_order
    [of "[WithCA]" "WithSignByParent ''ca_cert.pem'' ''ca_key.pem''" WithP224 WithP256 "- 1"]
  from t a b have "applyOptions ([WithCA] @ [WithP224, WithP256]) = applyOptions ([WithCA] @ [WithP256])"
    by blast
  moreover from t have "rsaBits (applyOptions ([WithCA] @ [WithRSABits (- 1)])) = - 1"
    by blast
  ultimately show ?thesis
    using a b c fields_of_WithSignByParent by simp
qed

text \<open>
  C8 as stated fails: \<open>WithSignByParent\<close> is one option function and changes two
  fields of the default configuration.
\<close>

theorem C8_counterexample_two_fields:
  "WithSignByParent ''ca_cert.pem'' ''ca_key.pem'' \<in> exported \<and>
   changed initOptions (applyOptions [WithSignByParent ''ca_cert.pem'' ''ca_key.pem''])
     = [ParentCert, ParentKey]"
  using exported.ex_SignByParent [of "''ca_cert.pem''" "''ca_key.pem''"]
  by (simp add: changed_def applyOptions_def initOptions_def WithSignByParent_def)

subsection \<open>The errors of the parts, and the curve of an exported option\<close>

lemma generateKey_errors:
  "generateKey L cfg w = (Inl err, w') \<Longrightarrow>
     (\<exists>e. err = FailedToGeneratePrivateKey e) \<or>
     (err = UnrecognizedEllipticCurve (ecdsaCurve cfg) \<and> w' = w \<and>
      ecdsaCurve cfg \<notin> {[], CurveP224, CurveP256, CurveP384, CurveP521})"
  unfolding generateKey_def ecdsaKey_def
  by (auto split: if_splits prod.splits sum.splits)

lemma startTime_errors:
  "startTime L cfg w = (Inl err, w') \<Longrightarrow>
     w' = w \<and> validFrom cfg \<noteq> [] \<and>
     (\<exists>e. time_Parse L ''Jan 2 15:04:05 2006'' (validFrom cfg) = Inl e \<and> err = FailedToParseCreationDate e)"
  unfolding startTime_def
  by (auto split: if_splits prod.splits sum.splits)

lemma ParsePemCertFile_errors:
  "ParsePemCertFile L path w = (Inl err, w') \<Longrightarrow>
     (\<exists>e. err = FailedToReadFile e) \<or> err = FailedToParseCertificatePEM \<or>
     (\<exists>e. err = FailedToParseDERData e)"
  unfolding ParsePemCertFile_def
  by (auto split: if_splits prod.splits sum.splits option.splits)

lemma ParsePemKeyFile_errors:
  "ParsePemKeyFile L path w = (Inl err, w') \<Longrightarrow>
     (\<exists>e. err = FailedToReadFile e) \<or> err = FailedToParseKeyPEM \<or>
     (\<exists>e. err = FailedToParseDERData e)"
  unfolding ParsePemKeyFile_def
  by (auto split: if_splits prod.splits sum.splits option.splits)

lemma signer_errors:
  "signer L cfg t priv w = (Inl err, w') \<Longrightarrow>
     (\<exists>e. err = FailedToReadFile e) \<or> err = FailedToParseCertificatePEM \<or>
     err = FailedToParseKeyPEM \<or> (\<exists>e. err = FailedToParseDERData e)"
  unfolding signer_def
  by (auto split: if_splits prod.splits sum.splits dest: ParsePemCertFile_errors ParsePemKeyFile_errors)

lemma writeFiles_errors:
  "writeFiles L dest cfg der priv w = (Some err, w') \<Longrightarrow>
     (\<exists>e. err = FailedToOpenCert e) \<or> (\<exists>e. err = FailedToWriteCert e) \<or>
     (\<exists>e. err = ErrorClosingCert e) \<or> (\<exists>e. err = FailedToOpenKey e) \<or>
     (\<exists>e. err = UnableToMarshalPrivateKey e) \<or> (\<exists>e. err = FailedToWriteKey e) \<or>
     (\<exists>e. err = ErrorClosingKey e)"
  unfolding writeFiles_def Let_def
  by (auto split: if_splits prod.splits sum.splits option.splits)

lemma Generate_unrecognized:
  assumes "Generate L host dest opts w = (Some (UnrecognizedEllipticCurve c), w')"
  shows "ecdsaCurve (applyOptions opts) \<notin> {[], CurveP224, CurveP256, CurveP384, CurveP521}"
  using assms
proof (cases rule: Generate_cases)
  case (keyfail err)
  then show ?thesis using generateKey_errors by blast
next
  case (datefail priv w1 err)
  then show ?thesis using startTime_errors by blast
next
  case (signerfail priv w1 notBefore w2 sn w3 t err)
  then show ?thesis using signer_errors [OF signerfail(6)] by auto
next
  case (written priv w1 notBefore w2 sn w3 t issuer issuerKey w4 der w5)
  then show ?thesis using writeFiles_errors [of L dest "applyOptions opts" der priv w5] by auto
qed simp_all

lemma exported_curve:
  "opt \<in> exported \<Longrightarrow>
     ecdsaCurve cfg \<in> {[], CurveP224, CurveP256, CurveP384, CurveP521} \<Longrightarrow>
     ecdsaCurve (opt cfg) \<in> {[], CurveP224, CurveP256, CurveP384, CurveP521}"
  by (erule exported.cases; hypsubst) (simp_all add: With_defs)

lemma exported_fold_curve:
  "set opts \<subseteq> exported \<Longrightarrow>
     ecdsaCurve cfg \<in> {[], CurveP224, CurveP256, CurveP384, CurveP521} \<Longrightarrow>
     ecdsaCurve (foldl (\<lambda>cfg opt. opt cfg) cfg opts)
       \<in> {[], CurveP224, CurveP256, CurveP384, CurveP521}"
proof (induction opts arbitrary: cfg)
  case Nil
  then show ?case by simp
next
  case (Cons opt opts)
  have "ecdsaCurve (opt cfg) \<in> {[], CurveP224, CurveP256, CurveP384, CurveP521}"
  proof (rule exported_curve [of opt cfg])
    show "opt \<in> exported" using Cons.prems(1) by simp
    show "ecdsaCurve cfg \<in> {[], CurveP224, CurveP256, CurveP384, CurveP521}" by (rule Cons.prems(2))
  qed
  then show ?case using Cons.IH [of "opt cfg"] Cons.prems by simp
qed

lemma exported_other_keeps_curve:
  "opt \<in> exported \<Longrightarrow> opt \<notin> {WithP224, WithP256, WithP384, WithP521} \<Longrightarrow>
     ecdsaCurve (opt cfg) = ecdsaCurve cfg"
  by (erule exported.cases; hypsubst)
     (simp_all add: WithKeyFileName_def WithCertFileName_def WithSignByParent_def
        WithStartDate_def WithDuration_def WithCA_def WithRSABits_def WithED25519_def)

lemma WithCA_not_curve: "WithCA \<notin> {WithP224, WithP256, WithP384, WithP521}"
proof -
  have "isCA (WithCA initOptions) \<noteq> isCA (opt initOptions)"
    if "opt \<in> {WithP224, WithP256, WithP384, WithP521}" for opt
    using that by (auto simp: With_defs initOptions_def)
  then show ?thesis by blast
qed

text \<open>
  C10. Each of \<open>WithP224\<close>, \<open>WithP256\<close>, \<open>WithP384\<close> and \<open>WithP521\<close> sets the
  curve selector to its own recognized constant, and no other exported option changes
  that field. So for every list of exported options the resolved selector is empty or
  one of the four constants, and neither the switch nor Generate returns the
  unrecognized-curve error.
\<close>

theorem C10_unrecognized_curve_unreachable:
  "ecdsaCurve (WithP224 cfg) = CurveP224 \<and> ecdsaCurve (WithP256 cfg) = CurveP256
   \<and> ecdsaCurve (WithP384 cfg) = CurveP384 \<and> ecdsaCurve (WithP521 cfg) = CurveP521
   \<and> (opt \<in> exported \<and> opt \<notin> {WithP224, WithP256, WithP384, WithP521} \<longrightarrow>
        ecdsaCurve (opt cfg) = ecdsaCurve cfg)
   \<and> (set opts \<subseteq> exported \<longrightarrow>
        ecdsaCurve (applyOptions opts) \<in> {[], CurveP224, CurveP256, CurveP384, CurveP521}
        \<and> fst (generateKey L (applyOptions opts) w) \<noteq> Inl (UnrecognizedEllipticCurve c)
        \<and> fst (Generate L host dest opts w) \<noteq> Some (UnrecognizedEllipticCurve c))"
proof -
  have inv: "ecdsaCurve (applyOptions opts) \<in> {[], CurveP224, CurveP256, CurveP384, CurveP521}"
    if "set opts \<subseteq> exported"
    unfolding applyOptions_def using that
    by (rule exported_fold_curve) (simp add: initOptions_def)
  have gen: "fst (Generate L host dest opts w) \<noteq> Some (UnrecognizedEllipticCurve c)"
    if "set opts \<subseteq> exported"
  proof
    assume "fst (Generate L host dest opts w) = Some (UnrecognizedEllipticCurve c)"
    then have "Generate L host dest opts w
        = (Some (UnrecognizedEllipticCurve c), snd (Generate L host dest opts w))"
      by (simp add: prod_eq_iff)
    from Generate_unrecognized [OF this] inv [OF that] show False by simp
  qed
  have key: "fst (generateKey L (applyOptions opts) w) \<noteq> Inl (UnrecognizedEllipticCurve c)"
    if "set opts \<subseteq> exported"
  proof
    assume "fst (generateKey L (applyOptions opts) w) = Inl (UnrecognizedEllipticCurve c)"
    then have "generateKey L (applyOptions opts) w
        = (Inl (UnrecognizedEllipticCurve c), snd (generateKey L (applyOptions opts) w))"
      by (simp add: prod_eq_iff)
    from generateKey_errors [OF this] inv [OF that] show False by simp
  qed
  have curves: "ecdsaCurve (WithP224 cfg) = CurveP224" "ecdsaCurve (WithP256 cfg) = CurveP256"
    "ecdsaCurve (WithP384 cfg) = CurveP384" "ecdsaCurve (WithP521 cfg) = CurveP521"
    by (simp_all add: WithP224_def WithP256_def WithP384_def WithP521_def)
  show ?thesis
    using inv gen key exported_other_keeps_curve [of opt cfg] curves
    by blast
qed

text \<open>The theorem at the options \<open>WithP384\<close>, \<open>WithCA\<close> in the simulated environment.\<close>

theorem C10_witness:
  "WithCA \<in> exported \<and> WithCA \<notin> {WithP224, WithP256, WithP384, WithP521}
   \<and> ecdsaCurve (WithCA initOptions) = ecdsaCurve initOptions
   \<and> set [WithP384, WithCA] \<subseteq> exported
   \<and> ecdsaCurve (applyOptions [WithP384, WithCA]) = ''P384''
   \<and> fst (Generate simLib ''a.com'' ''out'' [WithP384, WithCA] sim0)
       \<noteq> Some (UnrecognizedEllipticCurve ''P384'')"
proof -
  have a: "WithCA \<in> exported" "set [WithP384, WithCA] \<subseteq> exported"
    by (simp_all add: exported.intros)
  have b: "ecdsaCurve (applyOptions [WithP384, WithCA]) = ''P384''"
    by (simp add: applyOptions_def WithCA_def WithP384_def CurveP384_def)
  note t = C10_unrecognized_curve_unreachable
    [of initOptions WithCA "[WithP384, WithCA]" simLib sim0 "''P384''" "''a.com''" "''out''"]
  from t a WithCA_not_curve
  have "ecdsaCurve (WithCA initOptions) = ecdsaCurve initOptions"
    and "fst (Generate simLib ''a.com'' ''out'' [WithP384, WithCA] sim0)
       \<noteq> Some (UnrecognizedEllipticCurve ''P384'')"
    by blast+
  with a b WithCA_not_curve show ?thesis
    by blast
qed

subsection \<open>The key generation within a run\<close>

lemma Generate_key_calls:
  assumes "Generate L host dest opts w = (res, w')" "host \<noteq> []"
  shows "\<exists>r w1 evs. generateKey L (applyOptions opts) w = (r, w1) \<and> trace w' = trace w1 @ evs
           \<and> (\<forall>e \<in> set evs. kind e \<noteq> KeyGeneration)"
  using assms(1)
proof (cases rule: Generate_cases)
  case missing
  with assms(2) show ?thesis by simp
next
  case (keyfail err)
  then show ?thesis by auto
next
  case (datefail priv w1 err)
  then show ?thesis by (auto dest!: startTime_kind)
next
  case (serialfail priv w1 notBefore w2 err)
  then show ?thesis by (auto dest!: startTime_kind invoke_trace)
next
  case (signerfail priv w1 notBefore w2 sn w3 t err)
  then show ?thesis by (auto dest!: startTime_kind invoke_trace signer_kind)
next
  case (signfail priv w1 notBefore w2 sn w3 t issuer issuerKey w4 err)
  then show ?thesis by (auto dest!: startTime_kind invoke_trace signer_kind)
next
  case (written priv w1 notBefore w2 sn w3 t issuer issuerKey w4 der w5)
  then show ?thesis by (auto dest!: startTime_kind invoke_trace signer_kind writeFiles_kind)
qed

subsection \<open>The template and the signing call of a run\<close>

lemma foldl_addHost:
  "foldl (addHost L) t hosts =
     t\<lparr>DNSNames := DNSNames t @ filter (\<lambda>h. net_ParseIP L h = None) hosts,
       IPAddresses := IPAddresses t @ List.map_filter (net_ParseIP L) hosts\<rparr>"
proof (induction hosts arbitrary: t)
  case Nil
  show ?case by (simp add: List.map_filter_simps)
next
  case (Cons h hosts)
  show ?case
  proof (cases "net_ParseIP L h")
    case None
    then have "addHost L t h = t\<lparr>DNSNames := DNSNames t @ [h]\<rparr>"
      by (simp add: addHost_def)
    with None show ?thesis
      by (simp add: Cons.IH List.map_filter_simps)
  next
    case (Some a)
    then have "addHost L t h = t\<lparr>IPAddresses := IPAddresses t @ [a]\<rparr>"
      by (simp add: addHost_def)
    with Some show ?thesis
      by (simp add: Cons.IH List.map_filter_simps)
  qed
qed

lemma buildTemplate_fields:
  "SerialNumber (buildTemplate L host cfg sn nb na ku) = sn"
  "Subject (buildTemplate L host cfg sn nb na ku) = \<lparr>Organization = [''Acme Co'']\<rparr>"
  "NotBefore (buildTemplate L host cfg sn nb na ku) = nb"
  "NotAfter (buildTemplate L host cfg sn nb na ku) = na"
  "KeyUsage (buildTemplate L host cfg sn nb na ku) = (if isCA cfg then ku OR KeyUsageCertSign else ku)"
  "ExtKeyUsage (buildTemplate L host cfg sn nb na ku) = [ExtKeyUsageServerAuth]"
  "BasicConstraintsValid (buildTemplate L host cfg sn nb na ku) = True"
  "IsCA (buildTemplate L host cfg sn nb na ku) = isCA cfg"
  "DNSNames (buildTemplate L host cfg sn nb na ku)
     = filter (\<lambda>h. net_ParseIP L h = None) (strings_Split host (CHR '',''))"
  "IPAddresses (buildTemplate L host cfg sn nb na ku)
     = List.map_filter (net_ParseIP L) (strings_Split host (CHR '',''))"
  by (simp_all add: buildTemplate_def Let_def foldl_addHost)

lemma Generate_signing_call:
  assumes "Generate L host dest opts w = (res, w')"
    and "Call_x509_CreateCertificate t issuer pub k r \<in> set (calls w w')"
  shows "\<exists>priv w1 notBefore w2 sn w3 w4.
           host \<noteq> []
         \<and> generateKey L (applyOptions opts) w = (Inr priv, w1)
         \<and> startTime L (applyOptions opts) w1 = (Inr notBefore, w2)
         \<and> invoke (Call_rand_Int serialNumberLimit) (rand_Int L serialNumberLimit) w2 = (Inr sn, w3)
         \<and> t = buildTemplate L host (applyOptions opts) sn notBefore
                 (time_Add L notBefore (validFor (applyOptions opts))) (keyUsageFor priv)
         \<and> signer L (applyOptions opts) t priv w3 = (Inr (issuer, k), w4)
         \<and> pub = publicKey L priv
         \<and> (\<exists>evs. trace w' = trace w4 @ Call_x509_CreateCertificate t issuer pub k r # evs
                \<and> (\<forall>e \<in> set evs. kind e = FileWrite))"
  using assms(1)
proof (cases rule: Generate_cases)
  case missing
  with assms(2) show ?thesis by (simp add: calls_def)
next
  case (keyfail err)
  then have "\<forall>e \<in> set (calls w w'). kind e \<noteq> Signing"
    by (auto dest!: generateKey_kind simp: calls_def)
  with assms(2) show ?thesis by force
next
  case (datefail priv w1 err)
  then have "\<forall>e \<in> set (calls w w'). kind e \<noteq> Signing"
    by (auto dest!: generateKey_kind startTime_kind simp: calls_def)
  with assms(2) show ?thesis by force
next
  case (serialfail priv w1 notBefore w2 err)
  then have "\<forall>e \<in> set (calls w w'). kind e \<noteq> Signing"
    by (auto dest!: generateKey_kind startTime_kind invoke_trace simp: calls_def)
  with assms(2) show ?thesis by force
next
  case (signerfail priv w1 notBefore w2 sn w3 t err)
  then have "\<forall>e \<in> set (calls w w'). kind e \<noteq> Signing"
    by (auto dest!: generateKey_kind startTime_kind invoke_trace signer_kind simp: calls_def)
  with assms(2) show ?thesis by force
next
  case (signfail priv w1 notBefore w2 sn w3 t' issuer' issuerKey w4 err)
  have "calls w w' = calls w w4 @ [Call_x509_CreateCertificate t' issuer' (publicKey L priv) issuerKey (Inl err)]"
    and "\<forall>e \<in> set (calls w w4). kind e \<noteq> Signing"
    using signfail
    by (auto dest!: generateKey_kind startTime_kind invoke_trace signer_kind simp: calls_def)
  with assms(2) have "t = t' \<and> issuer = issuer' \<and> pub = publicKey L priv \<and> k = issuerKey
      \<and> r = Inl err"
    by force
  moreover have "trace w' = trace w4 @ [Call_x509_CreateCertificate t' issuer' (publicKey L priv) issuerKey (Inl err)]"
    using signfail by (auto dest!: invoke_trace)
  ultimately show ?thesis using signfail by auto
next
  case (written priv w1 notBefore w2 sn w3 t' issuer' issuerKey w4 der w5)
  have "\<exists>evs. calls w w' = calls w w4 @ [Call_x509_CreateCertificate t' issuer' (publicKey L priv) issuerKey (Inr der)] @ evs
      \<and> (\<forall>e \<in> set evs. kind e \<noteq> Signing)"
    and "\<forall>e \<in> set (calls w w4). kind e \<noteq> Signing"
    using written
    by (auto dest!: generateKey_kind startTime_kind invoke_trace signer_kind writeFiles_kind simp: calls_def)
  with assms(2) have "t = t' \<and> issuer = issuer' \<and> pub = publicKey L priv \<and> k = issuerKey
      \<and> r = Inr der"
    by force
  moreover have "\<exists>evs. trace w' = trace w4
        @ Call_x509_CreateCertificate t' issuer' (publicKey L priv) issuerKey (Inr der) # evs
      \<and> (\<forall>e \<in> set evs. kind e = FileWrite)"
    using written by (auto dest!: invoke_trace writeFiles_kind)
  ultimately show ?thesis using written by auto
qed

lemma Generate_success_signs:
  assumes "Generate L host dest opts w = (None, w')"
  shows "\<exists>t issuer pub k der. Call_x509_CreateCertificate t issuer pub k (Inr der) \<in> set (calls w w')"
  using assms
proof (cases rule: Generate_cases)
  case (written priv w1 notBefore w2 sn w3 t issuer issuerKey w4 der w5)
  then have "\<exists>evs. calls w w' = calls w w4 @ [Call_x509_CreateCertificate t issuer (publicKey L priv) issuerKey (Inr der)] @ evs"
    by (auto dest!: generateKey_kind startTime_kind invoke_trace signer_kind writeFiles_kind simp: calls_def)
  then show ?thesis by force
qed simp_all

lemma keyUsageFor_values:
  "keyUsageFor (RSAPrivateKey n d) = 5" "keyUsageFor (ECDSAPrivateKey c n d) = 1"
  "keyUsageFor (Ed25519PrivateKey k) = 1" "keyUsageFor (OtherPrivateKey k) = 1"
  by (simp_all add: keyUsageFor_def KeyUsageDigitalSignature_def KeyUsageKeyEncipherment_def)

lemma key_usage_bits:
  "KeyUsage (buildTemplate L host cfg sn nb na (keyUsageFor priv)) AND KeyUsageDigitalSignature \<noteq> 0"
  "KeyUsage (buildTemplate L host cfg sn nb na (keyUsageFor priv)) AND KeyUsageKeyEncipherment \<noteq> 0
     \<longleftrightarrow> (\<exists>n d. priv = RSAPrivateKey n d)"
  "KeyUsage (buildTemplate L host cfg sn nb na (keyUsageFor priv)) AND KeyUsageCertSign \<noteq> 0
     \<longleftrightarrow> isCA cfg"
  by (cases priv; simp add: buildTemplate_fields keyUsageFor_values KeyUsageDigitalSignature_def
        KeyUsageKeyEncipherment_def KeyUsageCertSign_def)+

text \<open>
  C3. Whenever Generate hands a template to \<open>x509.CreateCertificate\<close>, the subject
  public key of that call belongs to the key generated in the same run, and in the
  template the DigitalSignature bit is set, the KeyEncipherment bit is set exactly when
  that key is an RSA key, the CertSign bit and \<open>IsCA\<close> are set exactly when the
  configuration has the CA flag, no other key-usage bit is set, the extended key usage
  is server authentication alone, and \<open>BasicConstraintsValid\<close> is true.
\<close>

theorem C3_template_key_usage:
  assumes "Generate L host dest opts w = (res, w')"
    and "Call_x509_CreateCertificate t issuer pub k r \<in> set (calls w w')"
  shows "\<exists>priv w1. generateKey L (applyOptions opts) w = (Inr priv, w1) \<and> pub = publicKey L priv
           \<and> KeyUsage t AND KeyUsageDigitalSignature \<noteq> 0
           \<and> (KeyUsage t AND KeyUsageKeyEncipherment \<noteq> 0 \<longleftrightarrow> (\<exists>n d. priv = RSAPrivateKey n d))
           \<and> (KeyUsage t AND KeyUsageCertSign \<noteq> 0 \<longleftrightarrow> isCA (applyOptions opts))
           \<and> (IsCA t \<longleftrightarrow> isCA (applyOptions opts))
           \<and> KeyUsage t =
                (KeyUsageDigitalSignature
                 OR (case priv of RSAPrivateKey n d \<Rightarrow> KeyUsageKeyEncipherment | _ \<Rightarrow> 0))
                OR (if isCA (applyOptions opts) then KeyUsageCertSign else 0)
           \<and> ExtKeyUsage t = [ExtKeyUsageServerAuth]
           \<and> BasicConstraintsValid t"
proof -
  from Generate_signing_call [OF assms] obtain priv w1 notBefore sn where
    key: "generateKey L (applyOptions opts) w = (Inr priv, w1)" and
    t: "t = buildTemplate L host (applyOptions opts) sn notBefore
              (time_Add L notBefore (validFor (applyOptions opts))) (keyUsageFor priv)" and
    pub: "pub = publicKey L priv"
    by blast
  have exact: "KeyUsage t =
      (KeyUsageDigitalSignature
       OR (case priv of RSAPrivateKey n d \<Rightarrow> KeyUsageKeyEncipherment | _ \<Rightarrow> 0))
      OR (if isCA (applyOptions opts) then KeyUsageCertSign else 0)"
    unfolding t by (cases priv) (simp_all add: buildTemplate_fields keyUsageFor_def)
  show ?thesis
    using key pub exact key_usage_bits [of L host "applyOptions opts" sn notBefore _ priv]
    unfolding t by (intro exI [of _ priv] exI [of _ w1]) (simp add: buildTemplate_fields)
qed

text \<open>
  The theorem on two runs in the simulated environment: an RSA key with the CA flag
  (key usage 1 + 4 + 32), and a P256 key without it (key usage 1).
\<close>

theorem C3_witness:
  "(\<exists>w' t issuer pub k r.
      Generate simLib ''a.com'' ''out'' [WithCA] sim0 = (None, w')
      \<and> Call_x509_CreateCertificate t issuer pub k r \<in> set (calls sim0 w')
      \<and> pub = RSAPublicKey ''rsapub'' \<and> KeyUsage t = 37 \<and> IsCA t
      \<and> ExtKeyUsage t = [ExtKeyUsageServerAuth] \<and> BasicConstraintsValid t)
   \<and> (\<exists>w' t issuer pub k r.
      Generate simLib ''a.com'' ''out'' [WithP256] sim0 = (None, w')
      \<and> Call_x509_CreateCertificate t issuer pub k r \<in> set (calls sim0 w')
      \<and> pub = ECDSAPublicKey P256 ''ecpub'' \<and> KeyUsage t = 1 \<and> \<not> IsCA t
      \<and> ExtKeyUsage t = [ExtKeyUsageServerAuth] \<and> BasicConstraintsValid t)"
proof -
  have ca: "isCA (applyOptions [WithCA])" "\<not> isCA (applyOptions [WithP256])"
    by (simp_all add: applyOptions_def initOptions_def WithCA_def WithP256_def)
  have k1: "fst (generateKey simLib (applyOptions [WithCA]) sim0) = Inr (RSAPrivateKey ''rsapub'' ''rsapriv'')"
    by (simp add: generateKey_def applyOptions_def initOptions_def WithCA_def simLib_def invoke_def)
  have k2: "fst (generateKey simLib (applyOptions [WithP256]) sim0) = Inr (ECDSAPrivateKey P256 ''ecpub'' ''ecpriv'')"
    by (simp add: generateKey_def ecdsaKey_def applyOptions_def initOptions_def WithP256_def
          CurveP224_def CurveP256_def simLib_def invoke_def)
  have "fst (Generate simLib ''a.com'' ''out'' [WithCA] sim0) = None"
    by code_simp
  then obtain w1 where run1: "Generate simLib ''a.com'' ''out'' [WithCA] sim0 = (None, w1)"
    by (cases "Generate simLib ''a.com'' ''out'' [WithCA] sim0") simp
  from Generate_success_signs [OF run1] obtain t1 i1 p1 s1 d1 where
    ev1: "Call_x509_CreateCertificate t1 i1 p1 s1 (Inr d1) \<in> set (calls sim0 w1)"
    by blast
  from C3_template_key_usage [OF run1 ev1] k1 ca(1)
  have "p1 = RSAPublicKey ''rsapub'' \<and> KeyUsage t1 = 37 \<and> IsCA t1
      \<and> ExtKeyUsage t1 = [ExtKeyUsageServerAuth] \<and> BasicConstraintsValid t1"
    by (auto simp: publicKey_def KeyUsageDigitalSignature_def KeyUsageKeyEncipherment_def
          KeyUsageCertSign_def)
  with run1 ev1 have first: "\<exists>w' t issuer pub k r.
      Generate simLib ''a.com'' ''out'' [WithCA] sim0 = (None, w')
      \<and> Call_x509_CreateCertificate t issuer pub k r \<in> set (calls sim0 w')
      \<and> pub = RSAPublicKey ''rsapub'' \<and> KeyUsage t = 37 \<and> IsCA t
      \<and> ExtKeyUsage t = [ExtKeyUsageServerAuth] \<and> BasicConstraintsValid t"
    by blast
  have "fst (Generate simLib ''a.com'' ''out'' [WithP256] sim0) = None"
    by code_simp
  then obtain w2 where run2: "Generate simLib ''a.com'' ''out'' [WithP256] sim0 = (None, w2)"
    by (cases "Generate simLib ''a.com'' ''out'' [WithP256] sim0") simp
  from Generate_success_signs [OF run2] obtain t2 i2 p2 s2 d2 where
    ev2: "Call_x509_CreateCertificate t2 i2 p2 s2 (Inr d2) \<in> set (calls sim0 w2)"
    by blast
  from C3_template_key_usage [OF run2 ev2] k2 ca(2)
  have "p2 = ECDSAPublicKey P256 ''ecpub'' \<and> KeyUsage t2 = 1 \<and> \<not> IsCA t2
      \<and> ExtKeyUsage t2 = [ExtKeyUsageServerAuth] \<and> BasicConstraintsValid t2"
    by (auto simp: publicKey_def KeyUsageDigitalSignature_def)
  with run2 ev2 have second: "\<exists>w' t issuer pub k r.
      Generate simLib ''a.com'' ''out'' [WithP256] sim0 = (None, w')
      \<and> Call_x509_CreateCertificate t issuer pub k r \<in> set (calls sim0 w')
      \<and> pub = ECDSAPublicKey P256 ''ecpub'' \<and> KeyUsage t = 1 \<and> \<not> IsCA t
      \<and> ExtKeyUsage t = [ExtKeyUsageServerAuth] \<and> BasicConstraintsValid t"
    by blast
  from first second show ?thesis by blast
qed

subsection \<open>Splitting the host string\<close>

lemma strings_Split_nonempty: "strings_Split s c \<noteq> []"
  by (induction s) (auto split: list.splits)

lemma strings_Split_join:
  "concat (map (\<lambda>tok. c # tok) (strings_Split s c)) = c # s"
proof (induction s)
  case Nil
  show ?case by simp
next
  case (Cons x xs)
  show ?case
  proof (cases "x = c")
    case True
    with Cons show ?thesis by simp
  next
    case False
    obtain t ts where split: "strings_Split xs c = t # ts"
      using strings_Split_nonempty [of xs c] by (cases "strings_Split xs c") auto
    with Cons False show ?thesis by simp
  qed
qed

lemma strings_Split_no_sep: "tok \<in> set (strings_Split s c) \<Longrightarrow> c \<notin> set tok"
proof (induction s arbitrary: tok)
  case Nil
  then show ?case by simp
next
  case (Cons x xs)
  show ?case
  proof (cases "x = c")
    case True
    with Cons show ?thesis by auto
  next
    case False
    obtain t ts where split: "strings_Split xs c = t # ts"
      using strings_Split_nonempty [of xs c] by (cases "strings_Split xs c") auto
    with Cons.prems False have "tok = x # t \<or> tok \<in> set ts" by simp
    then show ?thesis
    proof
      assume "tok = x # t"
      moreover have "c \<notin> set t" using Cons.IH [of t] split by simp
      ultimately show ?thesis using False by simp
    next
      assume "tok \<in> set ts"
      then show ?thesis using Cons.IH [of tok] split by simp
    qed
  qed
qed

text \<open>
  C5. In every template that Generate hands to \<open>x509.CreateCertificate\<close>, the DNS names
  are the tokens of the host string that \<open>net.ParseIP\<close> does not parse, unchanged and
  in their order, and the IP addresses are the parsed values of the other tokens, in
  their order. The tokens are what lies between the commas of the host string: joined
  again with commas they give the host string back, character for character (nothing is
  trimmed), and no token contains a comma.
\<close>

theorem C5_host_classification:
  assumes "Generate L host dest opts w = (res, w')"
    and "Call_x509_CreateCertificate t issuer pub k r \<in> set (calls w w')"
  shows "DNSNames t = filter (\<lambda>tok. net_ParseIP L tok = None) (strings_Split host (CHR '',''))
       \<and> IPAddresses t = List.map_filter (net_ParseIP L) (strings_Split host (CHR '',''))
       \<and> concat (map (\<lambda>tok. CHR '','' # tok) (strings_Split host (CHR '',''))) = CHR '','' # host
       \<and> (\<forall>tok \<in> set (strings_Split host (CHR '','')). CHR '','' \<notin> set tok)"
proof -
  from Generate_signing_call [OF assms] obtain priv notBefore sn where
    "t = buildTemplate L host (applyOptions opts) sn notBefore
           (time_Add L notBefore (validFor (applyOptions opts))) (keyUsageFor priv)"
    by blast
  then show ?thesis
    by (simp add: buildTemplate_fields strings_Split_join strings_Split_no_sep)
qed

text \<open>
  The theorem on a host string with a wildcard name, a name and an address with
  surrounding spaces, an empty token, and an IPv4 and an IPv6 literal.
\<close>

theorem C5_witness:
  "\<exists>w' t issuer pub k r.
      Generate simLib ''*.example.com, b.com,127.0.0.1,,::1 ,::1'' ''out'' [] sim0 = (None, w')
      \<and> Call_x509_CreateCertificate t issuer pub k r \<in> set (calls sim0 w')
      \<and> strings_Split ''*.example.com, b.com,127.0.0.1,,::1 ,::1'' (CHR '','')
           = [''*.example.com'', '' b.com'', ''127.0.0.1'', [], ''::1 '', ''::1'']
      \<and> DNSNames t = [''*.example.com'', '' b.com'', [], ''::1 '']
      \<and> IPAddresses t = [''v4:127.0.0.1'', ''v6:::1'']"
proof -
  let ?host = "''*.example.com, b.com,127.0.0.1,,::1 ,::1''"
  have split: "strings_Split ?host (CHR '','')
      = [''*.example.com'', '' b.com'', ''127.0.0.1'', [], ''::1 '', ''::1'']"
    by simp
  have "fst (Generate simLib ?host ''out'' [] sim0) = None"
    by code_simp
  then obtain w1 where run: "Generate simLib ?host ''out'' [] sim0 = (None, w1)"
    by (cases "Generate simLib ?host ''out'' [] sim0") simp
  from Generate_success_signs [OF run] obtain t1 i1 p1 s1 d1 where
    ev: "Call_x509_CreateCertificate t1 i1 p1 s1 (Inr d1) \<in> set (calls sim0 w1)"
    by blast
  from C5_host_classification [OF run ev]
  have "DNSNames t1 = [''*.example.com'', '' b.com'', [], ''::1 '']"
    and "IPAddresses t1 = [''v4:127.0.0.1'', ''v6:::1'']"
    unfolding split by (simp_all add: simLib_def List.map_filter_simps)
  with run ev split show ?thesis by blast
qed

subsection \<open>The start time, and what the duration does not decide\<close>








subsection \<open>The issuer: the template itself, or the parent read from its files\<close>

lemma signer_self:
  "parentCert cfg = [] \<Longrightarrow> signer L cfg t priv w = (Inr (t, priv), w)"
  by (simp add: signer_def)

lemma signer_parent:
  assumes "parentCert cfg \<noteq> []"
  shows "signer L cfg t priv w =
           (case ParsePemCertFile L (parentCert cfg) w of
              (Inl err, w1) \<Rightarrow> (Inl err, w1)
            | (Inr issuer, w1) \<Rightarrow>
                (case ParsePemKeyFile L (parentKey cfg) w1 of
                   (Inl err, w2) \<Rightarrow> (Inl err, w2)
                 | (Inr issuerKey, w2) \<Rightarrow> (Inr (issuer, issuerKey), w2)))"
  using assms by (simp add: signer_def)

lemma Generate_no_reads:
  assumes "Generate L host dest opts w = (res, w')" and "parentCert (applyOptions opts) = []"
  shows "of_kind FileRead (calls w w') = []"
proof -
  have self: "signer L (applyOptions opts) t priv w3 = (r, w4) \<Longrightarrow> w4 = w3" for t priv w3 r w4
    using assms(2) by (simp add: signer_self)
  have "\<forall>e \<in> set (calls w w'). kind e \<noteq> FileRead"
    using assms(1)
  proof (cases rule: Generate_cases)
    case missing
    then show ?thesis by (simp add: calls_def)
  next
    case (keyfail err)
    then show ?thesis by (auto dest!: generateKey_kind simp: calls_def)
  next
    case (datefail priv w1 err)
    then show ?thesis by (auto dest!: generateKey_kind startTime_kind simp: calls_def)
  next
    case (serialfail priv w1 notBefore w2 err)
    then show ?thesis by (auto dest!: generateKey_kind startTime_kind invoke_trace simp: calls_def)
  next
    case (signerfail priv w1 notBefore w2 sn w3 t err)
    then show ?thesis using assms(2) by (simp add: signer_self)
  next
    case (signfail priv w1 notBefore w2 sn w3 t issuer issuerKey w4 err)
    then show ?thesis using self [OF signfail(6)]
      by (auto dest!: generateKey_kind startTime_kind invoke_trace simp: calls_def)
  next
    case (written priv w1 notBefore w2 sn w3 t issuer issuerKey w4 der w5)
    then show ?thesis using self [OF written(6)]
      by (auto dest!: generateKey_kind startTime_kind invoke_trace writeFiles_kind simp: calls_def)
  qed
  then show ?thesis
    by (simp add: of_kind_def filter_empty_conv)
qed

lemma Generate_signer_fails:
  assumes "host \<noteq> []"
    and "generateKey L (applyOptions opts) w = (Inr priv, w1)"
    and "startTime L (applyOptions opts) w1 = (Inr notBefore, w2)"
    and "invoke (Call_rand_Int serialNumberLimit) (rand_Int L serialNumberLimit) w2 = (Inr sn, w3)"
    and "signer L (applyOptions opts)
           (buildTemplate L host (applyOptions opts) sn notBefore
              (time_Add L notBefore (validFor (applyOptions opts))) (keyUsageFor priv)) priv w3
         = (Inl err, w4)"
  shows "Generate L host dest opts w = (Some err, w4)"
    and "of_kind Signing (calls w w4) = []" and "of_kind FileWrite (calls w w4) = []"
proof -
  show "Generate L host dest opts w = (Some err, w4)"
    using assms by (simp add: Generate_def)
  have "\<forall>e \<in> set (calls w w4). kind e \<noteq> Signing \<and> kind e \<noteq> FileWrite"
    using assms(2-5)
    by (auto dest!: generateKey_kind startTime_kind invoke_trace signer_kind simp: calls_def)
  then show "of_kind Signing (calls w w4) = []" and "of_kind FileWrite (calls w w4) = []"
    by (simp_all add: of_kind_def filter_empty_conv)
qed


lemma before_signing_trace:
  assumes "generateKey L cfg w = (Inr priv, w1)"
    and "startTime L cfg w1 = (Inr notBefore, w2)"
    and "invoke (Call_rand_Int serialNumberLimit) (rand_Int L serialNumberLimit) w2 = (Inr sn, w3)"
    and "signer L cfg t priv w3 = (r, w4)"
  shows "\<exists>a. trace w4 = trace w @ a
           \<and> (\<forall>e \<in> set a. kind e \<noteq> Signing \<and> kind e \<noteq> FileWrite)"
proof -
  from generateKey_kind [OF assms(1)] obtain ks where
    ks: "trace w1 = trace w @ ks" "\<forall>e \<in> set ks. kind e = KeyGeneration"
    by blast
  from startTime_kind [OF assms(2)] obtain cs where
    cs: "trace w2 = trace w1 @ cs" "\<forall>e \<in> set cs. kind e = Clock"
    by blast
  from signer_kind [OF assms(4)] obtain rs where
    rs: "trace w4 = trace w3 @ rs" "\<forall>e \<in> set rs. kind e = FileRead"
    by blast
  have "trace w4 = trace w @ (ks @ cs @ [Call_rand_Int serialNumberLimit (Inr sn)] @ rs)"
    using ks(1) cs(1) rs(1) invoke_trace [OF assms(3)] by simp
  moreover have "\<forall>e \<in> set (ks @ cs @ [Call_rand_Int serialNumberLimit (Inr sn)] @ rs).
      kind e \<noteq> Signing \<and> kind e \<noteq> FileWrite"
    using ks(2) cs(2) rs(2) by auto
  ultimately show ?thesis by blast
qed

lemma Generate_signing_unique:
  assumes "Generate L host dest opts w = (res, w')"
    and "Call_x509_CreateCertificate t issuer pub k r \<in> set (calls w w')"
  shows "of_kind Signing (calls w w') = [Call_x509_CreateCertificate t issuer pub k r]"
proof -
  from Generate_signing_call [OF assms] obtain priv w1 notBefore w2 sn w3 w4 evs where
    key: "generateKey L (applyOptions opts) w = (Inr priv, w1)" and
    start: "startTime L (applyOptions opts) w1 = (Inr notBefore, w2)" and
    serial: "invoke (Call_rand_Int serialNumberLimit) (rand_Int L serialNumberLimit) w2 = (Inr sn, w3)" and
    sign: "signer L (applyOptions opts) t priv w3 = (Inr (issuer, k), w4)" and
    tail: "trace w' = trace w4 @ Call_x509_CreateCertificate t issuer pub k r # evs"
      "\<forall>e \<in> set evs. kind e = FileWrite"
    by blast
  obtain a where a: "trace w4 = trace w @ a" "\<forall>e \<in> set a. kind e \<noteq> Signing"
    using before_signing_trace [OF key start serial sign] by blast
  have "filter (\<lambda>e. kind e = Signing) a = []" "filter (\<lambda>e. kind e = Signing) evs = []"
    using a(2) tail(2) by (simp_all add: filter_empty_conv)
  then show ?thesis
    using a(1) tail(1) by (simp add: calls_def of_kind_def)
qed

lemma Generate_loader_error:
  assumes "Generate L host dest opts w = (Some err, w')"
    and "(\<exists>e. err = FailedToReadFile e) \<or> err = FailedToParseCertificatePEM
         \<or> err = FailedToParseKeyPEM \<or> (\<exists>e. err = FailedToParseDERData e)"
  shows "parentCert (applyOptions opts) \<noteq> [] \<and> of_kind Signing (calls w w') = []
         \<and> of_kind FileWrite (calls w w') = []"
  using assms(1)
proof (cases rule: Generate_cases)
  case missing
  with assms(2) show ?thesis by auto
next
  case (keyfail e)
  with assms(2) generateKey_errors [OF keyfail(2)] show ?thesis by auto
next
  case (datefail priv w1 e)
  with assms(2) startTime_errors [OF datefail(3)] show ?thesis by auto
next
  case (serialfail priv w1 notBefore w2 e)
  with assms(2) show ?thesis by auto
next
  case (signerfail priv w1 notBefore w2 sn w3 t e)
  have "parentCert (applyOptions opts) \<noteq> []"
    using signerfail(6) by (auto simp: signer_def split: if_splits)
  moreover note Generate_signer_fails(2,3)
    [OF signerfail(1,2,3,4) signerfail(6) [unfolded signerfail(5)]]
  ultimately show ?thesis by simp
next
  case (signfail priv w1 notBefore w2 sn w3 t issuer issuerKey w4 e)
  with assms(2) show ?thesis by auto
next
  case (written priv w1 notBefore w2 sn w3 t issuer issuerKey w4 der w5)
  with assms(2) writeFiles_errors [OF written(8)] show ?thesis by auto
qed

lemma simCA_before_signer:
  shows "generateKey simLib (applyOptions [WithSignByParent pc pk]) simCA
           = (Inr (RSAPrivateKey ''rsapub'' ''rsapriv''),
              simCA\<lparr>trace := [Call_rsa_GenerateKey 2048 (Inr (''rsapub'', ''rsapriv''))]\<rparr>)"
    and "startTime simLib (applyOptions [WithSignByParent pc pk])
           (simCA\<lparr>trace := [Call_rsa_GenerateKey 2048 (Inr (''rsapub'', ''rsapriv''))]\<rparr>)
           = (Inr 1000,
              simCA\<lparr>trace := [Call_rsa_GenerateKey 2048 (Inr (''rsapub'', ''rsapriv'')),
                               Call_time_Now 1000]\<rparr>)"
    and "invoke (Call_rand_Int serialNumberLimit) (rand_Int simLib serialNumberLimit)
           (simCA\<lparr>trace := [Call_rsa_GenerateKey 2048 (Inr (''rsapub'', ''rsapriv'')),
                            Call_time_Now 1000]\<rparr>)
           = (Inr 42,
              simCA\<lparr>trace := [Call_rsa_GenerateKey 2048 (Inr (''rsapub'', ''rsapriv'')),
                               Call_time_Now 1000,
                               Call_rand_Int serialNumberLimit (Inr 42)]\<rparr>)"
  by (simp_all add: generateKey_def startTime_def invoke_def applyOptions_def initOptions_def
        WithSignByParent_def simLib_def simCA_def)

lemma simCA_loads:
  "ParsePemCertFile simLib ''out/ca_cert.pem'' (simCA\<lparr>trace := tr\<rparr>)
     = (Inr sim_cert,
        simCA\<lparr>trace := tr @ [Call_os_ReadFile ''out/ca_cert.pem'' (Inr ''CERTIFICATE:der'')]\<rparr>)"
  "ParsePemKeyFile simLib ''out/ca_key.pem'' (simCA\<lparr>trace := tr\<rparr>)
     = (Inr (RSAPrivateKey ''capub'' ''capriv''),
        simCA\<lparr>trace := tr @ [Call_os_ReadFile ''out/ca_key.pem'' (Inr ''PRIVATE KEY:pkcs8'')]\<rparr>)"
  "ParsePemKeyFile simLib ''out/no_key.pem'' (simCA\<lparr>trace := tr\<rparr>)
     = (Inl (FailedToReadFile ''no such file''),
        simCA\<lparr>trace := tr @ [Call_os_ReadFile ''out/no_key.pem'' (Inl ''no such file'')]\<rparr>)"
  "ParsePemCertFile simLib ''out/ca_key.pem'' (simCA\<lparr>trace := tr\<rparr>)
     = (Inl FailedToParseCertificatePEM,
        simCA\<lparr>trace := tr @ [Call_os_ReadFile ''out/ca_key.pem'' (Inr ''PRIVATE KEY:pkcs8'')]\<rparr>)"
  by (simp_all add: ParsePemCertFile_def ParsePemKeyFile_def invoke_def simLib_def simCA_def
        sim_decode_def)

lemma sim_parent_paths:
  "parentCert (applyOptions [WithSignByParent pc pk]) = pc"
  "parentKey (applyOptions [WithSignByParent pc pk]) = pk"
  by (simp_all add: applyOptions_def WithSignByParent_def)

subsection \<open>The log of a run, read against the library\<close>

lemma replay_append:
  "replay L (a @ b) e = (case replay L a e of None \<Rightarrow> None | Some e' \<Rightarrow> replay L b e')"
  by (induction a arbitrary: e) (auto split: option.splits)

lemma invoke_answer:
  "invoke ev f w = (r, w') \<Longrightarrow> trace w' = trace w @ [ev r] \<and> f (env w) = (r, env w')"
  by (auto simp: invoke_def split: prod.splits)

text \<open>
  Two stretches of a log that the library answers as recorded, the second from the
  environment that the first left, make one such stretch.
\<close>

lemma faithful_step:
  assumes "trace w1 = trace w @ a" "replay L a (env w) = Some (env w1)"
    and "trace w2 = trace w1 @ b" "replay L b (env w1) = Some (env w2)"
  shows "trace w2 = trace w @ (a @ b)" "replay L (a @ b) (env w) = Some (env w2)"
  using assms by (simp_all add: replay_append)

lemma ecdsaKey_replay:
  "ecdsaKey L c w = (r, w') \<Longrightarrow>
     \<exists>evs. trace w' = trace w @ evs \<and> replay L evs (env w) = Some (env w')"
  unfolding ecdsaKey_def
  by (auto split: prod.splits sum.splits dest!: invoke_answer)

lemma generateKey_replay:
  "generateKey L cfg w = (r, w') \<Longrightarrow>
     \<exists>evs. trace w' = trace w @ evs \<and> replay L evs (env w) = Some (env w')"
  unfolding generateKey_def
  by (auto split: if_splits prod.splits sum.splits dest!: invoke_answer ecdsaKey_replay)

lemma startTime_replay:
  "startTime L cfg w = (r, w') \<Longrightarrow>
     \<exists>evs. trace w' = trace w @ evs \<and> replay L evs (env w) = Some (env w')"
  unfolding startTime_def
  by (auto split: if_splits prod.splits sum.splits dest!: invoke_answer)

lemma invoke_replay:
  assumes "invoke ev f w = (r, w')"
    and "perform L (ev r) (env w) = (case f (env w) of (r', e') \<Rightarrow> if r' = r then Some e' else None)"
  shows "\<exists>evs. trace w' = trace w @ evs \<and> replay L evs (env w) = Some (env w')"
  using invoke_answer [OF assms(1)] assms(2) by auto

lemma ParsePemCertFile_replay:
  "ParsePemCertFile L path w = (r, w') \<Longrightarrow>
     \<exists>evs. trace w' = trace w @ evs \<and> replay L evs (env w) = Some (env w')"
  unfolding ParsePemCertFile_def
  by (auto split: if_splits prod.splits sum.splits option.splits dest!: invoke_answer)

lemma ParsePemKeyFile_replay:
  "ParsePemKeyFile L path w = (r, w') \<Longrightarrow>
     \<exists>evs. trace w' = trace w @ evs \<and> replay L evs (env w) = Some (env w')"
  unfolding ParsePemKeyFile_def
  by (auto split: if_splits prod.splits sum.splits option.splits dest!: invoke_answer)

lemma replay_chain:
  assumes "\<exists>a. trace w1 = trace w @ a \<and> replay L a (env w) = Some (env w1)"
    and "\<exists>b. trace w2 = trace w1 @ b \<and> replay L b (env w1) = Some (env w2)"
  shows "\<exists>c. trace w2 = trace w @ c \<and> replay L c (env w) = Some (env w2)"
proof -
  from assms obtain a b where "trace w1 = trace w @ a" "replay L a (env w) = Some (env w1)"
    "trace w2 = trace w1 @ b" "replay L b (env w1) = Some (env w2)"
    by blast
  then have "trace w2 = trace w @ (a @ b)" "replay L (a @ b) (env w) = Some (env w2)"
    by (rule faithful_step)+
  then show ?thesis by blast
qed

lemma replay_refl: "\<exists>a. trace w = trace w @ a \<and> replay L a (env w) = Some (env w)"
  by (rule exI [of _ "[]"]) simp

lemma signer_replay:
  assumes "signer L cfg t priv w = (r, w')"
  shows "\<exists>evs. trace w' = trace w @ evs \<and> replay L evs (env w) = Some (env w')"
proof (cases "parentCert cfg = []")
  case True
  with assms have "w' = w" by (simp add: signer_self)
  then show ?thesis using replay_refl by simp
next
  case False
  obtain rc w1 where c: "ParsePemCertFile L (parentCert cfg) w = (rc, w1)"
    by (cases "ParsePemCertFile L (parentCert cfg) w")
  note s1 = ParsePemCertFile_replay [OF c]
  show ?thesis
  proof (cases rc)
    case (Inl err)
    with assms False c have "w' = w1" by (simp add: signer_parent)
    with s1 show ?thesis by simp
  next
    case (Inr issuer)
    obtain rk w2 where k: "ParsePemKeyFile L (parentKey cfg) w1 = (rk, w2)"
      by (cases "ParsePemKeyFile L (parentKey cfg) w1")
    from assms False c Inr k have "w' = w2"
      by (cases rk) (simp_all add: signer_parent)
    with replay_chain [OF s1 ParsePemKeyFile_replay [OF k]] show ?thesis by simp
  qed
qed

lemma writeFiles_replay:
  assumes "writeFiles L dest cfg der priv w = (res, w')"
  shows "\<exists>evs. trace w' = trace w @ evs \<and> replay L evs (env w) = Some (env w')"
  using assms unfolding writeFiles_def Let_def
  by (auto split: prod.splits sum.splits option.splits dest!: invoke_answer)

lemma Generate_replay:
  assumes "Generate L host dest opts w = (res, w')"
  shows "trace w' = trace w @ calls w w' \<and> replay L (calls w w') (env w) = Some (env w')"
proof -
  have "\<exists>evs. trace w' = trace w @ evs \<and> replay L evs (env w) = Some (env w')"
    using assms
  proof (cases rule: Generate_cases)
    case missing
    then show ?thesis using replay_refl by simp
  next
    case (keyfail err)
    then show ?thesis using generateKey_replay by blast
  next
    case (datefail priv w1 err)
    from replay_chain [OF generateKey_replay [OF datefail(2)] startTime_replay [OF datefail(3)]]
    show ?thesis .
  next
    case (serialfail priv w1 notBefore w2 err)
    from replay_chain [OF replay_chain [OF generateKey_replay [OF serialfail(2)]
        startTime_replay [OF serialfail(3)]] invoke_replay [OF serialfail(4)]]
    show ?thesis by simp
  next
    case (signerfail priv w1 notBefore w2 sn w3 t err)
    from replay_chain [OF replay_chain [OF replay_chain [OF generateKey_replay [OF signerfail(2)]
        startTime_replay [OF signerfail(3)]] invoke_replay [OF signerfail(4)]]
        signer_replay [OF signerfail(6)]]
    show ?thesis by simp
  next
    case (signfail priv w1 notBefore w2 sn w3 t issuer issuerKey w4 err)
    from replay_chain [OF replay_chain [OF replay_chain [OF replay_chain
        [OF generateKey_replay [OF signfail(2)] startTime_replay [OF signfail(3)]]
        invoke_replay [OF signfail(4)]] signer_replay [OF signfail(6)]]
        invoke_replay [OF signfail(7)]]
    show ?thesis by simp
  next
    case (written priv w1 notBefore w2 sn w3 t issuer issuerKey w4 der w5)
    from replay_chain [OF replay_chain [OF replay_chain [OF replay_chain [OF replay_chain
        [OF generateKey_replay [OF written(2)] startTime_replay [OF written(3)]]
        invoke_replay [OF written(4)]] signer_replay [OF written(6)]]
        invoke_replay [OF written(7)]] writeFiles_replay [OF written(8)]]
    show ?thesis by simp
  qed
  then show ?thesis by (auto simp: calls_def)
qed

subsection \<open>The generated key within a run\<close>

lemma Generate_after_key:
  assumes run: "Generate L host dest opts w = (res, w')" and host: "host \<noteq> []"
    and key: "generateKey L (applyOptions opts) w = (r, \<lparr>env = e1, trace = trace w @ [ev]\<rparr>)"
  shows "\<exists>evs. calls w w' = ev # evs \<and> of_kind KeyGeneration evs = []
           \<and> (\<forall>err. r = Inl err \<longrightarrow> evs = [] \<and> res = Some err \<and> env w' = e1)
           \<and> (\<forall>priv. r = Inr priv \<longrightarrow>
                (\<forall>t issuer p k x. Call_x509_CreateCertificate t issuer p k x \<in> set evs \<longrightarrow>
                   p = publicKey L priv))"
proof -
  let ?w1 = "\<lparr>env = e1, trace = trace w @ [ev]\<rparr>"
  from Generate_key_calls [OF run host] key obtain evs where
    evs: "trace w' = trace ?w1 @ evs" "\<forall>e \<in> set evs. kind e \<noteq> KeyGeneration"
    by auto
  have calls: "calls w w' = ev # evs"
    using evs(1) by (simp add: calls_def)
  have none: "of_kind KeyGeneration evs = []"
    using evs(2) by (simp add: of_kind_def filter_empty_conv)
  have fails: "evs = [] \<and> res = Some err \<and> env w' = e1" if "r = Inl err" for err
  proof -
    from that key host have "Generate L host dest opts w = (Some err, ?w1)"
      by (simp add: Generate_def)
    with run have "res = Some err" "w' = ?w1" by simp_all
    with evs(1) show ?thesis by simp
  qed
  have subject: "p = publicKey L priv"
    if "r = Inr priv" "Call_x509_CreateCertificate t issuer p k x \<in> set evs" for priv t issuer p k x
  proof -
    from that(2) calls have "Call_x509_CreateCertificate t issuer p k x \<in> set (calls w w')"
      by simp
    from Generate_signing_call [OF run this] key that(1) show ?thesis by auto
  qed
  from calls none fails subject show ?thesis by blast
qed

text \<open>
  C1. Once the host check has passed, Generate picks the key algorithm from the resolved
  configuration, and the key generation is its first library call and its only key
  generation: Ed25519 when the curve selector is empty and the Ed25519 flag is set; RSA
  with the configured bit size when the selector is empty and the flag is not set; ECDSA
  on P224, P256, P384 or P521 when the selector names that curve, whatever the flag is.
  The call is made at the environment of the start, and what the log records is the
  answer of the library. When the answer is an error, the call is the only one of the
  run, Generate returns the key generation error with that text, and the environment is
  the one the library left. When the answer is a key pair, the generated key is built
  from the private part of that answer (for RSA and ECDSA with the public part beside
  it), and every signing call of the run has the public key of that pair as subject key.
  For every other selector Generate returns the unrecognized-curve error and the world
  is untouched, so no key was generated.
\<close>

theorem C1_key_algorithm_selection:
  assumes run: "Generate L host dest opts w = (res, w')" and host: "host \<noteq> []"
  shows
    "(ecdsaCurve (applyOptions opts) = [] \<and> ed25519Key (applyOptions opts) \<longrightarrow>
        (\<exists>evs. calls w w' = Call_ed25519_GenerateKey (fst (ed25519_GenerateKey L (env w))) # evs
           \<and> of_kind KeyGeneration evs = []
           \<and> (case fst (ed25519_GenerateKey L (env w)) of
                 Inl err \<Rightarrow>
                   evs = [] \<and> res = Some (FailedToGeneratePrivateKey err)
                   \<and> env w' = snd (ed25519_GenerateKey L (env w))
               | Inr (pub, priv) \<Rightarrow>
                   generateKey L (applyOptions opts) w =
                     (Inr (Ed25519PrivateKey priv),
                      \<lparr>env = snd (ed25519_GenerateKey L (env w)),
                       trace = trace w @ [Call_ed25519_GenerateKey (Inr (pub, priv))]\<rparr>)
                   \<and> (\<forall>t issuer p k x.
                         Call_x509_CreateCertificate t issuer p k x \<in> set evs \<longrightarrow>
                           p = Ed25519PublicKey (ed25519_Public L priv)))))
     \<and> (ecdsaCurve (applyOptions opts) = [] \<and> \<not> ed25519Key (applyOptions opts) \<longrightarrow>
        (\<exists>evs. calls w w' = Call_rsa_GenerateKey (rsaBits (applyOptions opts)) (fst (rsa_GenerateKey L (rsaBits (applyOptions opts)) (env w))) # evs
           \<and> of_kind KeyGeneration evs = []
           \<and> (case fst (rsa_GenerateKey L (rsaBits (applyOptions opts)) (env w)) of
                 Inl err \<Rightarrow>
                   evs = [] \<and> res = Some (FailedToGeneratePrivateKey err)
                   \<and> env w' = snd (rsa_GenerateKey L (rsaBits (applyOptions opts)) (env w))
               | Inr (n, d) \<Rightarrow>
                   generateKey L (applyOptions opts) w =
                     (Inr (RSAPrivateKey n d),
                      \<lparr>env = snd (rsa_GenerateKey L (rsaBits (applyOptions opts)) (env w)),
                       trace = trace w @ [Call_rsa_GenerateKey (rsaBits (applyOptions opts)) (Inr (n, d))]\<rparr>)
                   \<and> (\<forall>t issuer p k x.
                         Call_x509_CreateCertificate t issuer p k x \<in> set evs \<longrightarrow>
                           p = RSAPublicKey n))))
     \<and> (ecdsaCurve (applyOptions opts) = CurveP224 \<longrightarrow>
        (\<exists>evs. calls w w' = Call_ecdsa_GenerateKey P224 (fst (ecdsa_GenerateKey L P224 (env w))) # evs
           \<and> of_kind KeyGeneration evs = []
           \<and> (case fst (ecdsa_GenerateKey L P224 (env w)) of
                 Inl err \<Rightarrow>
                   evs = [] \<and> res = Some (FailedToGeneratePrivateKey err)
                   \<and> env w' = snd (ecdsa_GenerateKey L P224 (env w))
               | Inr (n, d) \<Rightarrow>
                   generateKey L (applyOptions opts) w =
                     (Inr (ECDSAPrivateKey P224 n d),
                      \<lparr>env = snd (ecdsa_GenerateKey L P224 (env w)),
                       trace = trace w @ [Call_ecdsa_GenerateKey P224 (Inr (n, d))]\<rparr>)
                   \<and> (\<forall>t issuer p k x.
                         Call_x509_CreateCertificate t issuer p k x \<in> set evs \<longrightarrow>
                           p = ECDSAPublicKey P224 n))))
     \<and> (ecdsaCurve (applyOptions opts) = CurveP256 \<longrightarrow>
        (\<exists>evs. calls w w' = Call_ecdsa_GenerateKey P256 (fst (ecdsa_GenerateKey L P256 (env w))) # evs
           \<and> of_kind KeyGeneration evs = []
           \<and> (case fst (ecdsa_GenerateKey L P256 (env w)) of
                 Inl err \<Rightarrow>
                   evs = [] \<and> res = Some (FailedToGeneratePrivateKey err)
                   \<and> env w' = snd (ecdsa_GenerateKey L P256 (env w))
               | Inr (n, d) \<Rightarrow>
                   generateKey L (applyOptions opts) w =
                     (Inr (ECDSAPrivateKey P256 n d),
                      \<lparr>env = snd (ecdsa_GenerateKey L P256 (env w)),
                       trace = trace w @ [Call_ecdsa_GenerateKey P256 (Inr (n, d))]\<rparr>)
                   \<and> (\<forall>t issuer p k x.
                         Call_x509_CreateCertificate t issuer p k x \<in> set evs \<longrightarrow>
                           p = ECDSAPublicKey P256 n))))
     \<and> (ecdsaCurve (applyOptions opts) = CurveP384 \<longrightarrow>
        (\<exists>evs. calls w w' = Call_ecdsa_GenerateKey P384 (fst (ecdsa_GenerateKey L P384 (env w))) # evs
           \<and> of_kind KeyGeneration evs = []
           \<and> (case fst (ecdsa_GenerateKey L P384 (env w)) of
                 Inl err \<Rightarrow>
                   evs = [] \<and> res = Some (FailedToGeneratePrivateKey err)
                   \<and> env w' = snd (ecdsa_GenerateKey L P384 (env w))
               | Inr (n, d) \<Rightarrow>
                   generateKey L (applyOptions opts) w =
                     (Inr (ECDSAPrivateKey P384 n d),
                      \<lparr>env = snd (ecdsa_GenerateKey L P384 (env w)),
                       trace = trace w @ [Call_ecdsa_GenerateKey P384 (Inr (n, d))]\<rparr>)
                   \<and> (\<forall>t issuer p k x.
                         Call_x509_CreateCertificate t issuer p k x \<in> set evs \<longrightarrow>
                           p = ECDSAPublicKey P384 n))))
     \<and> (ecdsaCurve (applyOptions opts) = CurveP521 \<longrightarrow>
        (\<exists>evs. calls w w' = Call_ecdsa_GenerateKey P521 (fst (ecdsa_GenerateKey L P521 (env w))) # evs
           \<and> of_kind KeyGeneration evs = []
           \<and> (case fst (ecdsa_GenerateKey L P521 (env w)) of
                 Inl err \<Rightarrow>
                   evs = [] \<and> res = Some (FailedToGeneratePrivateKey err)
                   \<and> env w' = snd (ecdsa_GenerateKey L P521 (env w))
               | Inr (n, d) \<Rightarrow>
                   generateKey L (applyOptions opts) w =
                     (Inr (ECDSAPrivateKey P521 n d),
                      \<lparr>env = snd (ecdsa_GenerateKey L P521 (env w)),
                       trace = trace w @ [Call_ecdsa_GenerateKey P521 (Inr (n, d))]\<rparr>)
                   \<and> (\<forall>t issuer p k x.
                         Call_x509_CreateCertificate t issuer p k x \<in> set evs \<longrightarrow>
                           p = ECDSAPublicKey P521 n))))
     \<and> (ecdsaCurve (applyOptions opts) \<notin> {[], CurveP224, CurveP256, CurveP384, CurveP521} \<longrightarrow>
        res = Some (UnrecognizedEllipticCurve (ecdsaCurve (applyOptions opts))) \<and> w' = w)"
proof -
  let ?cfg = "applyOptions opts"
  note after = Generate_after_key [OF run host]
  have ed: "?thesis" if c: "ecdsaCurve ?cfg = []" "ed25519Key ?cfg"
  proof -
    have g: "generateKey L ?cfg w =
       (case fst (ed25519_GenerateKey L (env w)) of
          Inl err \<Rightarrow> Inl (FailedToGeneratePrivateKey err)
        | Inr (pub, priv) \<Rightarrow> Inr (Ed25519PrivateKey priv),
        \<lparr>env = snd (ed25519_GenerateKey L (env w)),
         trace = trace w @ [Call_ed25519_GenerateKey (fst (ed25519_GenerateKey L (env w)))]\<rparr>)"
      using c by (simp add: generateKey_def invoke_def split: prod.splits sum.splits)
    from after [OF g] obtain evs where
      "calls w w' = Call_ed25519_GenerateKey (fst (ed25519_GenerateKey L (env w))) # evs"
      "of_kind KeyGeneration evs = []"
      "\<forall>err. (case fst (ed25519_GenerateKey L (env w)) of
               Inl err \<Rightarrow> Inl (FailedToGeneratePrivateKey err)
             | Inr (pub, priv) \<Rightarrow> Inr (Ed25519PrivateKey priv)) = Inl err \<longrightarrow>
          evs = [] \<and> res = Some err \<and> env w' = snd (ed25519_GenerateKey L (env w))"
      "\<forall>priv. (case fst (ed25519_GenerateKey L (env w)) of
               Inl err \<Rightarrow> Inl (FailedToGeneratePrivateKey err)
             | Inr (pub, priv) \<Rightarrow> Inr (Ed25519PrivateKey priv)) = Inr priv \<longrightarrow>
          (\<forall>t issuer p k x. Call_x509_CreateCertificate t issuer p k x \<in> set evs \<longrightarrow>
             p = publicKey L priv)"
      by blast
    then show ?thesis
      using c g
      by (cases "fst (ed25519_GenerateKey L (env w))")
         (auto simp: publicKey_def CurveP224_def CurveP256_def CurveP384_def CurveP521_def
            split: prod.splits)
  qed
  have rsa: "?thesis" if c: "ecdsaCurve ?cfg = []" "\<not> ed25519Key ?cfg"
  proof -
    have g: "generateKey L ?cfg w =
       (case fst (rsa_GenerateKey L (rsaBits ?cfg) (env w)) of
          Inl err \<Rightarrow> Inl (FailedToGeneratePrivateKey err)
        | Inr (n, d) \<Rightarrow> Inr (RSAPrivateKey n d),
        \<lparr>env = snd (rsa_GenerateKey L (rsaBits ?cfg) (env w)),
         trace = trace w
           @ [Call_rsa_GenerateKey (rsaBits ?cfg)
                (fst (rsa_GenerateKey L (rsaBits ?cfg) (env w)))]\<rparr>)"
      using c by (simp add: generateKey_def invoke_def split: prod.splits sum.splits)
    from after [OF g] obtain evs where
      "calls w w' = Call_rsa_GenerateKey (rsaBits ?cfg) (fst (rsa_GenerateKey L (rsaBits ?cfg) (env w))) # evs"
      "of_kind KeyGeneration evs = []"
      "\<forall>err. (case fst (rsa_GenerateKey L (rsaBits ?cfg) (env w)) of
               Inl err \<Rightarrow> Inl (FailedToGeneratePrivateKey err)
             | Inr (n, d) \<Rightarrow> Inr (RSAPrivateKey n d)) = Inl err \<longrightarrow>
          evs = [] \<and> res = Some err \<and> env w' = snd (rsa_GenerateKey L (rsaBits ?cfg) (env w))"
      "\<forall>priv. (case fst (rsa_GenerateKey L (rsaBits ?cfg) (env w)) of
               Inl err \<Rightarrow> Inl (FailedToGeneratePrivateKey err)
             | Inr (n, d) \<Rightarrow> Inr (RSAPrivateKey n d)) = Inr priv \<longrightarrow>
          (\<forall>t issuer p k x. Call_x509_CreateCertificate t issuer p k x \<in> set evs \<longrightarrow>
             p = publicKey L priv)"
      by blast
    then show ?thesis
      using c g
      by (cases "fst (rsa_GenerateKey L (rsaBits ?cfg) (env w))")
         (auto simp: publicKey_def CurveP224_def CurveP256_def CurveP384_def CurveP521_def
            split: prod.splits)
  qed
  have ec: "?thesis"
    if c: "ecdsaCurve ?cfg = name" "generateKey L ?cfg w = ecdsaKey L c w"
      "(name, c) \<in> {(CurveP224, P224), (CurveP256, P256), (CurveP384, P384), (CurveP521, P521)}"
    for name c
  proof -
    have "ecdsaKey L c w =
       (case fst (ecdsa_GenerateKey L c (env w)) of
          Inl err \<Rightarrow> Inl (FailedToGeneratePrivateKey err)
        | Inr (n, d) \<Rightarrow> Inr (ECDSAPrivateKey c n d),
        \<lparr>env = snd (ecdsa_GenerateKey L c (env w)),
         trace = trace w @ [Call_ecdsa_GenerateKey c (fst (ecdsa_GenerateKey L c (env w)))]\<rparr>)"
      by (simp add: ecdsaKey_def invoke_def split: prod.splits sum.splits)
    with c(2) have g: "generateKey L ?cfg w =
       (case fst (ecdsa_GenerateKey L c (env w)) of
          Inl err \<Rightarrow> Inl (FailedToGeneratePrivateKey err)
        | Inr (n, d) \<Rightarrow> Inr (ECDSAPrivateKey c n d),
        \<lparr>env = snd (ecdsa_GenerateKey L c (env w)),
         trace = trace w @ [Call_ecdsa_GenerateKey c (fst (ecdsa_GenerateKey L c (env w)))]\<rparr>)"
      by simp
    from after [OF g] obtain evs where
      "calls w w' = Call_ecdsa_GenerateKey c (fst (ecdsa_GenerateKey L c (env w))) # evs"
      "of_kind KeyGeneration evs = []"
      "\<forall>err. (case fst (ecdsa_GenerateKey L c (env w)) of
               Inl err \<Rightarrow> Inl (FailedToGeneratePrivateKey err)
             | Inr (n, d) \<Rightarrow> Inr (ECDSAPrivateKey c n d)) = Inl err \<longrightarrow>
          evs = [] \<and> res = Some err \<and> env w' = snd (ecdsa_GenerateKey L c (env w))"
      "\<forall>priv. (case fst (ecdsa_GenerateKey L c (env w)) of
               Inl err \<Rightarrow> Inl (FailedToGeneratePrivateKey err)
             | Inr (n, d) \<Rightarrow> Inr (ECDSAPrivateKey c n d)) = Inr priv \<longrightarrow>
          (\<forall>t issuer p k x. Call_x509_CreateCertificate t issuer p k x \<in> set evs \<longrightarrow>
             p = publicKey L priv)"
      by blast
    then show ?thesis
      using c(1,3) g
      by (cases "fst (ecdsa_GenerateKey L c (env w))")
         (auto simp: publicKey_def CurveP224_def CurveP256_def CurveP384_def CurveP521_def
            split: prod.splits)
  qed
  have unrec: "?thesis"
    if c: "ecdsaCurve ?cfg \<notin> {[], CurveP224, CurveP256, CurveP384, CurveP521}"
  proof -
    from c have "generateKey L ?cfg w = (Inl (UnrecognizedEllipticCurve (ecdsaCurve ?cfg)), w)"
      by (simp add: generateKey_def)
    with host have "Generate L host dest opts w
        = (Some (UnrecognizedEllipticCurve (ecdsaCurve ?cfg)), w)"
      by (simp add: Generate_def)
    with run c show ?thesis
      by (auto simp: CurveP224_def CurveP256_def CurveP384_def CurveP521_def)
  qed
  have curves:
    "ecdsaCurve ?cfg = CurveP224 \<Longrightarrow> generateKey L ?cfg w = ecdsaKey L P224 w"
    "ecdsaCurve ?cfg = CurveP256 \<Longrightarrow> generateKey L ?cfg w = ecdsaKey L P256 w"
    "ecdsaCurve ?cfg = CurveP384 \<Longrightarrow> generateKey L ?cfg w = ecdsaKey L P384 w"
    "ecdsaCurve ?cfg = CurveP521 \<Longrightarrow> generateKey L ?cfg w = ecdsaKey L P521 w"
    by (simp_all add: generateKey_def CurveP224_def CurveP256_def CurveP384_def CurveP521_def)
  consider "ecdsaCurve ?cfg = []" "ed25519Key ?cfg"
    | "ecdsaCurve ?cfg = []" "\<not> ed25519Key ?cfg"
    | "ecdsaCurve ?cfg = CurveP224" | "ecdsaCurve ?cfg = CurveP256"
    | "ecdsaCurve ?cfg = CurveP384" | "ecdsaCurve ?cfg = CurveP521"
    | "ecdsaCurve ?cfg \<notin> {[], CurveP224, CurveP256, CurveP384, CurveP521}"
    by blast
  then show ?thesis
  proof cases
    case 1 then show ?thesis by (rule ed)
  next
    case 2 then show ?thesis by (rule rsa)
  next
    case 3 then show ?thesis using ec [OF _ curves(1)] by simp
  next
    case 4 then show ?thesis using ec [OF _ curves(2)] by simp
  next
    case 5 then show ?thesis using ec [OF _ curves(3)] by simp
  next
    case 6 then show ?thesis using ec [OF _ curves(4)] by simp
  next
    case 7 then show ?thesis by (rule unrec)
  qed
qed

text \<open>
  The theorem in the simulated environment: the Ed25519 option, no option, a curve
  together with the Ed25519 option, an RSA size that the library refuses, and a selector
  that is no curve.
\<close>

theorem C1_witness:
  "''a.com'' \<noteq> []
   \<and> ecdsaCurve (applyOptions [WithED25519]) = []
   \<and> ed25519Key (applyOptions [WithED25519])
   \<and> fst (ed25519_GenerateKey simLib (env sim0)) = Inr (''edpub'', ''edpriv'')
   \<and> (\<exists>evs. calls sim0 (snd (Generate simLib ''a.com'' ''out'' [WithED25519] sim0))
          = Call_ed25519_GenerateKey (Inr (''edpub'', ''edpriv'')) # evs
        \<and> of_kind KeyGeneration evs = []
        \<and> fst (generateKey simLib (applyOptions [WithED25519]) sim0) = Inr (Ed25519PrivateKey ''edpriv'')
        \<and> (\<exists>t issuer k x. Call_x509_CreateCertificate t issuer (Ed25519PublicKey ''edpub'') k x \<in> set evs))
   \<and> ecdsaCurve (applyOptions []) = []
   \<and> \<not> ed25519Key (applyOptions [])
   \<and> fst (rsa_GenerateKey simLib 2048 (env sim0)) = Inr (''rsapub'', ''rsapriv'')
   \<and> (\<exists>evs. calls sim0 (snd (Generate simLib ''a.com'' ''out'' [] sim0))
          = Call_rsa_GenerateKey 2048 (Inr (''rsapub'', ''rsapriv'')) # evs
        \<and> of_kind KeyGeneration evs = []
        \<and> fst (generateKey simLib (applyOptions []) sim0) = Inr (RSAPrivateKey ''rsapub'' ''rsapriv'')
        \<and> (\<exists>t issuer k x. Call_x509_CreateCertificate t issuer (RSAPublicKey ''rsapub'') k x \<in> set evs))
   \<and> ecdsaCurve (applyOptions [WithED25519, WithP521]) = CurveP521
   \<and> fst (ecdsa_GenerateKey simLib P521 (env sim0)) = Inr (''ecpub'', ''ecpriv'')
   \<and> (\<exists>evs. calls sim0 (snd (Generate simLib ''a.com'' ''out'' [WithED25519, WithP521] sim0))
          = Call_ecdsa_GenerateKey P521 (Inr (''ecpub'', ''ecpriv'')) # evs
        \<and> of_kind KeyGeneration evs = []
        \<and> fst (generateKey simLib (applyOptions [WithED25519, WithP521]) sim0) = Inr (ECDSAPrivateKey P521 ''ecpub'' ''ecpriv'')
        \<and> (\<exists>t issuer k x. Call_x509_CreateCertificate t issuer (ECDSAPublicKey P521 ''ecpub'') k x \<in> set evs))
   \<and> ecdsaCurve (applyOptions [WithRSABits 512]) = []
   \<and> \<not> ed25519Key (applyOptions [WithRSABits 512])
   \<and> fst (rsa_GenerateKey simLib 512 (env sim0)) = Inl ''key too small''
   \<and> calls sim0 (snd (Generate simLib ''a.com'' ''out'' [WithRSABits 512] sim0))
        = [Call_rsa_GenerateKey 512 (Inl ''key too small'')]
   \<and> fst (Generate simLib ''a.com'' ''out'' [WithRSABits 512] sim0)
        = Some (FailedToGeneratePrivateKey ''key too small'')
   \<and> ecdsaCurve (applyOptions [\<lambda>cfg. cfg\<lparr>ecdsaCurve := ''P999''\<rparr>])
        \<notin> {[], CurveP224, CurveP256, CurveP384, CurveP521}
   \<and> Generate simLib ''a.com'' ''out'' [\<lambda>cfg. cfg\<lparr>ecdsaCurve := ''P999''\<rparr>] sim0
        = (Some (UnrecognizedEllipticCurve ''P999''), sim0)"
proof -
  have h: "''a.com'' \<noteq> []" by simp
  have ed_a: "ecdsaCurve (applyOptions [WithED25519]) = []" "ed25519Key (applyOptions [WithED25519])"
    by (simp_all add: applyOptions_def initOptions_def WithED25519_def WithP521_def)
  have ed_l: "fst (ed25519_GenerateKey simLib (env sim0)) = Inr (''edpub'', ''edpriv'')"
    by (simp add: simLib_def)
  have "fst (Generate simLib ''a.com'' ''out'' [WithED25519] sim0) = None"
    by code_simp
  then have ed_run: "Generate simLib ''a.com'' ''out'' [WithED25519] sim0
      = (None, snd (Generate simLib ''a.com'' ''out'' [WithED25519] sim0))"
    by (simp add: prod_eq_iff)
  note ed_t = C1_key_algorithm_selection [OF ed_run h, THEN conjunct1, rule_format, OF conjI [OF ed_a(1) ed_a(2)]]
  from ed_t ed_l ed_a obtain evs where ed_e:
    "calls sim0 (snd (Generate simLib ''a.com'' ''out'' [WithED25519] sim0))
       = Call_ed25519_GenerateKey (Inr (''edpub'', ''edpriv'')) # evs"
    "of_kind KeyGeneration evs = []"
    "fst (generateKey simLib (applyOptions [WithED25519]) sim0) = Inr (Ed25519PrivateKey ''edpriv'')"
    "\<forall>t issuer p k x. Call_x509_CreateCertificate t issuer p k x \<in> set evs \<longrightarrow>
        p = Ed25519PublicKey ''edpub''"
    by (auto simp: simLib_def)
  from Generate_success_signs [OF ed_run] obtain t i p s d where
    "Call_x509_CreateCertificate t i p s (Inr d)
       \<in> set (calls sim0 (snd (Generate simLib ''a.com'' ''out'' [WithED25519] sim0)))"
    by blast
  with ed_e(1) have "Call_x509_CreateCertificate t i p s (Inr d) \<in> set evs"
    by simp
  with ed_e(4) have "Call_x509_CreateCertificate t i (Ed25519PublicKey ''edpub'') s (Inr d) \<in> set evs"
    by blast
  with ed_e(1,2,3) have ed_c: "(\<exists>evs. calls sim0 (snd (Generate simLib ''a.com'' ''out'' [WithED25519] sim0))
          = Call_ed25519_GenerateKey (Inr (''edpub'', ''edpriv'')) # evs
        \<and> of_kind KeyGeneration evs = []
        \<and> fst (generateKey simLib (applyOptions [WithED25519]) sim0) = Inr (Ed25519PrivateKey ''edpriv'')
        \<and> (\<exists>t issuer k x. Call_x509_CreateCertificate t issuer (Ed25519PublicKey ''edpub'') k x \<in> set evs))"
    by blast
  have rsa_a: "ecdsaCurve (applyOptions []) = []" "\<not> ed25519Key (applyOptions [])" "rsaBits (applyOptions []) = 2048"
    by (simp_all add: applyOptions_def initOptions_def WithED25519_def WithP521_def)
  have rsa_l: "fst (rsa_GenerateKey simLib 2048 (env sim0)) = Inr (''rsapub'', ''rsapriv'')"
    by (simp add: simLib_def)
  have "fst (Generate simLib ''a.com'' ''out'' [] sim0) = None"
    by code_simp
  then have rsa_run: "Generate simLib ''a.com'' ''out'' [] sim0
      = (None, snd (Generate simLib ''a.com'' ''out'' [] sim0))"
    by (simp add: prod_eq_iff)
  note rsa_t = C1_key_algorithm_selection [OF rsa_run h, THEN conjunct2, THEN conjunct1, rule_format, OF conjI [OF rsa_a(1) rsa_a(2)]]
  from rsa_t rsa_l rsa_a obtain evs where rsa_e:
    "calls sim0 (snd (Generate simLib ''a.com'' ''out'' [] sim0))
       = Call_rsa_GenerateKey 2048 (Inr (''rsapub'', ''rsapriv'')) # evs"
    "of_kind KeyGeneration evs = []"
    "fst (generateKey simLib (applyOptions []) sim0) = Inr (RSAPrivateKey ''rsapub'' ''rsapriv'')"
    "\<forall>t issuer p k x. Call_x509_CreateCertificate t issuer p k x \<in> set evs \<longrightarrow>
        p = RSAPublicKey ''rsapub''"
    by (auto simp: simLib_def)
  from Generate_success_signs [OF rsa_run] obtain t i p s d where
    "Call_x509_CreateCertificate t i p s (Inr d)
       \<in> set (calls sim0 (snd (Generate simLib ''a.com'' ''out'' [] sim0)))"
    by blast
  with rsa_e(1) have "Call_x509_CreateCertificate t i p s (Inr d) \<in> set evs"
    by simp
  with rsa_e(4) have "Call_x509_CreateCertificate t i (RSAPublicKey ''rsapub'') s (Inr d) \<in> set evs"
    by blast
  with rsa_e(1,2,3) have rsa_c: "(\<exists>evs. calls sim0 (snd (Generate simLib ''a.com'' ''out'' [] sim0))
          = Call_rsa_GenerateKey 2048 (Inr (''rsapub'', ''rsapriv'')) # evs
        \<and> of_kind KeyGeneration evs = []
        \<and> fst (generateKey simLib (applyOptions []) sim0) = Inr (RSAPrivateKey ''rsapub'' ''rsapriv'')
        \<and> (\<exists>t issuer k x. Call_x509_CreateCertificate t issuer (RSAPublicKey ''rsapub'') k x \<in> set evs))"
    by blast
  have ec_a: "ecdsaCurve (applyOptions [WithED25519, WithP521]) = CurveP521"
    by (simp_all add: applyOptions_def initOptions_def WithED25519_def WithP521_def)
  have ec_l: "fst (ecdsa_GenerateKey simLib P521 (env sim0)) = Inr (''ecpub'', ''ecpriv'')"
    by (simp add: simLib_def)
  have "fst (Generate simLib ''a.com'' ''out'' [WithED25519, WithP521] sim0) = None"
    by code_simp
  then have ec_run: "Generate simLib ''a.com'' ''out'' [WithED25519, WithP521] sim0
      = (None, snd (Generate simLib ''a.com'' ''out'' [WithED25519, WithP521] sim0))"
    by (simp add: prod_eq_iff)
  note ec_t = C1_key_algorithm_selection [OF ec_run h, THEN conjunct2, THEN conjunct2, THEN conjunct2, THEN conjunct2, THEN conjunct2, THEN conjunct1, rule_format, OF ec_a(1)]
  from ec_t ec_l ec_a obtain evs where ec_e:
    "calls sim0 (snd (Generate simLib ''a.com'' ''out'' [WithED25519, WithP521] sim0))
       = Call_ecdsa_GenerateKey P521 (Inr (''ecpub'', ''ecpriv'')) # evs"
    "of_kind KeyGeneration evs = []"
    "fst (generateKey simLib (applyOptions [WithED25519, WithP521]) sim0) = Inr (ECDSAPrivateKey P521 ''ecpub'' ''ecpriv'')"
    "\<forall>t issuer p k x. Call_x509_CreateCertificate t issuer p k x \<in> set evs \<longrightarrow>
        p = ECDSAPublicKey P521 ''ecpub''"
    by (auto simp: simLib_def)
  from Generate_success_signs [OF ec_run] obtain t i p s d where
    "Call_x509_CreateCertificate t i p s (Inr d)
       \<in> set (calls sim0 (snd (Generate simLib ''a.com'' ''out'' [WithED25519, WithP521] sim0)))"
    by blast
  with ec_e(1) have "Call_x509_CreateCertificate t i p s (Inr d) \<in> set evs"
    by simp
  with ec_e(4) have "Call_x509_CreateCertificate t i (ECDSAPublicKey P521 ''ecpub'') s (Inr d) \<in> set evs"
    by blast
  with ec_e(1,2,3) have ec_c: "(\<exists>evs. calls sim0 (snd (Generate simLib ''a.com'' ''out'' [WithED25519, WithP521] sim0))
          = Call_ecdsa_GenerateKey P521 (Inr (''ecpub'', ''ecpriv'')) # evs
        \<and> of_kind KeyGeneration evs = []
        \<and> fst (generateKey simLib (applyOptions [WithED25519, WithP521]) sim0) = Inr (ECDSAPrivateKey P521 ''ecpub'' ''ecpriv'')
        \<and> (\<exists>t issuer k x. Call_x509_CreateCertificate t issuer (ECDSAPublicKey P521 ''ecpub'') k x \<in> set evs))"
    by blast
  have small_a: "ecdsaCurve (applyOptions [WithRSABits 512]) = []"
    "\<not> ed25519Key (applyOptions [WithRSABits 512])" "rsaBits (applyOptions [WithRSABits 512]) = 512"
    by (simp_all add: applyOptions_def initOptions_def WithRSABits_def)
  have small_l: "fst (rsa_GenerateKey simLib 512 (env sim0)) = Inl ''key too small''"
    by (simp add: simLib_def)
  have small_run: "Generate simLib ''a.com'' ''out'' [WithRSABits 512] sim0
      = (fst (Generate simLib ''a.com'' ''out'' [WithRSABits 512] sim0),
         snd (Generate simLib ''a.com'' ''out'' [WithRSABits 512] sim0))"
    by simp
  note small_t = C1_key_algorithm_selection [OF small_run h,
      THEN conjunct2, THEN conjunct1, rule_format, OF conjI [OF small_a(1) small_a(2)]]
  from small_t small_l small_a(3) have small_c:
    "calls sim0 (snd (Generate simLib ''a.com'' ''out'' [WithRSABits 512] sim0))
        = [Call_rsa_GenerateKey 512 (Inl ''key too small'')]"
    "fst (Generate simLib ''a.com'' ''out'' [WithRSABits 512] sim0)
        = Some (FailedToGeneratePrivateKey ''key too small'')"
    by auto
  have un_a: "ecdsaCurve (applyOptions [\<lambda>cfg. cfg\<lparr>ecdsaCurve := ''P999''\<rparr>]) = ''P999''"
    by (simp add: applyOptions_def initOptions_def)
  have un_b: "''P999'' \<notin> {[], CurveP224, CurveP256, CurveP384, CurveP521}"
    by (simp add: CurveP224_def CurveP256_def CurveP384_def CurveP521_def)
  have un_run: "Generate simLib ''a.com'' ''out'' [\<lambda>cfg. cfg\<lparr>ecdsaCurve := ''P999''\<rparr>] sim0
      = (fst (Generate simLib ''a.com'' ''out'' [\<lambda>cfg. cfg\<lparr>ecdsaCurve := ''P999''\<rparr>] sim0),
         snd (Generate simLib ''a.com'' ''out'' [\<lambda>cfg. cfg\<lparr>ecdsaCurve := ''P999''\<rparr>] sim0))"
    by simp
  note un_t = C1_key_algorithm_selection [OF un_run h]
  from un_t un_a un_b have un_c:
    "Generate simLib ''a.com'' ''out'' [\<lambda>cfg. cfg\<lparr>ecdsaCurve := ''P999''\<rparr>] sim0
        = (Some (UnrecognizedEllipticCurve ''P999''), sim0)"
    by (simp add: prod_eq_iff)
  show ?thesis
    using h ed_a ed_l ed_c rsa_a rsa_l rsa_c ec_a ec_l ec_c small_a(1,2) small_l small_c un_a un_b un_c
    by simp
qed

subsection \<open>The keys and the answers of a signing call\<close>

lemma generateKey_event:
  assumes "generateKey L cfg w = (Inr k, w1)"
  shows "\<exists>ev. trace w1 = trace w @ [ev]
           \<and> (case k of
                 RSAPrivateKey n d \<Rightarrow> ev = Call_rsa_GenerateKey (rsaBits cfg) (Inr (n, d))
               | ECDSAPrivateKey c n d \<Rightarrow> ev = Call_ecdsa_GenerateKey c (Inr (n, d))
               | Ed25519PrivateKey s \<Rightarrow> (\<exists>p. ev = Call_ed25519_GenerateKey (Inr (p, s)))
               | OtherPrivateKey b \<Rightarrow> False)"
  using assms unfolding generateKey_def ecdsaKey_def invoke_def
  by (auto split: if_splits prod.splits sum.splits)

lemma Generate_key_logged:
  assumes run: "Generate L host dest opts w = (res, w')" and host: "host \<noteq> []"
    and key: "generateKey L (applyOptions opts) w = (Inr k, w1)"
  shows "case k of
           RSAPrivateKey n d \<Rightarrow>
             Call_rsa_GenerateKey (rsaBits (applyOptions opts)) (Inr (n, d)) \<in> set (calls w w')
         | ECDSAPrivateKey c n d \<Rightarrow> Call_ecdsa_GenerateKey c (Inr (n, d)) \<in> set (calls w w')
         | Ed25519PrivateKey s \<Rightarrow> (\<exists>p. Call_ed25519_GenerateKey (Inr (p, s)) \<in> set (calls w w'))
         | OtherPrivateKey b \<Rightarrow> False"
proof -
  from Generate_key_calls [OF run host] key obtain evs where
    evs: "trace w' = trace w1 @ evs"
    by auto
  from generateKey_event [OF key] obtain ev where
    ev: "trace w1 = trace w @ [ev]"
      "case k of
         RSAPrivateKey n d \<Rightarrow> ev = Call_rsa_GenerateKey (rsaBits (applyOptions opts)) (Inr (n, d))
       | ECDSAPrivateKey c n d \<Rightarrow> ev = Call_ecdsa_GenerateKey c (Inr (n, d))
       | Ed25519PrivateKey s \<Rightarrow> (\<exists>p. ev = Call_ed25519_GenerateKey (Inr (p, s)))
       | OtherPrivateKey b \<Rightarrow> False"
    by blast
  have "ev \<in> set (calls w w')"
    using evs ev(1) by (simp add: calls_def)
  with ev(2) show ?thesis
    by (cases k) auto
qed

lemma Generate_signing_answer:
  assumes "host \<noteq> []"
    and "generateKey L (applyOptions opts) w = (Inr priv, w1)"
    and "startTime L (applyOptions opts) w1 = (Inr notBefore, w2)"
    and "invoke (Call_rand_Int serialNumberLimit) (rand_Int L serialNumberLimit) w2 = (Inr sn, w3)"
    and "t = buildTemplate L host (applyOptions opts) sn notBefore
               (time_Add L notBefore (validFor (applyOptions opts))) (keyUsageFor priv)"
    and "signer L (applyOptions opts) t priv w3 = (Inr (issuer, k), w4)"
    and run: "Generate L host dest opts w = (res, w')"
  shows "of_kind Signing (calls w w') =
           [Call_x509_CreateCertificate t issuer (publicKey L priv) k
              (fst (x509_CreateCertificate L t issuer (publicKey L priv) k (env w4)))]"
proof -
  obtain r w5 where sign:
    "invoke (Call_x509_CreateCertificate t issuer (publicKey L priv) k)
       (x509_CreateCertificate L t issuer (publicKey L priv) k) w4 = (r, w5)"
    by (cases "invoke (Call_x509_CreateCertificate t issuer (publicKey L priv) k)
       (x509_CreateCertificate L t issuer (publicKey L priv) k) w4")
  from invoke_answer [OF sign]
  have r: "r = fst (x509_CreateCertificate L t issuer (publicKey L priv) k (env w4))"
    by simp
  obtain a where a: "trace w4 = trace w @ a"
    using assms(2,3,4,6)
    by (auto dest!: generateKey_kind startTime_kind invoke_trace signer_kind)
  have w5: "trace w5 = trace w @ a @ [Call_x509_CreateCertificate t issuer (publicKey L priv) k r]"
    using invoke_trace [OF sign] a by simp
  have "\<exists>b. trace w' = trace w5 @ b"
  proof (cases r)
    case (Inl err)
    then have "Generate L host dest opts w = (Some (FailedToCreateCertificate err), w5)"
      using assms(1-6) sign by (simp add: Generate_def)
    with run show ?thesis by simp
  next
    case (Inr der)
    then have "Generate L host dest opts w = writeFiles L dest (applyOptions opts) der priv w5"
      using assms(1-6) sign by (simp add: Generate_def)
    with run have "writeFiles L dest (applyOptions opts) der priv w5 = (res, w')"
      by simp
    from writeFiles_kind [OF this] show ?thesis
      by blast
  qed
  then obtain b where "trace w' = trace w5 @ b"
    by blast
  with w5 have "calls w w' = a @ [Call_x509_CreateCertificate t issuer (publicKey L priv) k r] @ b"
    by (simp add: calls_def)
  then have "Call_x509_CreateCertificate t issuer (publicKey L priv) k r \<in> set (calls w w')"
    by simp
  from Generate_signing_unique [OF run this] r show ?thesis
    by simp
qed

lemma ParsePemCertFile_answer:
  "calls w (snd (ParsePemCertFile L path w))
     = [Call_os_ReadFile path (fst (os_ReadFile L path (env w)))]
   \<and> env (snd (ParsePemCertFile L path w)) = snd (os_ReadFile L path (env w))
   \<and> fst (ParsePemCertFile L path w) =
       (case fst (os_ReadFile L path (env w)) of
          Inl e \<Rightarrow> Inl (FailedToReadFile e)
        | Inr der \<Rightarrow>
            (case pem_Decode L der of
               None \<Rightarrow> Inl FailedToParseCertificatePEM
             | Some b \<Rightarrow>
                 if Type b \<noteq> ''CERTIFICATE'' then Inl FailedToParseCertificatePEM
                 else (case x509_ParseCertificate L (Bytes b) of
                         Inl e \<Rightarrow> Inl (FailedToParseDERData e)
                       | Inr c \<Rightarrow> Inr c)))"
  unfolding ParsePemCertFile_def invoke_def calls_def
  by (auto split: prod.splits sum.splits option.splits)

lemma ParsePemKeyFile_answer:
  "calls w (snd (ParsePemKeyFile L path w))
     = [Call_os_ReadFile path (fst (os_ReadFile L path (env w)))]
   \<and> env (snd (ParsePemKeyFile L path w)) = snd (os_ReadFile L path (env w))
   \<and> fst (ParsePemKeyFile L path w) =
       (case fst (os_ReadFile L path (env w)) of
          Inl e \<Rightarrow> Inl (FailedToReadFile e)
        | Inr der \<Rightarrow>
            (case pem_Decode L der of
               None \<Rightarrow> Inl FailedToParseKeyPEM
             | Some b \<Rightarrow>
                 if Type b \<noteq> ''PRIVATE KEY'' then Inl FailedToParseKeyPEM
                 else (case x509_ParsePKCS8PrivateKey L (Bytes b) of
                         Inl e \<Rightarrow> Inl (FailedToParseDERData e)
                       | Inr c \<Rightarrow> Inr c)))"
  unfolding ParsePemKeyFile_def invoke_def calls_def
  by (auto split: prod.splits sum.splits option.splits)

lemma sim0_before_signer:
  shows "generateKey simLib (applyOptions []) sim0
           = (Inr (RSAPrivateKey ''rsapub'' ''rsapriv''),
              sim0\<lparr>trace := [Call_rsa_GenerateKey 2048 (Inr (''rsapub'', ''rsapriv''))]\<rparr>)"
    and "startTime simLib (applyOptions [])
           (sim0\<lparr>trace := [Call_rsa_GenerateKey 2048 (Inr (''rsapub'', ''rsapriv''))]\<rparr>)
           = (Inr 1000,
              sim0\<lparr>trace := [Call_rsa_GenerateKey 2048 (Inr (''rsapub'', ''rsapriv'')),
                              Call_time_Now 1000]\<rparr>)"
    and "invoke (Call_rand_Int serialNumberLimit) (rand_Int simLib serialNumberLimit)
           (sim0\<lparr>trace := [Call_rsa_GenerateKey 2048 (Inr (''rsapub'', ''rsapriv'')),
                           Call_time_Now 1000]\<rparr>)
           = (Inr 42,
              sim0\<lparr>trace := [Call_rsa_GenerateKey 2048 (Inr (''rsapub'', ''rsapriv'')),
                              Call_time_Now 1000,
                              Call_rand_Int serialNumberLimit (Inr 42)]\<rparr>)"
  by (simp_all add: generateKey_def startTime_def invoke_def applyOptions_def initOptions_def
        simLib_def sim0_def)

lemma sim0_before_signer_ed25519:
  shows "generateKey simLib (applyOptions [WithED25519]) sim0
           = (Inr (Ed25519PrivateKey ''edpriv''),
              sim0\<lparr>trace := [Call_ed25519_GenerateKey (Inr (''edpub'', ''edpriv''))]\<rparr>)"
    and "startTime simLib (applyOptions [WithED25519])
           (sim0\<lparr>trace := [Call_ed25519_GenerateKey (Inr (''edpub'', ''edpriv''))]\<rparr>)
           = (Inr 1000,
              sim0\<lparr>trace := [Call_ed25519_GenerateKey (Inr (''edpub'', ''edpriv'')),
                              Call_time_Now 1000]\<rparr>)"
    and "invoke (Call_rand_Int serialNumberLimit) (rand_Int simLib serialNumberLimit)
           (sim0\<lparr>trace := [Call_ed25519_GenerateKey (Inr (''edpub'', ''edpriv'')),
                           Call_time_Now 1000]\<rparr>)
           = (Inr 42,
              sim0\<lparr>trace := [Call_ed25519_GenerateKey (Inr (''edpub'', ''edpriv'')),
                              Call_time_Now 1000,
                              Call_rand_Int serialNumberLimit (Inr 42)]\<rparr>)"
  by (simp_all add: generateKey_def startTime_def invoke_def applyOptions_def initOptions_def
        WithED25519_def simLib_def sim0_def)

lemma simCA_no_key_path:
  "ParsePemKeyFile simLib [] (simCA\<lparr>trace := tr\<rparr>)
     = (Inl (FailedToReadFile ''no such file''),
        simCA\<lparr>trace := tr @ [Call_os_ReadFile [] (Inl ''no such file'')]\<rparr>)"
  by (simp add: ParsePemKeyFile_def invoke_def simLib_def simCA_def)

lemma sim_signing_answer:
  "fst (x509_CreateCertificate simLib t issuer pub k e) = Inr ''der''"
  "ed25519_Public simLib s = ''edpub''"
  by (simp_all add: simLib_def)

text \<open>
  C2. The path is chosen by the parent certificate path alone. With none configured,
  Generate reads no file; in a signing call the issuer is the template itself, the
  signing key is the key generated in this run, which is the key of the answer recorded
  for the key generation, and the subject key is the public key of that pair; and once
  the key, the start time and the serial number are there, the run makes exactly one
  signing call, with these arguments, and the log records the library's answer to it.
  With a parent certificate path configured, once the key, the start time and the serial
  number are there, Generate loads the parent certificate and then the parent key: if
  the certificate does not load, or else the key does not, Generate returns the loader's
  error with the world as the loader left it, having made no signing call and written no
  file; if both load, its one signing call has the parsed parent certificate as issuer,
  the parsed parent key as signing key and the public key of the fresh pair as subject
  key, and the log records the library's answer. Each loader reads its file once, the log
  records what the library read, and the loader fails with its own error when the file
  cannot be read, when the contents are no PEM block, when the block is not of type
  CERTIFICATE (for the key: PRIVATE KEY), and when the bytes of the block do not parse.
  Generate returns the errors of the loaders in no other situation. The log of the run,
  made again from the environment of the start, is answered by the library as recorded
  and leaves the environment of the end.
\<close>

theorem C2_signing_paths:
  assumes run: "Generate L host dest opts w = (res, w')"
  shows
    "(parentCert (applyOptions opts) = [] \<longrightarrow>
        of_kind FileRead (calls w w') = []
        \<and> (\<forall>t issuer pub k r.
              Call_x509_CreateCertificate t issuer pub k r \<in> set (calls w w') \<longrightarrow>
                issuer = t
                \<and> pub = (case k of
                       RSAPrivateKey n d \<Rightarrow> RSAPublicKey n
                     | ECDSAPrivateKey c n d \<Rightarrow> ECDSAPublicKey c n
                     | Ed25519PrivateKey s \<Rightarrow> Ed25519PublicKey (ed25519_Public L s)
                     | OtherPrivateKey b \<Rightarrow> NilPublicKey)
                \<and> (\<exists>w1. generateKey L (applyOptions opts) w = (Inr k, w1))
                \<and> (case k of
                       RSAPrivateKey n d \<Rightarrow>
                         Call_rsa_GenerateKey (rsaBits (applyOptions opts)) (Inr (n, d)) \<in> set (calls w w')
                     | ECDSAPrivateKey c n d \<Rightarrow> Call_ecdsa_GenerateKey c (Inr (n, d)) \<in> set (calls w w')
                     | Ed25519PrivateKey s \<Rightarrow> (\<exists>p. Call_ed25519_GenerateKey (Inr (p, s)) \<in> set (calls w w'))
                     | OtherPrivateKey b \<Rightarrow> False))
        \<and> (\<forall>priv w1 notBefore w2 sn w3.
           host \<noteq> [] \<and> generateKey L (applyOptions opts) w = (Inr priv, w1)
           \<and> startTime L (applyOptions opts) w1 = (Inr notBefore, w2)
           \<and> invoke (Call_rand_Int serialNumberLimit) (rand_Int L serialNumberLimit) w2 = (Inr sn, w3)
           \<longrightarrow>
           of_kind Signing (calls w w') =
             [Call_x509_CreateCertificate (buildTemplate L host (applyOptions opts) sn notBefore
                       (time_Add L notBefore (validFor (applyOptions opts))) (keyUsageFor priv)) (buildTemplate L host (applyOptions opts) sn notBefore
                       (time_Add L notBefore (validFor (applyOptions opts))) (keyUsageFor priv))
                (case priv of
                       RSAPrivateKey n d \<Rightarrow> RSAPublicKey n
                     | ECDSAPrivateKey c n d \<Rightarrow> ECDSAPublicKey c n
                     | Ed25519PrivateKey s \<Rightarrow> Ed25519PublicKey (ed25519_Public L s)
                     | OtherPrivateKey b \<Rightarrow> NilPublicKey) priv
                (fst (x509_CreateCertificate L (buildTemplate L host (applyOptions opts) sn notBefore
                       (time_Add L notBefore (validFor (applyOptions opts))) (keyUsageFor priv)) (buildTemplate L host (applyOptions opts) sn notBefore
                       (time_Add L notBefore (validFor (applyOptions opts))) (keyUsageFor priv))
                   (case priv of
                       RSAPrivateKey n d \<Rightarrow> RSAPublicKey n
                     | ECDSAPrivateKey c n d \<Rightarrow> ECDSAPublicKey c n
                     | Ed25519PrivateKey s \<Rightarrow> Ed25519PublicKey (ed25519_Public L s)
                     | OtherPrivateKey b \<Rightarrow> NilPublicKey) priv (env w3)))]))
     \<and> (parentCert (applyOptions opts) \<noteq> [] \<longrightarrow>
        (\<forall>priv w1 notBefore w2 sn w3.
           host \<noteq> [] \<and> generateKey L (applyOptions opts) w = (Inr priv, w1)
           \<and> startTime L (applyOptions opts) w1 = (Inr notBefore, w2)
           \<and> invoke (Call_rand_Int serialNumberLimit) (rand_Int L serialNumberLimit) w2 = (Inr sn, w3)
           \<longrightarrow>
           (case ParsePemCertFile L (parentCert (applyOptions opts)) w3 of
              (Inl err, wa) \<Rightarrow>
                res = Some err \<and> w' = wa
                \<and> of_kind Signing (calls w w') = [] \<and> of_kind FileWrite (calls w w') = []
            | (Inr issuer, wa) \<Rightarrow>
                (case ParsePemKeyFile L (parentKey (applyOptions opts)) wa of
                   (Inl err, wb) \<Rightarrow>
                     res = Some err \<and> w' = wb
                     \<and> of_kind Signing (calls w w') = [] \<and> of_kind FileWrite (calls w w') = []
                 | (Inr k, wb) \<Rightarrow>
                     of_kind Signing (calls w w') =
                       [Call_x509_CreateCertificate (buildTemplate L host (applyOptions opts) sn notBefore
                       (time_Add L notBefore (validFor (applyOptions opts))) (keyUsageFor priv)) issuer
                          (case priv of
                       RSAPrivateKey n d \<Rightarrow> RSAPublicKey n
                     | ECDSAPrivateKey c n d \<Rightarrow> ECDSAPublicKey c n
                     | Ed25519PrivateKey s \<Rightarrow> Ed25519PublicKey (ed25519_Public L s)
                     | OtherPrivateKey b \<Rightarrow> NilPublicKey) k
                          (fst (x509_CreateCertificate L (buildTemplate L host (applyOptions opts) sn notBefore
                       (time_Add L notBefore (validFor (applyOptions opts))) (keyUsageFor priv)) issuer
                             (case priv of
                       RSAPrivateKey n d \<Rightarrow> RSAPublicKey n
                     | ECDSAPrivateKey c n d \<Rightarrow> ECDSAPublicKey c n
                     | Ed25519PrivateKey s \<Rightarrow> Ed25519PublicKey (ed25519_Public L s)
                     | OtherPrivateKey b \<Rightarrow> NilPublicKey) k (env wb)))]
                     \<and> (case priv of
                       RSAPrivateKey n d \<Rightarrow>
                         Call_rsa_GenerateKey (rsaBits (applyOptions opts)) (Inr (n, d)) \<in> set (calls w w')
                     | ECDSAPrivateKey c n d \<Rightarrow> Call_ecdsa_GenerateKey c (Inr (n, d)) \<in> set (calls w w')
                     | Ed25519PrivateKey s \<Rightarrow> (\<exists>p. Call_ed25519_GenerateKey (Inr (p, s)) \<in> set (calls w w'))
                     | OtherPrivateKey b \<Rightarrow> False)))))
     \<and> (\<forall>path w0.
          calls w0 (snd (ParsePemCertFile L path w0))
            = [Call_os_ReadFile path (fst (os_ReadFile L path (env w0)))]
          \<and> env (snd (ParsePemCertFile L path w0)) = snd (os_ReadFile L path (env w0))
          \<and> fst (ParsePemCertFile L path w0) =
              (case fst (os_ReadFile L path (env w0)) of
                 Inl e \<Rightarrow> Inl (FailedToReadFile e)
               | Inr der \<Rightarrow>
                   (case pem_Decode L der of
                      None \<Rightarrow> Inl FailedToParseCertificatePEM
                    | Some b \<Rightarrow>
                        if Type b \<noteq> ''CERTIFICATE'' then Inl FailedToParseCertificatePEM
                        else (case x509_ParseCertificate L (Bytes b) of
                                Inl e \<Rightarrow> Inl (FailedToParseDERData e)
                              | Inr c \<Rightarrow> Inr c))))
     \<and> (\<forall>path w0.
          calls w0 (snd (ParsePemKeyFile L path w0))
            = [Call_os_ReadFile path (fst (os_ReadFile L path (env w0)))]
          \<and> env (snd (ParsePemKeyFile L path w0)) = snd (os_ReadFile L path (env w0))
          \<and> fst (ParsePemKeyFile L path w0) =
              (case fst (os_ReadFile L path (env w0)) of
                 Inl e \<Rightarrow> Inl (FailedToReadFile e)
               | Inr der \<Rightarrow>
                   (case pem_Decode L der of
                      None \<Rightarrow> Inl FailedToParseKeyPEM
                    | Some b \<Rightarrow>
                        if Type b \<noteq> ''PRIVATE KEY'' then Inl FailedToParseKeyPEM
                        else (case x509_ParsePKCS8PrivateKey L (Bytes b) of
                                Inl e \<Rightarrow> Inl (FailedToParseDERData e)
                              | Inr c \<Rightarrow> Inr c))))
     \<and> ((\<exists>e. res = Some (FailedToReadFile e)) \<or> res = Some FailedToParseCertificatePEM
          \<or> res = Some FailedToParseKeyPEM \<or> (\<exists>e. res = Some (FailedToParseDERData e)) \<longrightarrow>
        parentCert (applyOptions opts) \<noteq> [] \<and> of_kind Signing (calls w w') = []
        \<and> of_kind FileWrite (calls w w') = [])
     \<and> (trace w' = trace w @ calls w w' \<and> replay L (calls w w') (env w) = Some (env w'))"
proof -
  have self_signed: "issuer = t \<and> pub = publicKey L k
      \<and> (\<exists>w1. generateKey L (applyOptions opts) w = (Inr k, w1))
      \<and> (case k of
                       RSAPrivateKey n d \<Rightarrow>
                         Call_rsa_GenerateKey (rsaBits (applyOptions opts)) (Inr (n, d)) \<in> set (calls w w')
                     | ECDSAPrivateKey c n d \<Rightarrow> Call_ecdsa_GenerateKey c (Inr (n, d)) \<in> set (calls w w')
                     | Ed25519PrivateKey s \<Rightarrow> (\<exists>p. Call_ed25519_GenerateKey (Inr (p, s)) \<in> set (calls w w'))
                     | OtherPrivateKey b \<Rightarrow> False)"
    if "parentCert (applyOptions opts) = []" "Call_x509_CreateCertificate t issuer pub k r \<in> set (calls w w')"
    for t issuer pub k r
  proof -
    from Generate_signing_call [OF run that(2)] obtain priv w1 w3 w4 where
      p: "host \<noteq> []" "generateKey L (applyOptions opts) w = (Inr priv, w1)"
        "signer L (applyOptions opts) t priv w3 = (Inr (issuer, k), w4)"
        "pub = publicKey L priv"
      by blast
    from p(3) that(1) have "issuer = t" "k = priv"
      by (simp_all add: signer_def)
    with p(2,4) Generate_key_logged [OF run p(1) p(2)] show ?thesis
      by simp
  qed
  have self_signs: "of_kind Signing (calls w w') =
      [Call_x509_CreateCertificate (buildTemplate L host (applyOptions opts) sn notBefore
                       (time_Add L notBefore (validFor (applyOptions opts))) (keyUsageFor priv)) (buildTemplate L host (applyOptions opts) sn notBefore
                       (time_Add L notBefore (validFor (applyOptions opts))) (keyUsageFor priv))
         (publicKey L priv) priv
         (fst (x509_CreateCertificate L (buildTemplate L host (applyOptions opts) sn notBefore
                       (time_Add L notBefore (validFor (applyOptions opts))) (keyUsageFor priv)) (buildTemplate L host (applyOptions opts) sn notBefore
                       (time_Add L notBefore (validFor (applyOptions opts))) (keyUsageFor priv))
            (publicKey L priv) priv (env w3)))]"
    if p: "parentCert (applyOptions opts) = []" and host: "host \<noteq> []"
      and key: "generateKey L (applyOptions opts) w = (Inr priv, w1)"
      and start: "startTime L (applyOptions opts) w1 = (Inr notBefore, w2)"
      and serial: "invoke (Call_rand_Int serialNumberLimit) (rand_Int L serialNumberLimit) w2 = (Inr sn, w3)"
    for priv w1 notBefore w2 sn w3
  proof -
    have "signer L (applyOptions opts)
        (buildTemplate L host (applyOptions opts) sn notBefore
           (time_Add L notBefore (validFor (applyOptions opts))) (keyUsageFor priv)) priv w3
      = (Inr ((buildTemplate L host (applyOptions opts) sn notBefore
           (time_Add L notBefore (validFor (applyOptions opts))) (keyUsageFor priv)), priv), w3)"
      using p by (simp add: signer_def)
    from Generate_signing_answer [OF host key start serial refl this run] show ?thesis .
  qed
  have parent: "case ParsePemCertFile L (parentCert (applyOptions opts)) w3 of
        (Inl err, wa) \<Rightarrow>
          res = Some err \<and> w' = wa
          \<and> of_kind Signing (calls w w') = [] \<and> of_kind FileWrite (calls w w') = []
      | (Inr issuer, wa) \<Rightarrow>
          (case ParsePemKeyFile L (parentKey (applyOptions opts)) wa of
             (Inl err, wb) \<Rightarrow>
               res = Some err \<and> w' = wb
               \<and> of_kind Signing (calls w w') = [] \<and> of_kind FileWrite (calls w w') = []
           | (Inr k, wb) \<Rightarrow>
               of_kind Signing (calls w w') =
                 [Call_x509_CreateCertificate (buildTemplate L host (applyOptions opts) sn notBefore
                       (time_Add L notBefore (validFor (applyOptions opts))) (keyUsageFor priv)) issuer
                    (publicKey L priv) k
                    (fst (x509_CreateCertificate L (buildTemplate L host (applyOptions opts) sn notBefore
                       (time_Add L notBefore (validFor (applyOptions opts))) (keyUsageFor priv)) issuer
                       (publicKey L priv) k (env wb)))]
               \<and> (case priv of
                       RSAPrivateKey n d \<Rightarrow>
                         Call_rsa_GenerateKey (rsaBits (applyOptions opts)) (Inr (n, d)) \<in> set (calls w w')
                     | ECDSAPrivateKey c n d \<Rightarrow> Call_ecdsa_GenerateKey c (Inr (n, d)) \<in> set (calls w w')
                     | Ed25519PrivateKey s \<Rightarrow> (\<exists>p. Call_ed25519_GenerateKey (Inr (p, s)) \<in> set (calls w w'))
                     | OtherPrivateKey b \<Rightarrow> False))"
    if p: "parentCert (applyOptions opts) \<noteq> []" and host: "host \<noteq> []"
      and key: "generateKey L (applyOptions opts) w = (Inr priv, w1)"
      and start: "startTime L (applyOptions opts) w1 = (Inr notBefore, w2)"
      and serial: "invoke (Call_rand_Int serialNumberLimit) (rand_Int L serialNumberLimit) w2 = (Inr sn, w3)"
    for priv w1 notBefore w2 sn w3
  proof -
    let ?t = "(buildTemplate L host (applyOptions opts) sn notBefore
                       (time_Add L notBefore (validFor (applyOptions opts))) (keyUsageFor priv))"
    have failing: "res = Some err \<and> w' = w4
        \<and> of_kind Signing (calls w w') = [] \<and> of_kind FileWrite (calls w w') = []"
      if "signer L (applyOptions opts) ?t priv w3 = (Inl err, w4)" for err w4
      using Generate_signer_fails(1) [OF host key start serial that, of dest]
        Generate_signer_fails(2,3) [OF host key start serial that] run
      by simp
    note logged = Generate_key_logged [OF run host key]
    have signing: "of_kind Signing (calls w w') =
        [Call_x509_CreateCertificate ?t issuer (publicKey L priv) k
           (fst (x509_CreateCertificate L ?t issuer (publicKey L priv) k (env w4)))]"
      if "signer L (applyOptions opts) ?t priv w3 = (Inr (issuer, k), w4)" for issuer k w4
      by (rule Generate_signing_answer [OF host key start serial refl that run])
    show ?thesis
    proof (cases "ParsePemCertFile L (parentCert (applyOptions opts)) w3")
      case (Pair rc wa)
      show ?thesis
      proof (cases rc)
        case (Inl err)
        with Pair p have "signer L (applyOptions opts) ?t priv w3 = (Inl err, wa)"
          by (simp add: signer_def)
        from failing [OF this] Pair Inl show ?thesis by auto
      next
        case (Inr issuer)
        show ?thesis
        proof (cases "ParsePemKeyFile L (parentKey (applyOptions opts)) wa")
          case keyfile: (Pair rk wb)
          show ?thesis
          proof (cases rk)
            case (Inl err)
            with Pair Inr keyfile p have "signer L (applyOptions opts) ?t priv w3 = (Inl err, wb)"
              by (simp add: signer_def)
            from failing [OF this] Pair \<open>rc = Inr issuer\<close> keyfile Inl show ?thesis by auto
          next
            case k: (Inr k)
            with Pair Inr keyfile p have "signer L (applyOptions opts) ?t priv w3 = (Inr (issuer, k), wb)"
              by (simp add: signer_def)
            from signing [OF this] logged Pair Inr keyfile k show ?thesis by simp
          qed
        qed
      qed
    qed
  qed
  have distinct: "parentCert (applyOptions opts) \<noteq> [] \<and> of_kind Signing (calls w w') = []
      \<and> of_kind FileWrite (calls w w') = []"
    if "(\<exists>e. res = Some (FailedToReadFile e)) \<or> res = Some FailedToParseCertificatePEM
        \<or> res = Some FailedToParseKeyPEM \<or> (\<exists>e. res = Some (FailedToParseDERData e))"
  proof -
    from that obtain err where err: "res = Some err"
      "(\<exists>e. err = FailedToReadFile e) \<or> err = FailedToParseCertificatePEM
       \<or> err = FailedToParseKeyPEM \<or> (\<exists>e. err = FailedToParseDERData e)"
      by blast
    from Generate_loader_error [OF run [unfolded err(1)] err(2)] show ?thesis .
  qed
  have Q1: "(parentCert (applyOptions opts) = [] \<longrightarrow>
        of_kind FileRead (calls w w') = []
        \<and> (\<forall>t issuer pub k r.
              Call_x509_CreateCertificate t issuer pub k r \<in> set (calls w w') \<longrightarrow>
                issuer = t
                \<and> pub = (publicKey L k)
                \<and> (\<exists>w1. generateKey L (applyOptions opts) w = (Inr k, w1))
                \<and> (case k of
                       RSAPrivateKey n d \<Rightarrow>
                         Call_rsa_GenerateKey (rsaBits (applyOptions opts)) (Inr (n, d)) \<in> set (calls w w')
                     | ECDSAPrivateKey c n d \<Rightarrow> Call_ecdsa_GenerateKey c (Inr (n, d)) \<in> set (calls w w')
                     | Ed25519PrivateKey s \<Rightarrow> (\<exists>p. Call_ed25519_GenerateKey (Inr (p, s)) \<in> set (calls w w'))
                     | OtherPrivateKey b \<Rightarrow> False))
        \<and> (\<forall>priv w1 notBefore w2 sn w3.
           host \<noteq> [] \<and> generateKey L (applyOptions opts) w = (Inr priv, w1)
           \<and> startTime L (applyOptions opts) w1 = (Inr notBefore, w2)
           \<and> invoke (Call_rand_Int serialNumberLimit) (rand_Int L serialNumberLimit) w2 = (Inr sn, w3)
           \<longrightarrow>
           of_kind Signing (calls w w') =
             [Call_x509_CreateCertificate (buildTemplate L host (applyOptions opts) sn notBefore
                       (time_Add L notBefore (validFor (applyOptions opts))) (keyUsageFor priv)) (buildTemplate L host (applyOptions opts) sn notBefore
                       (time_Add L notBefore (validFor (applyOptions opts))) (keyUsageFor priv))
                (publicKey L priv) priv
                (fst (x509_CreateCertificate L (buildTemplate L host (applyOptions opts) sn notBefore
                       (time_Add L notBefore (validFor (applyOptions opts))) (keyUsageFor priv)) (buildTemplate L host (applyOptions opts) sn notBefore
                       (time_Add L notBefore (validFor (applyOptions opts))) (keyUsageFor priv))
                   (publicKey L priv) priv (env w3)))]))"
    using Generate_no_reads [OF run] self_signed self_signs by blast
  have Q2: "(parentCert (applyOptions opts) \<noteq> [] \<longrightarrow>
        (\<forall>priv w1 notBefore w2 sn w3.
           host \<noteq> [] \<and> generateKey L (applyOptions opts) w = (Inr priv, w1)
           \<and> startTime L (applyOptions opts) w1 = (Inr notBefore, w2)
           \<and> invoke (Call_rand_Int serialNumberLimit) (rand_Int L serialNumberLimit) w2 = (Inr sn, w3)
           \<longrightarrow>
           (case ParsePemCertFile L (parentCert (applyOptions opts)) w3 of
              (Inl err, wa) \<Rightarrow>
                res = Some err \<and> w' = wa
                \<and> of_kind Signing (calls w w') = [] \<and> of_kind FileWrite (calls w w') = []
            | (Inr issuer, wa) \<Rightarrow>
                (case ParsePemKeyFile L (parentKey (applyOptions opts)) wa of
                   (Inl err, wb) \<Rightarrow>
                     res = Some err \<and> w' = wb
                     \<and> of_kind Signing (calls w w') = [] \<and> of_kind FileWrite (calls w w') = []
                 | (Inr k, wb) \<Rightarrow>
                     of_kind Signing (calls w w') =
                       [Call_x509_CreateCertificate (buildTemplate L host (applyOptions opts) sn notBefore
                       (time_Add L notBefore (validFor (applyOptions opts))) (keyUsageFor priv)) issuer
                          (publicKey L priv) k
                          (fst (x509_CreateCertificate L (buildTemplate L host (applyOptions opts) sn notBefore
                       (time_Add L notBefore (validFor (applyOptions opts))) (keyUsageFor priv)) issuer
                             (publicKey L priv) k (env wb)))]
                     \<and> (case priv of
                       RSAPrivateKey n d \<Rightarrow>
                         Call_rsa_GenerateKey (rsaBits (applyOptions opts)) (Inr (n, d)) \<in> set (calls w w')
                     | ECDSAPrivateKey c n d \<Rightarrow> Call_ecdsa_GenerateKey c (Inr (n, d)) \<in> set (calls w w')
                     | Ed25519PrivateKey s \<Rightarrow> (\<exists>p. Call_ed25519_GenerateKey (Inr (p, s)) \<in> set (calls w w'))
                     | OtherPrivateKey b \<Rightarrow> False)))))"
    by (intro impI allI, elim conjE, rule parent)
  have subject_key: "publicKey L k =
      (case k of
         RSAPrivateKey n d \<Rightarrow> RSAPublicKey n
       | ECDSAPrivateKey c n d \<Rightarrow> ECDSAPublicKey c n
       | Ed25519PrivateKey s \<Rightarrow> Ed25519PublicKey (ed25519_Public L s)
       | OtherPrivateKey b \<Rightarrow> NilPublicKey)" for k
    by (simp add: publicKey_def)
  have P1: "(parentCert (applyOptions opts) = [] \<longrightarrow>
        of_kind FileRead (calls w w') = []
        \<and> (\<forall>t issuer pub k r.
              Call_x509_CreateCertificate t issuer pub k r \<in> set (calls w w') \<longrightarrow>
                issuer = t
                \<and> pub = (case k of
                       RSAPrivateKey n d \<Rightarrow> RSAPublicKey n
                     | ECDSAPrivateKey c n d \<Rightarrow> ECDSAPublicKey c n
                     | Ed25519PrivateKey s \<Rightarrow> Ed25519PublicKey (ed25519_Public L s)
                     | OtherPrivateKey b \<Rightarrow> NilPublicKey)
                \<and> (\<exists>w1. generateKey L (applyOptions opts) w = (Inr k, w1))
                \<and> (case k of
                       RSAPrivateKey n d \<Rightarrow>
                         Call_rsa_GenerateKey (rsaBits (applyOptions opts)) (Inr (n, d)) \<in> set (calls w w')
                     | ECDSAPrivateKey c n d \<Rightarrow> Call_ecdsa_GenerateKey c (Inr (n, d)) \<in> set (calls w w')
                     | Ed25519PrivateKey s \<Rightarrow> (\<exists>p. Call_ed25519_GenerateKey (Inr (p, s)) \<in> set (calls w w'))
                     | OtherPrivateKey b \<Rightarrow> False))
        \<and> (\<forall>priv w1 notBefore w2 sn w3.
           host \<noteq> [] \<and> generateKey L (applyOptions opts) w = (Inr priv, w1)
           \<and> startTime L (applyOptions opts) w1 = (Inr notBefore, w2)
           \<and> invoke (Call_rand_Int serialNumberLimit) (rand_Int L serialNumberLimit) w2 = (Inr sn, w3)
           \<longrightarrow>
           of_kind Signing (calls w w') =
             [Call_x509_CreateCertificate (buildTemplate L host (applyOptions opts) sn notBefore
                       (time_Add L notBefore (validFor (applyOptions opts))) (keyUsageFor priv)) (buildTemplate L host (applyOptions opts) sn notBefore
                       (time_Add L notBefore (validFor (applyOptions opts))) (keyUsageFor priv))
                (case priv of
                       RSAPrivateKey n d \<Rightarrow> RSAPublicKey n
                     | ECDSAPrivateKey c n d \<Rightarrow> ECDSAPublicKey c n
                     | Ed25519PrivateKey s \<Rightarrow> Ed25519PublicKey (ed25519_Public L s)
                     | OtherPrivateKey b \<Rightarrow> NilPublicKey) priv
                (fst (x509_CreateCertificate L (buildTemplate L host (applyOptions opts) sn notBefore
                       (time_Add L notBefore (validFor (applyOptions opts))) (keyUsageFor priv)) (buildTemplate L host (applyOptions opts) sn notBefore
                       (time_Add L notBefore (validFor (applyOptions opts))) (keyUsageFor priv))
                   (case priv of
                       RSAPrivateKey n d \<Rightarrow> RSAPublicKey n
                     | ECDSAPrivateKey c n d \<Rightarrow> ECDSAPublicKey c n
                     | Ed25519PrivateKey s \<Rightarrow> Ed25519PublicKey (ed25519_Public L s)
                     | OtherPrivateKey b \<Rightarrow> NilPublicKey) priv (env w3)))]))"
    using Q1 unfolding subject_key .
  have P2: "(parentCert (applyOptions opts) \<noteq> [] \<longrightarrow>
        (\<forall>priv w1 notBefore w2 sn w3.
           host \<noteq> [] \<and> generateKey L (applyOptions opts) w = (Inr priv, w1)
           \<and> startTime L (applyOptions opts) w1 = (Inr notBefore, w2)
           \<and> invoke (Call_rand_Int serialNumberLimit) (rand_Int L serialNumberLimit) w2 = (Inr sn, w3)
           \<longrightarrow>
           (case ParsePemCertFile L (parentCert (applyOptions opts)) w3 of
              (Inl err, wa) \<Rightarrow>
                res = Some err \<and> w' = wa
                \<and> of_kind Signing (calls w w') = [] \<and> of_kind FileWrite (calls w w') = []
            | (Inr issuer, wa) \<Rightarrow>
                (case ParsePemKeyFile L (parentKey (applyOptions opts)) wa of
                   (Inl err, wb) \<Rightarrow>
                     res = Some err \<and> w' = wb
                     \<and> of_kind Signing (calls w w') = [] \<and> of_kind FileWrite (calls w w') = []
                 | (Inr k, wb) \<Rightarrow>
                     of_kind Signing (calls w w') =
                       [Call_x509_CreateCertificate (buildTemplate L host (applyOptions opts) sn notBefore
                       (time_Add L notBefore (validFor (applyOptions opts))) (keyUsageFor priv)) issuer
                          (case priv of
                       RSAPrivateKey n d \<Rightarrow> RSAPublicKey n
                     | ECDSAPrivateKey c n d \<Rightarrow> ECDSAPublicKey c n
                     | Ed25519PrivateKey s \<Rightarrow> Ed25519PublicKey (ed25519_Public L s)
                     | OtherPrivateKey b \<Rightarrow> NilPublicKey) k
                          (fst (x509_CreateCertificate L (buildTemplate L host (applyOptions opts) sn notBefore
                       (time_Add L notBefore (validFor (applyOptions opts))) (keyUsageFor priv)) issuer
                             (case priv of
                       RSAPrivateKey n d \<Rightarrow> RSAPublicKey n
                     | ECDSAPrivateKey c n d \<Rightarrow> ECDSAPublicKey c n
                     | Ed25519PrivateKey s \<Rightarrow> Ed25519PublicKey (ed25519_Public L s)
                     | OtherPrivateKey b \<Rightarrow> NilPublicKey) k (env wb)))]
                     \<and> (case priv of
                       RSAPrivateKey n d \<Rightarrow>
                         Call_rsa_GenerateKey (rsaBits (applyOptions opts)) (Inr (n, d)) \<in> set (calls w w')
                     | ECDSAPrivateKey c n d \<Rightarrow> Call_ecdsa_GenerateKey c (Inr (n, d)) \<in> set (calls w w')
                     | Ed25519PrivateKey s \<Rightarrow> (\<exists>p. Call_ed25519_GenerateKey (Inr (p, s)) \<in> set (calls w w'))
                     | OtherPrivateKey b \<Rightarrow> False)))))"
    using Q2 unfolding subject_key .
  have P3: "(\<forall>path w0.
          calls w0 (snd (ParsePemCertFile L path w0))
            = [Call_os_ReadFile path (fst (os_ReadFile L path (env w0)))]
          \<and> env (snd (ParsePemCertFile L path w0)) = snd (os_ReadFile L path (env w0))
          \<and> fst (ParsePemCertFile L path w0) =
              (case fst (os_ReadFile L path (env w0)) of
                 Inl e \<Rightarrow> Inl (FailedToReadFile e)
               | Inr der \<Rightarrow>
                   (case pem_Decode L der of
                      None \<Rightarrow> Inl FailedToParseCertificatePEM
                    | Some b \<Rightarrow>
                        if Type b \<noteq> ''CERTIFICATE'' then Inl FailedToParseCertificatePEM
                        else (case x509_ParseCertificate L (Bytes b) of
                                Inl e \<Rightarrow> Inl (FailedToParseDERData e)
                              | Inr c \<Rightarrow> Inr c))))"
    using ParsePemCertFile_answer [of _ L] by blast
  have P4: "(\<forall>path w0.
          calls w0 (snd (ParsePemKeyFile L path w0))
            = [Call_os_ReadFile path (fst (os_ReadFile L path (env w0)))]
          \<and> env (snd (ParsePemKeyFile L path w0)) = snd (os_ReadFile L path (env w0))
          \<and> fst (ParsePemKeyFile L path w0) =
              (case fst (os_ReadFile L path (env w0)) of
                 Inl e \<Rightarrow> Inl (FailedToReadFile e)
               | Inr der \<Rightarrow>
                   (case pem_Decode L der of
                      None \<Rightarrow> Inl FailedToParseKeyPEM
                    | Some b \<Rightarrow>
                        if Type b \<noteq> ''PRIVATE KEY'' then Inl FailedToParseKeyPEM
                        else (case x509_ParsePKCS8PrivateKey L (Bytes b) of
                                Inl e \<Rightarrow> Inl (FailedToParseDERData e)
                              | Inr c \<Rightarrow> Inr c))))"
    using ParsePemKeyFile_answer [of _ L] by blast
  have P5: "((\<exists>e. res = Some (FailedToReadFile e)) \<or> res = Some FailedToParseCertificatePEM
          \<or> res = Some FailedToParseKeyPEM \<or> (\<exists>e. res = Some (FailedToParseDERData e)) \<longrightarrow>
        parentCert (applyOptions opts) \<noteq> [] \<and> of_kind Signing (calls w w') = []
        \<and> of_kind FileWrite (calls w w') = [])"
    using distinct by blast
  have P6: "(trace w' = trace w @ calls w w' \<and> replay L (calls w w') (env w) = Some (env w'))"
    by (rule Generate_replay [OF run])
  show ?thesis
    by (rule conjI [OF P1 conjI [OF P2 conjI [OF P3 conjI [OF P4 conjI [OF P5 P6]]]]])
qed

text \<open>
  The theorem in the simulated environment: two self-signed runs, with an RSA and with
  an Ed25519 key, a run signed by the CA files, a parent key file that does not exist, a
  key file given as the parent certificate, and a parent certificate with an empty key
  path.
\<close>

theorem C2_witness:
  "(\<exists>w' t.
      Generate simLib ''a.com'' ''out'' [] sim0 = (None, w')
      \<and> of_kind Signing (calls sim0 w') =
          [Call_x509_CreateCertificate t t (RSAPublicKey ''rsapub'') (RSAPrivateKey ''rsapub'' ''rsapriv'') (Inr ''der'')]
      \<and> Call_rsa_GenerateKey 2048 (Inr (''rsapub'', ''rsapriv'')) \<in> set (calls sim0 w')
      \<and> of_kind FileRead (calls sim0 w') = []
      \<and> replay simLib (calls sim0 w') (env sim0) = Some (env w'))
   \<and> (\<exists>w' t.
      Generate simLib ''a.com'' ''out'' [WithED25519] sim0 = (None, w')
      \<and> of_kind Signing (calls sim0 w') =
          [Call_x509_CreateCertificate t t (Ed25519PublicKey ''edpub'') (Ed25519PrivateKey ''edpriv'') (Inr ''der'')]
      \<and> (\<exists>p. Call_ed25519_GenerateKey (Inr (p, ''edpriv'')) \<in> set (calls sim0 w'))
      \<and> of_kind FileRead (calls sim0 w') = []
      \<and> replay simLib (calls sim0 w') (env sim0) = Some (env w'))
   \<and> (\<exists>w' t.
      Generate simLib ''a.com'' ''out'' [WithSignByParent ''out/ca_cert.pem'' ''out/ca_key.pem''] simCA
        = (None, w')
      \<and> of_kind Signing (calls simCA w') =
          [Call_x509_CreateCertificate t sim_cert (RSAPublicKey ''rsapub'')
             (RSAPrivateKey ''capub'' ''capriv'') (Inr ''der'')]
      \<and> Call_rsa_GenerateKey 2048 (Inr (''rsapub'', ''rsapriv'')) \<in> set (calls simCA w'))
   \<and> (\<exists>w'.
      Generate simLib ''a.com'' ''out'' [WithSignByParent ''out/ca_cert.pem'' ''out/no_key.pem''] simCA
        = (Some (FailedToReadFile ''no such file''), w')
      \<and> of_kind Signing (calls simCA w') = [] \<and> of_kind FileWrite (calls simCA w') = [])
   \<and> (\<exists>w'.
      Generate simLib ''a.com'' ''out'' [WithSignByParent ''out/ca_key.pem'' ''out/ca_key.pem''] simCA
        = (Some (FailedToParseCertificatePEM), w')
      \<and> of_kind Signing (calls simCA w') = [] \<and> of_kind FileWrite (calls simCA w') = [])
   \<and> (\<exists>w'.
      Generate simLib ''a.com'' ''out'' [WithSignByParent ''out/ca_cert.pem'' []] simCA
        = (Some (FailedToReadFile ''no such file''), w')
      \<and> of_kind Signing (calls simCA w') = [] \<and> of_kind FileWrite (calls simCA w') = [])"
proof -
  have host: "''a.com'' \<noteq> []" by simp
  have "fst (Generate simLib ''a.com'' ''out'' [] sim0) = None"
    by code_simp
  then obtain rsa_w where rsa_run: "Generate simLib ''a.com'' ''out'' [] sim0 = (None, rsa_w)"
    by (cases "Generate simLib ''a.com'' ''out'' [] sim0") simp
  have rsa_p: "parentCert (applyOptions []) = []"
    by (simp add: applyOptions_def initOptions_def WithED25519_def)
  note rsa_t = C2_signing_paths [OF rsa_run, THEN conjunct1, rule_format, OF rsa_p]
  note rsa_r = C2_signing_paths [OF rsa_run, THEN conjunct2, THEN conjunct2, THEN conjunct2,
      THEN conjunct2, THEN conjunct2, THEN conjunct2]
  from rsa_t [THEN conjunct2, THEN conjunct2, rule_format,
      OF conjI [OF host conjI [OF sim0_before_signer(1) conjI [OF sim0_before_signer(2) sim0_before_signer(3)]]]]
  have rsa_s: "of_kind Signing (calls sim0 rsa_w) =
      [Call_x509_CreateCertificate (buildTemplate simLib ''a.com'' (applyOptions []) 42 1000 (time_Add simLib 1000 (validFor (applyOptions []))) (keyUsageFor (RSAPrivateKey ''rsapub'' ''rsapriv''))) (buildTemplate simLib ''a.com'' (applyOptions []) 42 1000 (time_Add simLib 1000 (validFor (applyOptions []))) (keyUsageFor (RSAPrivateKey ''rsapub'' ''rsapriv'')))
         (RSAPublicKey ''rsapub'') (RSAPrivateKey ''rsapub'' ''rsapriv'') (Inr ''der'')]"
    by (simp add: sim_signing_answer)
  then have "Call_x509_CreateCertificate (buildTemplate simLib ''a.com'' (applyOptions []) 42 1000 (time_Add simLib 1000 (validFor (applyOptions []))) (keyUsageFor (RSAPrivateKey ''rsapub'' ''rsapriv''))) (buildTemplate simLib ''a.com'' (applyOptions []) 42 1000 (time_Add simLib 1000 (validFor (applyOptions []))) (keyUsageFor (RSAPrivateKey ''rsapub'' ''rsapriv'')))
         (RSAPublicKey ''rsapub'') (RSAPrivateKey ''rsapub'' ''rsapriv'') (Inr ''der'') \<in> set (of_kind Signing (calls sim0 rsa_w))"
    by simp
  then have "Call_x509_CreateCertificate (buildTemplate simLib ''a.com'' (applyOptions []) 42 1000 (time_Add simLib 1000 (validFor (applyOptions []))) (keyUsageFor (RSAPrivateKey ''rsapub'' ''rsapriv''))) (buildTemplate simLib ''a.com'' (applyOptions []) 42 1000 (time_Add simLib 1000 (validFor (applyOptions []))) (keyUsageFor (RSAPrivateKey ''rsapub'' ''rsapriv'')))
         (RSAPublicKey ''rsapub'') (RSAPrivateKey ''rsapub'' ''rsapriv'') (Inr ''der'') \<in> set (calls sim0 rsa_w)"
    by (simp add: of_kind_def)
  from rsa_t [THEN conjunct2, THEN conjunct1, rule_format, OF this]
  have rsa_l: "Call_rsa_GenerateKey 2048 (Inr (''rsapub'', ''rsapriv'')) \<in> set (calls sim0 rsa_w)"
    by (simp add: applyOptions_def initOptions_def)
  have rsa_c: "(\<exists>w' t.
      Generate simLib ''a.com'' ''out'' [] sim0 = (None, w')
      \<and> of_kind Signing (calls sim0 w') =
          [Call_x509_CreateCertificate t t (RSAPublicKey ''rsapub'') (RSAPrivateKey ''rsapub'' ''rsapriv'') (Inr ''der'')]
      \<and> Call_rsa_GenerateKey 2048 (Inr (''rsapub'', ''rsapriv'')) \<in> set (calls sim0 w')
      \<and> of_kind FileRead (calls sim0 w') = []
      \<and> replay simLib (calls sim0 w') (env sim0) = Some (env w'))"
    using rsa_run rsa_s rsa_l rsa_t [THEN conjunct1] rsa_r
    by blast
  have "fst (Generate simLib ''a.com'' ''out'' [WithED25519] sim0) = None"
    by code_simp
  then obtain ed_w where ed_run: "Generate simLib ''a.com'' ''out'' [WithED25519] sim0 = (None, ed_w)"
    by (cases "Generate simLib ''a.com'' ''out'' [WithED25519] sim0") simp
  have ed_p: "parentCert (applyOptions [WithED25519]) = []"
    by (simp add: applyOptions_def initOptions_def WithED25519_def)
  note ed_t = C2_signing_paths [OF ed_run, THEN conjunct1, rule_format, OF ed_p]
  note ed_r = C2_signing_paths [OF ed_run, THEN conjunct2, THEN conjunct2, THEN conjunct2,
      THEN conjunct2, THEN conjunct2, THEN conjunct2]
  from ed_t [THEN conjunct2, THEN conjunct2, rule_format,
      OF conjI [OF host conjI [OF sim0_before_signer_ed25519(1) conjI [OF sim0_before_signer_ed25519(2) sim0_before_signer_ed25519(3)]]]]
  have ed_s: "of_kind Signing (calls sim0 ed_w) =
      [Call_x509_CreateCertificate (buildTemplate simLib ''a.com'' (applyOptions [WithED25519]) 42 1000 (time_Add simLib 1000 (validFor (applyOptions [WithED25519]))) (keyUsageFor (Ed25519PrivateKey ''edpriv''))) (buildTemplate simLib ''a.com'' (applyOptions [WithED25519]) 42 1000 (time_Add simLib 1000 (validFor (applyOptions [WithED25519]))) (keyUsageFor (Ed25519PrivateKey ''edpriv'')))
         (Ed25519PublicKey ''edpub'') (Ed25519PrivateKey ''edpriv'') (Inr ''der'')]"
    by (simp add: sim_signing_answer)
  then have "Call_x509_CreateCertificate (buildTemplate simLib ''a.com'' (applyOptions [WithED25519]) 42 1000 (time_Add simLib 1000 (validFor (applyOptions [WithED25519]))) (keyUsageFor (Ed25519PrivateKey ''edpriv''))) (buildTemplate simLib ''a.com'' (applyOptions [WithED25519]) 42 1000 (time_Add simLib 1000 (validFor (applyOptions [WithED25519]))) (keyUsageFor (Ed25519PrivateKey ''edpriv'')))
         (Ed25519PublicKey ''edpub'') (Ed25519PrivateKey ''edpriv'') (Inr ''der'') \<in> set (of_kind Signing (calls sim0 ed_w))"
    by simp
  then have "Call_x509_CreateCertificate (buildTemplate simLib ''a.com'' (applyOptions [WithED25519]) 42 1000 (time_Add simLib 1000 (validFor (applyOptions [WithED25519]))) (keyUsageFor (Ed25519PrivateKey ''edpriv''))) (buildTemplate simLib ''a.com'' (applyOptions [WithED25519]) 42 1000 (time_Add simLib 1000 (validFor (applyOptions [WithED25519]))) (keyUsageFor (Ed25519PrivateKey ''edpriv'')))
         (Ed25519PublicKey ''edpub'') (Ed25519PrivateKey ''edpriv'') (Inr ''der'') \<in> set (calls sim0 ed_w)"
    by (simp add: of_kind_def)
  from ed_t [THEN conjunct2, THEN conjunct1, rule_format, OF this]
  have ed_l: "(\<exists>p. Call_ed25519_GenerateKey (Inr (p, ''edpriv'')) \<in> set (calls sim0 ed_w))"
    by (simp add: applyOptions_def initOptions_def)
  have ed_c: "(\<exists>w' t.
      Generate simLib ''a.com'' ''out'' [WithED25519] sim0 = (None, w')
      \<and> of_kind Signing (calls sim0 w') =
          [Call_x509_CreateCertificate t t (Ed25519PublicKey ''edpub'') (Ed25519PrivateKey ''edpriv'') (Inr ''der'')]
      \<and> (\<exists>p. Call_ed25519_GenerateKey (Inr (p, ''edpriv'')) \<in> set (calls sim0 w'))
      \<and> of_kind FileRead (calls sim0 w') = []
      \<and> replay simLib (calls sim0 w') (env sim0) = Some (env w'))"
    using ed_run ed_s ed_l ed_t [THEN conjunct1] ed_r
    by blast
  have "fst (Generate simLib ''a.com'' ''out'' [WithSignByParent ''out/ca_cert.pem'' ''out/ca_key.pem''] simCA) = None"
    by code_simp
  then obtain good_w where good_run: "Generate simLib ''a.com'' ''out'' [WithSignByParent ''out/ca_cert.pem'' ''out/ca_key.pem''] simCA = (None, good_w)"
    by (cases "Generate simLib ''a.com'' ''out'' [WithSignByParent ''out/ca_cert.pem'' ''out/ca_key.pem''] simCA") simp
  have good_p: "parentCert (applyOptions [WithSignByParent ''out/ca_cert.pem'' ''out/ca_key.pem'']) \<noteq> []"
    by (simp add: applyOptions_def WithSignByParent_def)
  note good_pre = simCA_before_signer(1,2) [of "''out/ca_cert.pem''" "''out/ca_key.pem''"] simCA_before_signer(3)
  from C2_signing_paths [OF good_run, THEN conjunct2, THEN conjunct1, rule_format,
      OF good_p conjI [OF host conjI [OF good_pre(1) conjI [OF good_pre(2) good_pre(3)]]]]
  have "case ParsePemCertFile simLib (parentCert (applyOptions [WithSignByParent ''out/ca_cert.pem'' ''out/ca_key.pem'']))
          (simCA\<lparr>trace := [Call_rsa_GenerateKey 2048 (Inr (''rsapub'', ''rsapriv'')),
                           Call_time_Now 1000, Call_rand_Int serialNumberLimit (Inr 42)]\<rparr>) of
        (Inl err, wa) \<Rightarrow>
          None = Some err \<and> good_w = wa
          \<and> of_kind Signing (calls simCA good_w) = [] \<and> of_kind FileWrite (calls simCA good_w) = []
      | (Inr issuer, wa) \<Rightarrow>
          (case ParsePemKeyFile simLib (parentKey (applyOptions [WithSignByParent ''out/ca_cert.pem'' ''out/ca_key.pem''])) wa of
             (Inl err, wb) \<Rightarrow>
               None = Some err \<and> good_w = wb
               \<and> of_kind Signing (calls simCA good_w) = [] \<and> of_kind FileWrite (calls simCA good_w) = []
           | (Inr k, wb) \<Rightarrow>
               of_kind Signing (calls simCA good_w) =
                 [Call_x509_CreateCertificate (buildTemplate simLib ''a.com'' (applyOptions [WithSignByParent ''out/ca_cert.pem'' ''out/ca_key.pem'']) 42 1000
                       (time_Add simLib 1000 (validFor (applyOptions [WithSignByParent ''out/ca_cert.pem'' ''out/ca_key.pem'']))) (keyUsageFor (RSAPrivateKey ''rsapub'' ''rsapriv''))) issuer
                    (case RSAPrivateKey ''rsapub'' ''rsapriv'' of
                       RSAPrivateKey n d \<Rightarrow> RSAPublicKey n
                     | ECDSAPrivateKey c n d \<Rightarrow> ECDSAPublicKey c n
                     | Ed25519PrivateKey s \<Rightarrow> Ed25519PublicKey (ed25519_Public simLib s)
                     | OtherPrivateKey b \<Rightarrow> NilPublicKey) k
                    (fst (x509_CreateCertificate simLib (buildTemplate simLib ''a.com'' (applyOptions [WithSignByParent ''out/ca_cert.pem'' ''out/ca_key.pem'']) 42 1000
                       (time_Add simLib 1000 (validFor (applyOptions [WithSignByParent ''out/ca_cert.pem'' ''out/ca_key.pem'']))) (keyUsageFor (RSAPrivateKey ''rsapub'' ''rsapriv''))) issuer
                       (case RSAPrivateKey ''rsapub'' ''rsapriv'' of
                       RSAPrivateKey n d \<Rightarrow> RSAPublicKey n
                     | ECDSAPrivateKey c n d \<Rightarrow> ECDSAPublicKey c n
                     | Ed25519PrivateKey s \<Rightarrow> Ed25519PublicKey (ed25519_Public simLib s)
                     | OtherPrivateKey b \<Rightarrow> NilPublicKey) k (env wb)))]
               \<and> (case RSAPrivateKey ''rsapub'' ''rsapriv'' of
                       RSAPrivateKey n d \<Rightarrow>
                         Call_rsa_GenerateKey (rsaBits (applyOptions [WithSignByParent ''out/ca_cert.pem'' ''out/ca_key.pem''])) (Inr (n, d)) \<in> set (calls simCA good_w)
                     | ECDSAPrivateKey c n d \<Rightarrow> Call_ecdsa_GenerateKey c (Inr (n, d)) \<in> set (calls simCA good_w)
                     | Ed25519PrivateKey s \<Rightarrow> (\<exists>p. Call_ed25519_GenerateKey (Inr (p, s)) \<in> set (calls simCA good_w))
                     | OtherPrivateKey b \<Rightarrow> False))"
    .
  then have "of_kind Signing (calls simCA good_w) =
      [Call_x509_CreateCertificate (buildTemplate simLib ''a.com'' (applyOptions [WithSignByParent ''out/ca_cert.pem'' ''out/ca_key.pem'']) 42 1000
                       (time_Add simLib 1000 (validFor (applyOptions [WithSignByParent ''out/ca_cert.pem'' ''out/ca_key.pem'']))) (keyUsageFor (RSAPrivateKey ''rsapub'' ''rsapriv'')))
         sim_cert (RSAPublicKey ''rsapub'') (RSAPrivateKey ''capub'' ''capriv'') (Inr ''der'')]
      \<and> Call_rsa_GenerateKey 2048 (Inr (''rsapub'', ''rsapriv'')) \<in> set (calls simCA good_w)"
    by (simp add: simCA_loads sim_parent_paths sim_signing_answer applyOptions_def
          initOptions_def WithSignByParent_def)
  with good_run have good_c: "(\<exists>w' t.
      Generate simLib ''a.com'' ''out'' [WithSignByParent ''out/ca_cert.pem'' ''out/ca_key.pem''] simCA
        = (None, w')
      \<and> of_kind Signing (calls simCA w') =
          [Call_x509_CreateCertificate t sim_cert (RSAPublicKey ''rsapub'')
             (RSAPrivateKey ''capub'' ''capriv'') (Inr ''der'')]
      \<and> Call_rsa_GenerateKey 2048 (Inr (''rsapub'', ''rsapriv'')) \<in> set (calls simCA w'))"
    by blast
  obtain nokey_res nokey_w where nokey_run: "Generate simLib ''a.com'' ''out'' [WithSignByParent ''out/ca_cert.pem'' ''out/no_key.pem''] simCA = (nokey_res, nokey_w)"
    by (cases "Generate simLib ''a.com'' ''out'' [WithSignByParent ''out/ca_cert.pem'' ''out/no_key.pem''] simCA")
  have nokey_p: "parentCert (applyOptions [WithSignByParent ''out/ca_cert.pem'' ''out/no_key.pem'']) \<noteq> []"
    by (simp add: applyOptions_def WithSignByParent_def)
  note nokey_pre = simCA_before_signer(1,2) [of "''out/ca_cert.pem''" "''out/no_key.pem''"] simCA_before_signer(3)
  from C2_signing_paths [OF nokey_run, THEN conjunct2, THEN conjunct1, rule_format,
      OF nokey_p conjI [OF host conjI [OF nokey_pre(1) conjI [OF nokey_pre(2) nokey_pre(3)]]]]
  have "case ParsePemCertFile simLib (parentCert (applyOptions [WithSignByParent ''out/ca_cert.pem'' ''out/no_key.pem'']))
          (simCA\<lparr>trace := [Call_rsa_GenerateKey 2048 (Inr (''rsapub'', ''rsapriv'')),
                           Call_time_Now 1000, Call_rand_Int serialNumberLimit (Inr 42)]\<rparr>) of
        (Inl err, wa) \<Rightarrow>
          nokey_res = Some err \<and> nokey_w = wa
          \<and> of_kind Signing (calls simCA nokey_w) = [] \<and> of_kind FileWrite (calls simCA nokey_w) = []
      | (Inr issuer, wa) \<Rightarrow>
          (case ParsePemKeyFile simLib (parentKey (applyOptions [WithSignByParent ''out/ca_cert.pem'' ''out/no_key.pem''])) wa of
             (Inl err, wb) \<Rightarrow>
               nokey_res = Some err \<and> nokey_w = wb
               \<and> of_kind Signing (calls simCA nokey_w) = [] \<and> of_kind FileWrite (calls simCA nokey_w) = []
           | (Inr k, wb) \<Rightarrow>
               of_kind Signing (calls simCA nokey_w) =
                 [Call_x509_CreateCertificate (buildTemplate simLib ''a.com'' (applyOptions [WithSignByParent ''out/ca_cert.pem'' ''out/no_key.pem'']) 42 1000
                       (time_Add simLib 1000 (validFor (applyOptions [WithSignByParent ''out/ca_cert.pem'' ''out/no_key.pem'']))) (keyUsageFor (RSAPrivateKey ''rsapub'' ''rsapriv''))) issuer
                    (case RSAPrivateKey ''rsapub'' ''rsapriv'' of
                       RSAPrivateKey n d \<Rightarrow> RSAPublicKey n
                     | ECDSAPrivateKey c n d \<Rightarrow> ECDSAPublicKey c n
                     | Ed25519PrivateKey s \<Rightarrow> Ed25519PublicKey (ed25519_Public simLib s)
                     | OtherPrivateKey b \<Rightarrow> NilPublicKey) k
                    (fst (x509_CreateCertificate simLib (buildTemplate simLib ''a.com'' (applyOptions [WithSignByParent ''out/ca_cert.pem'' ''out/no_key.pem'']) 42 1000
                       (time_Add simLib 1000 (validFor (applyOptions [WithSignByParent ''out/ca_cert.pem'' ''out/no_key.pem'']))) (keyUsageFor (RSAPrivateKey ''rsapub'' ''rsapriv''))) issuer
                       (case RSAPrivateKey ''rsapub'' ''rsapriv'' of
                       RSAPrivateKey n d \<Rightarrow> RSAPublicKey n
                     | ECDSAPrivateKey c n d \<Rightarrow> ECDSAPublicKey c n
                     | Ed25519PrivateKey s \<Rightarrow> Ed25519PublicKey (ed25519_Public simLib s)
                     | OtherPrivateKey b \<Rightarrow> NilPublicKey) k (env wb)))]
               \<and> (case RSAPrivateKey ''rsapub'' ''rsapriv'' of
                       RSAPrivateKey n d \<Rightarrow>
                         Call_rsa_GenerateKey (rsaBits (applyOptions [WithSignByParent ''out/ca_cert.pem'' ''out/no_key.pem''])) (Inr (n, d)) \<in> set (calls simCA nokey_w)
                     | ECDSAPrivateKey c n d \<Rightarrow> Call_ecdsa_GenerateKey c (Inr (n, d)) \<in> set (calls simCA nokey_w)
                     | Ed25519PrivateKey s \<Rightarrow> (\<exists>p. Call_ed25519_GenerateKey (Inr (p, s)) \<in> set (calls simCA nokey_w))
                     | OtherPrivateKey b \<Rightarrow> False))"
    .
  then have "nokey_res = Some (FailedToReadFile ''no such file'')
      \<and> of_kind Signing (calls simCA nokey_w) = [] \<and> of_kind FileWrite (calls simCA nokey_w) = []"
    by (auto simp: simCA_loads simCA_no_key_path sim_parent_paths)
  with nokey_run have nokey_c: "(\<exists>w'.
      Generate simLib ''a.com'' ''out'' [WithSignByParent ''out/ca_cert.pem'' ''out/no_key.pem''] simCA
        = (Some (FailedToReadFile ''no such file''), w')
      \<and> of_kind Signing (calls simCA w') = [] \<and> of_kind FileWrite (calls simCA w') = [])"
    by blast
  obtain swapped_res swapped_w where swapped_run: "Generate simLib ''a.com'' ''out'' [WithSignByParent ''out/ca_key.pem'' ''out/ca_key.pem''] simCA = (swapped_res, swapped_w)"
    by (cases "Generate simLib ''a.com'' ''out'' [WithSignByParent ''out/ca_key.pem'' ''out/ca_key.pem''] simCA")
  have swapped_p: "parentCert (applyOptions [WithSignByParent ''out/ca_key.pem'' ''out/ca_key.pem'']) \<noteq> []"
    by (simp add: applyOptions_def WithSignByParent_def)
  note swapped_pre = simCA_before_signer(1,2) [of "''out/ca_key.pem''" "''out/ca_key.pem''"] simCA_before_signer(3)
  from C2_signing_paths [OF swapped_run, THEN conjunct2, THEN conjunct1, rule_format,
      OF swapped_p conjI [OF host conjI [OF swapped_pre(1) conjI [OF swapped_pre(2) swapped_pre(3)]]]]
  have "case ParsePemCertFile simLib (parentCert (applyOptions [WithSignByParent ''out/ca_key.pem'' ''out/ca_key.pem'']))
          (simCA\<lparr>trace := [Call_rsa_GenerateKey 2048 (Inr (''rsapub'', ''rsapriv'')),
                           Call_time_Now 1000, Call_rand_Int serialNumberLimit (Inr 42)]\<rparr>) of
        (Inl err, wa) \<Rightarrow>
          swapped_res = Some err \<and> swapped_w = wa
          \<and> of_kind Signing (calls simCA swapped_w) = [] \<and> of_kind FileWrite (calls simCA swapped_w) = []
      | (Inr issuer, wa) \<Rightarrow>
          (case ParsePemKeyFile simLib (parentKey (applyOptions [WithSignByParent ''out/ca_key.pem'' ''out/ca_key.pem''])) wa of
             (Inl err, wb) \<Rightarrow>
               swapped_res = Some err \<and> swapped_w = wb
               \<and> of_kind Signing (calls simCA swapped_w) = [] \<and> of_kind FileWrite (calls simCA swapped_w) = []
           | (Inr k, wb) \<Rightarrow>
               of_kind Signing (calls simCA swapped_w) =
                 [Call_x509_CreateCertificate (buildTemplate simLib ''a.com'' (applyOptions [WithSignByParent ''out/ca_key.pem'' ''out/ca_key.pem'']) 42 1000
                       (time_Add simLib 1000 (validFor (applyOptions [WithSignByParent ''out/ca_key.pem'' ''out/ca_key.pem'']))) (keyUsageFor (RSAPrivateKey ''rsapub'' ''rsapriv''))) issuer
                    (case RSAPrivateKey ''rsapub'' ''rsapriv'' of
                       RSAPrivateKey n d \<Rightarrow> RSAPublicKey n
                     | ECDSAPrivateKey c n d \<Rightarrow> ECDSAPublicKey c n
                     | Ed25519PrivateKey s \<Rightarrow> Ed25519PublicKey (ed25519_Public simLib s)
                     | OtherPrivateKey b \<Rightarrow> NilPublicKey) k
                    (fst (x509_CreateCertificate simLib (buildTemplate simLib ''a.com'' (applyOptions [WithSignByParent ''out/ca_key.pem'' ''out/ca_key.pem'']) 42 1000
                       (time_Add simLib 1000 (validFor (applyOptions [WithSignByParent ''out/ca_key.pem'' ''out/ca_key.pem'']))) (keyUsageFor (RSAPrivateKey ''rsapub'' ''rsapriv''))) issuer
                       (case RSAPrivateKey ''rsapub'' ''rsapriv'' of
                       RSAPrivateKey n d \<Rightarrow> RSAPublicKey n
                     | ECDSAPrivateKey c n d \<Rightarrow> ECDSAPublicKey c n
                     | Ed25519PrivateKey s \<Rightarrow> Ed25519PublicKey (ed25519_Public simLib s)
                     | OtherPrivateKey b \<Rightarrow> NilPublicKey) k (env wb)))]
               \<and> (case RSAPrivateKey ''rsapub'' ''rsapriv'' of
                       RSAPrivateKey n d \<Rightarrow>
                         Call_rsa_GenerateKey (rsaBits (applyOptions [WithSignByParent ''out/ca_key.pem'' ''out/ca_key.pem''])) (Inr (n, d)) \<in> set (calls simCA swapped_w)
                     | ECDSAPrivateKey c n d \<Rightarrow> Call_ecdsa_GenerateKey c (Inr (n, d)) \<in> set (calls simCA swapped_w)
                     | Ed25519PrivateKey s \<Rightarrow> (\<exists>p. Call_ed25519_GenerateKey (Inr (p, s)) \<in> set (calls simCA swapped_w))
                     | OtherPrivateKey b \<Rightarrow> False))"
    .
  then have "swapped_res = Some (FailedToParseCertificatePEM)
      \<and> of_kind Signing (calls simCA swapped_w) = [] \<and> of_kind FileWrite (calls simCA swapped_w) = []"
    by (auto simp: simCA_loads simCA_no_key_path sim_parent_paths)
  with swapped_run have swapped_c: "(\<exists>w'.
      Generate simLib ''a.com'' ''out'' [WithSignByParent ''out/ca_key.pem'' ''out/ca_key.pem''] simCA
        = (Some (FailedToParseCertificatePEM), w')
      \<and> of_kind Signing (calls simCA w') = [] \<and> of_kind FileWrite (calls simCA w') = [])"
    by blast
  obtain empty_res empty_w where empty_run: "Generate simLib ''a.com'' ''out'' [WithSignByParent ''out/ca_cert.pem'' []] simCA = (empty_res, empty_w)"
    by (cases "Generate simLib ''a.com'' ''out'' [WithSignByParent ''out/ca_cert.pem'' []] simCA")
  have empty_p: "parentCert (applyOptions [WithSignByParent ''out/ca_cert.pem'' []]) \<noteq> []"
    by (simp add: applyOptions_def WithSignByParent_def)
  note empty_pre = simCA_before_signer(1,2) [of "''out/ca_cert.pem''" "[]"] simCA_before_signer(3)
  from C2_signing_paths [OF empty_run, THEN conjunct2, THEN conjunct1, rule_format,
      OF empty_p conjI [OF host conjI [OF empty_pre(1) conjI [OF empty_pre(2) empty_pre(3)]]]]
  have "case ParsePemCertFile simLib (parentCert (applyOptions [WithSignByParent ''out/ca_cert.pem'' []]))
          (simCA\<lparr>trace := [Call_rsa_GenerateKey 2048 (Inr (''rsapub'', ''rsapriv'')),
                           Call_time_Now 1000, Call_rand_Int serialNumberLimit (Inr 42)]\<rparr>) of
        (Inl err, wa) \<Rightarrow>
          empty_res = Some err \<and> empty_w = wa
          \<and> of_kind Signing (calls simCA empty_w) = [] \<and> of_kind FileWrite (calls simCA empty_w) = []
      | (Inr issuer, wa) \<Rightarrow>
          (case ParsePemKeyFile simLib (parentKey (applyOptions [WithSignByParent ''out/ca_cert.pem'' []])) wa of
             (Inl err, wb) \<Rightarrow>
               empty_res = Some err \<and> empty_w = wb
               \<and> of_kind Signing (calls simCA empty_w) = [] \<and> of_kind FileWrite (calls simCA empty_w) = []
           | (Inr k, wb) \<Rightarrow>
               of_kind Signing (calls simCA empty_w) =
                 [Call_x509_CreateCertificate (buildTemplate simLib ''a.com'' (applyOptions [WithSignByParent ''out/ca_cert.pem'' []]) 42 1000
                       (time_Add simLib 1000 (validFor (applyOptions [WithSignByParent ''out/ca_cert.pem'' []]))) (keyUsageFor (RSAPrivateKey ''rsapub'' ''rsapriv''))) issuer
                    (case RSAPrivateKey ''rsapub'' ''rsapriv'' of
                       RSAPrivateKey n d \<Rightarrow> RSAPublicKey n
                     | ECDSAPrivateKey c n d \<Rightarrow> ECDSAPublicKey c n
                     | Ed25519PrivateKey s \<Rightarrow> Ed25519PublicKey (ed25519_Public simLib s)
                     | OtherPrivateKey b \<Rightarrow> NilPublicKey) k
                    (fst (x509_CreateCertificate simLib (buildTemplate simLib ''a.com'' (applyOptions [WithSignByParent ''out/ca_cert.pem'' []]) 42 1000
                       (time_Add simLib 1000 (validFor (applyOptions [WithSignByParent ''out/ca_cert.pem'' []]))) (keyUsageFor (RSAPrivateKey ''rsapub'' ''rsapriv''))) issuer
                       (case RSAPrivateKey ''rsapub'' ''rsapriv'' of
                       RSAPrivateKey n d \<Rightarrow> RSAPublicKey n
                     | ECDSAPrivateKey c n d \<Rightarrow> ECDSAPublicKey c n
                     | Ed25519PrivateKey s \<Rightarrow> Ed25519PublicKey (ed25519_Public simLib s)
                     | OtherPrivateKey b \<Rightarrow> NilPublicKey) k (env wb)))]
               \<and> (case RSAPrivateKey ''rsapub'' ''rsapriv'' of
                       RSAPrivateKey n d \<Rightarrow>
                         Call_rsa_GenerateKey (rsaBits (applyOptions [WithSignByParent ''out/ca_cert.pem'' []])) (Inr (n, d)) \<in> set (calls simCA empty_w)
                     | ECDSAPrivateKey c n d \<Rightarrow> Call_ecdsa_GenerateKey c (Inr (n, d)) \<in> set (calls simCA empty_w)
                     | Ed25519PrivateKey s \<Rightarrow> (\<exists>p. Call_ed25519_GenerateKey (Inr (p, s)) \<in> set (calls simCA empty_w))
                     | OtherPrivateKey b \<Rightarrow> False))"
    .
  then have "empty_res = Some (FailedToReadFile ''no such file'')
      \<and> of_kind Signing (calls simCA empty_w) = [] \<and> of_kind FileWrite (calls simCA empty_w) = []"
    by (auto simp: simCA_loads simCA_no_key_path sim_parent_paths)
  with empty_run have empty_c: "(\<exists>w'.
      Generate simLib ''a.com'' ''out'' [WithSignByParent ''out/ca_cert.pem'' []] simCA
        = (Some (FailedToReadFile ''no such file''), w')
      \<and> of_kind Signing (calls simCA w') = [] \<and> of_kind FileWrite (calls simCA w') = [])"
    by blast
  from rsa_c ed_c good_c nokey_c swapped_c empty_c show ?thesis
    by (intro conjI)
qed

subsection \<open>Writing the certificate and the key\<close>


















end
